theory Spec2Isabelle
  imports Main "HOL-Library.Sublist"
begin

section \<open>JavaScript values and the built-ins the adapter relies on\<close>

text \<open>
  The adapter is TypeScript running on a JavaScript engine: payloads are parsed JSON, tool
  arguments are destructured objects, and the code tests them for truthiness, interpolates
  them into template literals and serialises them again. The model keeps those values
  dynamic.

  \<^item> A number of the engine is an IEEE double. \<open>JNum\<close> is an integer-valued number: every
    integer below \<open>2^53\<close> in magnitude is one, beyond that only the integers that a double
    holds are (\<open>round_double\<close> below); a \<open>JNum\<close> of another integer stands for no value of
    the engine. \<open>JFrac\<close> is a finite non-integer number carried by its decimal rendering
    (the adapter does no arithmetic on payload numbers), \<open>JInfinity\<close> an infinity with its
    sign (\<open>True\<close> for the negative one), \<open>JNaN\<close> the not-a-number result of a failed
    \<open>parseInt\<close>.
  \<^item> \<open>JObj\<close> lists the own properties of an object in enumeration order, keys distinct.
  \<^item> Strings are byte strings; on ASCII text they behave as the engine's strings do.
  \<^item> Inherited prototype members are not modelled: every property the modelled code reads
    is an own data property (or the \<open>length\<close> and the indices of an array or string).
\<close>

datatype jsval =
    JUndefined
  | JNull
  | JBool bool
  | JNum int
  | JFrac string
  | JInfinity bool
  | JNaN
  | JStr string
  | JArr "jsval list"
  | JObj "(string \<times> jsval) list"

text \<open>Truthiness, as tested by \<open>if (v)\<close>, \<open>a || b\<close> and \<open>c ? a : b\<close>.\<close>

fun truthy :: "jsval \<Rightarrow> bool" where
  "truthy JUndefined = False"
| "truthy JNull = False"
| "truthy (JBool b) = b"
| "truthy (JNum n) = (n \<noteq> 0)"
| "truthy (JFrac s) = True"
| "truthy (JInfinity neg) = True"
| "truthy JNaN = False"
| "truthy (JStr s) = (s \<noteq> [])"
| "truthy (JArr xs) = True"
| "truthy (JObj kvs) = True"

definition nullish :: "jsval \<Rightarrow> bool" where
  "nullish v = (v = JUndefined \<or> v = JNull)"

text \<open>\<open>Array.prototype.join\<close> on strings.\<close>

fun join :: "string \<Rightarrow> string list \<Rightarrow> string" where
  "join sep [] = []"
| "join sep [x] = x"
| "join sep (x # y # ys) = x @ sep @ join sep (y # ys)"

definition digit_char :: "nat \<Rightarrow> char" where
  "digit_char d = char_of (48 + d)"

fun show_nat :: "nat \<Rightarrow> string" where
  "show_nat n = (if n < 10 then [digit_char n] else show_nat (n div 10) @ [digit_char (n mod 10)])"

declare show_nat.simps [simp del]

subsection \<open>Numbers\<close>

text \<open>
  The double nearest to a non-negative integer, ties going to the even significand; \<open>None\<close>
  is the overflow to infinity. An integer below \<open>2^53\<close> is a double; a larger one keeps its
  53 leading bits.
\<close>

function bit_length :: "int \<Rightarrow> nat" where
  "bit_length n = (if n \<le> 0 then 0 else Suc (bit_length (n div 2)))"
  by pat_completeness auto

termination
  by (relation "measure nat") auto

declare bit_length.simps [simp del]

definition round_double :: "int \<Rightarrow> int option" where
  "round_double n =
     (if n < 9007199254740992 then Some n
      else (let q = 2 ^ (bit_length n - 53);
                m = n div q;
                r = n mod q;
                m' = (if q < 2 * r \<or> (2 * r = q \<and> odd m) then m + 1 else m)
            in if 2 ^ 1024 \<le> m' * q then None else Some (m' * q)))"

text \<open>The decimal digits of a non-negative integer.\<close>

function decimal :: "int \<Rightarrow> string" where
  "decimal n = (if n < 10 then [digit_char (nat n)]
                else decimal (n div 10) @ [digit_char (nat (n mod 10))])"
  by pat_completeness auto

termination
  by (relation "measure nat") auto

declare decimal.simps [simp del]

text \<open>
  \<open>Number::toString\<close> on an integer-valued double \<open>x\<close>: the digits are those of the decimal
  with the fewest significant digits that still reads back as \<open>x\<close>, the closest to \<open>x\<close> among
  those of that length (the one with the even last digit when two are equally close); a
  value of more than 21 digits is written with an exponent. \<open>closest_decimal x p\<close> looks
  among the multiples of the power of ten \<open>p\<close>. Below \<open>2^53\<close> every integer reads back as
  itself only, and the digits are its own.
\<close>

definition closest_decimal :: "int \<Rightarrow> int \<Rightarrow> int option" where
  "closest_decimal x p =
     (let lo = (x div p) * p;
          hi = lo + p;
          ok_lo = (round_double lo = Some x);
          ok_hi = (round_double hi = Some x)
      in if ok_lo \<and> ok_hi
         then Some (if x - lo < hi - x then lo
                    else if hi - x < x - lo then hi
                    else if even (x div p) then lo else hi)
         else if ok_lo then Some lo
         else if ok_hi then Some hi
         else None)"

definition shortest_decimal :: "int \<Rightarrow> int" where
  "shortest_decimal x =
     (let d = length (decimal x)
      in case List.map_filter (\<lambda>k. closest_decimal x (10 ^ (d - k))) [1..<18] of
           v # vs \<Rightarrow> v
         | [] \<Rightarrow> x)"

definition exponent_form :: "string \<Rightarrow> string" where
  "exponent_form ds =
     (let s = rev (dropWhile (\<lambda>c. c = CHR ''0'') (rev ds))
      in (case s of
            [] \<Rightarrow> ''0''
          | c # cs \<Rightarrow> if cs = [] then [c] else c # ''.'' @ cs)
         @ ''e+'' @ show_nat (length ds - 1))"

definition magnitude_toString :: "int \<Rightarrow> string" where
  "magnitude_toString x =
     (if x < 9007199254740992 then decimal x
      else case round_double x of
             None \<Rightarrow> ''Infinity''
           | Some d \<Rightarrow>
               (let ds = decimal (shortest_decimal d)
                in if length ds \<le> 21 then ds else exponent_form ds))"

definition Number_toString :: "int \<Rightarrow> string" where
  "Number_toString n =
     (if n < 0 then CHR ''-'' # magnitude_toString (- n) else magnitude_toString n)"

text \<open>\<open>String(v)\<close>, which is also what a template literal applies to an interpolated value.\<close>

fun to_string :: "jsval \<Rightarrow> string" where
  "to_string JUndefined = ''undefined''"
| "to_string JNull = ''null''"
| "to_string (JBool b) = (if b then ''true'' else ''false'')"
| "to_string (JNum n) = Number_toString n"
| "to_string (JFrac s) = s"
| "to_string (JInfinity neg) = (if neg then ''-Infinity'' else ''Infinity'')"
| "to_string JNaN = ''NaN''"
| "to_string (JStr s) = s"
| "to_string (JArr xs) =
     join '','' (map (\<lambda>x. if x = JUndefined \<or> x = JNull then [] else to_string x) xs)"
| "to_string (JObj kvs) = ''[object Object]''"

subsection \<open>JSON.stringify\<close>

definition hex_digit :: "nat \<Rightarrow> char" where
  "hex_digit d = (if d < 10 then char_of (48 + d) else char_of (87 + d))"

definition quote_char :: "char \<Rightarrow> string" where
  "quote_char c =
     (if c = CHR 0x08 then [CHR 0x5C, CHR ''b'']
      else if c = CHR 0x09 then [CHR 0x5C, CHR ''t'']
      else if c = CHR 0x0A then [CHR 0x5C, CHR ''n'']
      else if c = CHR 0x0C then [CHR 0x5C, CHR ''f'']
      else if c = CHR 0x0D then [CHR 0x5C, CHR ''r'']
      else if c = CHR 0x22 then [CHR 0x5C, CHR 0x22]
      else if c = CHR 0x5C then [CHR 0x5C, CHR 0x5C]
      else if (of_char c :: nat) < 32
        then [CHR 0x5C, CHR ''u'', CHR ''0'', CHR ''0'',
              hex_digit (of_char c div 16), hex_digit (of_char c mod 16)]
      else [c])"

definition quote :: "string \<Rightarrow> string" where
  "quote s = CHR 0x22 # concat (map quote_char s) @ [CHR 0x22]"

text \<open>
  The serialisation of one value at a given indentation, following the language standard:
  \<open>gap\<close> is the indentation unit (empty for the compact form), an \<open>undefined\<close> value has
  no serialisation (\<open>None\<close>), an object drops its \<open>undefined\<close> properties and an array
  writes them as \<open>null\<close>, a number that is not finite is written \<open>null\<close>.
\<close>

fun serialize :: "string \<Rightarrow> string \<Rightarrow> jsval \<Rightarrow> string option" where
  "serialize gap indent JUndefined = None"
| "serialize gap indent JNull = Some ''null''"
| "serialize gap indent (JBool b) = Some (if b then ''true'' else ''false'')"
| "serialize gap indent (JNum n) = Some (Number_toString n)"
| "serialize gap indent (JFrac s) = Some s"
| "serialize gap indent (JInfinity neg) = Some ''null''"
| "serialize gap indent JNaN = Some ''null''"
| "serialize gap indent (JStr s) = Some (quote s)"
| "serialize gap indent (JArr xs) =
     (let stepback = indent;
          indent = indent @ gap;
          partial = map (\<lambda>x. case serialize gap indent x of None \<Rightarrow> ''null'' | Some s \<Rightarrow> s) xs
      in Some (if partial = [] then ''[]''
               else if gap = [] then ''['' @ join '','' partial @ '']''
               else ''['' @ [CHR 0x0A] @ indent @ join ('','' @ [CHR 0x0A] @ indent) partial
                    @ [CHR 0x0A] @ stepback @ '']''))"
| "serialize gap indent (JObj kvs) =
     (let stepback = indent;
          indent = indent @ gap;
          partial = concat (map (\<lambda>(k, v). case serialize gap indent v of
                                    None \<Rightarrow> []
                                  | Some s \<Rightarrow> [quote k @ '':''
                                      @ (if gap = [] then [] else '' '') @ s]) kvs)
      in Some (if partial = [] then ''{}''
               else if gap = [] then ''{'' @ join '','' partial @ ''}''
               else ''{'' @ [CHR 0x0A] @ indent @ join ('','' @ [CHR 0x0A] @ indent) partial
                    @ [CHR 0x0A] @ stepback @ ''}''))"

text \<open>\<open>JSON.stringify(v)\<close> and \<open>JSON.stringify(v, null, 2)\<close>.\<close>

definition JSON_stringify :: "jsval \<Rightarrow> string option" where
  "JSON_stringify v = serialize [] [] v"

definition JSON_stringify2 :: "jsval \<Rightarrow> string option" where
  "JSON_stringify2 v = serialize ''  '' [] v"

subsection \<open>Errors (utils/errors.ts)\<close>

text \<open>
  Modelled from the spec: the module \<open>utils/errors.ts\<close> (the classes \<open>MiroApiError\<close>,
  \<open>AuthenticationError\<close>, \<open>RateLimitError\<close> and the helper \<open>formatErrorForLogging\<close>) is
  not among the sources. The spec gives the remote error as a tagged variant: Authentication,
  RateLimited with the retry-after seconds, Generic with the HTTP status and a message; a
  RateLimited failure is the one that is marked retryable. The constructors below take the
  arguments the client passes. \<open>JsError\<close> stands for every other \<open>Error\<close> instance: a
  fault raised by the engine or a plain \<open>new Error(..)\<close>. The wording of an engine fault
  differs between engines; no property below depends on it.
\<close>

datatype error =
    AuthenticationError string
  | RateLimitError string jsval
  | MiroApiError string nat
  | JsError string

definition TypeError :: error where
  "TypeError = JsError ''TypeError''"

definition SyntaxError :: error where
  "SyntaxError = JsError ''SyntaxError''"

text \<open>Modelled from the spec: \<open>error.message\<close>, the message the constructor was given.\<close>

fun message_of :: "error \<Rightarrow> string" where
  "message_of (AuthenticationError m) = m"
| "message_of (RateLimitError m r) = m"
| "message_of (MiroApiError m st) = m"
| "message_of (JsError m) = m"

text \<open>
  Modelled from the spec: \<open>error instanceof MiroApiError\<close>. The three variants of the remote
  error are of that class (the base class, not among the sources).
\<close>

fun instanceof_MiroApiError :: "error \<Rightarrow> bool" where
  "instanceof_MiroApiError (JsError m) = False"
| "instanceof_MiroApiError e = True"

text \<open>
  Modelled from the spec: \<open>error.retryable\<close>, a property of the missing class. A RateLimited
  failure is the retryable one.
\<close>

fun retryable :: "error \<Rightarrow> bool" where
  "retryable (RateLimitError m r) = True"
| "retryable e = False"

text \<open>
  Modelled from the spec: \<open>formatErrorForLogging\<close> renders an error as a structured value
  carrying the variant's data: the suggested wait of a RateLimited failure, the HTTP status
  of a Generic one.
\<close>

fun formatErrorForLogging :: "error \<Rightarrow> jsval" where
  "formatErrorForLogging (AuthenticationError m) =
     JObj [(''name'', JStr ''AuthenticationError''), (''message'', JStr m)]"
| "formatErrorForLogging (RateLimitError m r) =
     JObj [(''name'', JStr ''RateLimitError''), (''message'', JStr m), (''retryable'', JBool True),
           (''retryAfter'', r)]"
| "formatErrorForLogging (MiroApiError m st) =
     JObj [(''name'', JStr ''MiroApiError''), (''message'', JStr m),
         (''statusCode'', JNum (int st))]"
| "formatErrorForLogging (JsError m) =
     JObj [(''name'', JStr ''Error''), (''message'', JStr m)]"

subsection \<open>Property access\<close>

text \<open>\<open>Object.keys(v)\<close>: a fault on \<open>null\<close> and \<open>undefined\<close>.\<close>

definition Object_keys :: "jsval \<Rightarrow> error + string list" where
  "Object_keys v =
     (case v of
        JUndefined \<Rightarrow> Inl TypeError
      | JNull \<Rightarrow> Inl TypeError
      | JObj kvs \<Rightarrow> Inr (map fst kvs)
      | JArr xs \<Rightarrow> Inr (map show_nat [0..<length xs])
      | JStr s \<Rightarrow> Inr (map show_nat [0..<length s])
      | _ \<Rightarrow> Inr [])"

text \<open>\<open>v[k]\<close> and \<open>v.k\<close> on a value that is not \<open>null\<close> or \<open>undefined\<close>.\<close>

definition js_prop :: "jsval \<Rightarrow> string \<Rightarrow> jsval" where
  "js_prop v k =
     (case v of
        JObj kvs \<Rightarrow> (case map_of kvs k of Some x \<Rightarrow> x | None \<Rightarrow> JUndefined)
      | JArr xs \<Rightarrow>
          (if k = ''length'' then JNum (int (length xs))
           else case find (\<lambda>i. show_nat i = k) [0..<length xs] of
                  Some i \<Rightarrow> xs ! i | None \<Rightarrow> JUndefined)
      | JStr s \<Rightarrow>
          (if k = ''length'' then JNum (int (length s))
           else case find (\<lambda>i. show_nat i = k) [0..<length s] of
                  Some i \<Rightarrow> JStr [s ! i] | None \<Rightarrow> JUndefined)
      | _ \<Rightarrow> JUndefined)"

text \<open>\<open>v[k]\<close> and \<open>v.k\<close> in general: reading a property of \<open>null\<close> or \<open>undefined\<close> is a fault.\<close>

definition get_prop :: "jsval \<Rightarrow> string \<Rightarrow> error + jsval" where
  "get_prop v k = (if nullish v then Inl TypeError else Inr (js_prop v k))"

text \<open>\<open>v?.k\<close>.\<close>

definition opt_prop :: "jsval \<Rightarrow> string \<Rightarrow> jsval" where
  "opt_prop v k = (if nullish v then JUndefined else js_prop v k)"

text \<open>\<open>k in v\<close>: a fault unless \<open>v\<close> is an object or an array.\<close>

definition has_prop :: "string \<Rightarrow> jsval \<Rightarrow> error + bool" where
  "has_prop k v =
     (case v of
        JObj kvs \<Rightarrow> Inr (k \<in> set (map fst kvs))
      | JArr xs \<Rightarrow> Inr (k = ''length'' \<or> k \<in> set (map show_nat [0..<length xs]))
      | _ \<Rightarrow> Inl TypeError)"

text \<open>The own enumerable properties copied by an object spread \<open>{...v}\<close> and by \<open>Object.entries\<close>.\<close>

definition own_entries :: "jsval \<Rightarrow> (string \<times> jsval) list" where
  "own_entries v =
     (case v of
        JObj kvs \<Rightarrow> kvs
      | JArr xs \<Rightarrow> map (\<lambda>i. (show_nat i, xs ! i)) [0..<length xs]
      | JStr s \<Rightarrow> map (\<lambda>i. (show_nat i, JStr [s ! i])) [0..<length s]
      | _ \<Rightarrow> [])"

text \<open>\<open>obj.k = v\<close> on a fresh object: an existing key keeps its place, a new one goes last.\<close>

definition set_prop :: "('k \<times> 'v) list \<Rightarrow> 'k \<Rightarrow> 'v \<Rightarrow> ('k \<times> 'v) list" where
  "set_prop kvs k v =
     (if k \<in> set (map fst kvs) then map (\<lambda>(k', v'). if k' = k then (k', v) else (k', v')) kvs
      else kvs @ [(k, v)])"

subsection \<open>String built-ins\<close>

definition is_space :: "char \<Rightarrow> bool" where
  "is_space c = (c \<in> set [CHR 0x09, CHR 0x0A, CHR 0x0B, CHR 0x0C, CHR 0x0D, CHR 0x20])"

definition is_digit :: "char \<Rightarrow> bool" where
  "is_digit c = (48 \<le> (of_char c :: nat) \<and> (of_char c :: nat) \<le> 57)"

definition digits_value :: "string \<Rightarrow> int" where
  "digits_value ds = foldl (\<lambda>acc c. 10 * acc + (of_char c - 48)) 0 ds"

text \<open>
  \<open>parseInt(s, 10)\<close>: leading white space is skipped, then an optional sign, then the
  longest run of decimal digits is read; without a digit the result is \<open>NaN\<close>. The result
  is a number of the engine: the double nearest to the integer read, so an integer beyond
  \<open>2^53\<close> is rounded and one beyond the largest double is an infinity. (The language
  standard lets an engine ignore the digits after the twentieth; the engines round the
  integer as written, and so does the model.)
\<close>

definition parseInt :: "string \<Rightarrow> jsval" where
  "parseInt s =
     (let s1 = dropWhile is_space s;
          neg = (case s1 of c # _ \<Rightarrow> c = CHR ''-'' | [] \<Rightarrow> False);
          s2 = (case s1 of c # r \<Rightarrow> if c = CHR ''-'' \<or> c = CHR ''+'' then r else s1 | [] \<Rightarrow> s1);
          ds = takeWhile is_digit s2
      in if ds = [] then JNaN
         else case round_double (digits_value ds) of
                None \<Rightarrow> JInfinity neg
              | Some d \<Rightarrow> JNum (if neg then - d else d))"

definition trim :: "string \<Rightarrow> string" where
  "trim s = rev (dropWhile is_space (rev (dropWhile is_space s)))"

fun split_on :: "char \<Rightarrow> string \<Rightarrow> string list" where
  "split_on c [] = [[]]"
| "split_on c (x # xs) =
     (if x = c then [] # split_on c xs
      else case split_on c xs of y # ys \<Rightarrow> (x # y) # ys | [] \<Rightarrow> [[x]])"

definition upper_char :: "char \<Rightarrow> char" where
  "upper_char c =
     (if 97 \<le> (of_char c :: nat) \<and> (of_char c :: nat) \<le> 122 then char_of ((of_char c :: nat) - 32) else c)"

definition is_upper :: "char \<Rightarrow> bool" where
  "is_upper c = (65 \<le> (of_char c :: nat) \<and> (of_char c :: nat) \<le> 90)"

text \<open>The serialisation of a \<open>URLSearchParams\<close> object (form encoding).\<close>

definition is_form_safe :: "char \<Rightarrow> bool" where
  "is_form_safe c =
     (is_digit c \<or> is_upper c \<or> (97 \<le> (of_char c :: nat) \<and> (of_char c :: nat) \<le> 122)
      \<or> c \<in> set ''*-._'')"

definition hex_upper :: "nat \<Rightarrow> char" where
  "hex_upper d = (if d < 10 then char_of (48 + d) else char_of (55 + d))"

definition form_encode_char :: "char \<Rightarrow> string" where
  "form_encode_char c =
     (if is_form_safe c then [c]
      else if c = CHR '' '' then ''+''
      else [CHR ''%'', hex_upper (of_char c div 16), hex_upper (of_char c mod 16)])"

definition form_encode :: "string \<Rightarrow> string" where
  "form_encode s = concat (map form_encode_char s)"

definition URLSearchParams_toString :: "(string \<times> string) list \<Rightarrow> string" where
  "URLSearchParams_toString ps = join ''&'' (map (\<lambda>(k, v). form_encode k @ ''=''
      @ form_encode v) ps)"

section \<open>Tenant credentials and configuration (types/env.ts)\<close>

record TenantCredentials =
  accessToken :: string

text \<open>
  An inbound request, as far as the front door reads it: the path of its URL, its method,
  and \<open>headers.get\<close> as a partial function of the header name asked for.
\<close>

record inbound_request =
  in_pathname :: string
  in_method :: string
  in_headers :: "string \<rightharpoonup> string"

definition parseTenantCredentials :: "inbound_request \<Rightarrow> TenantCredentials" where
  "parseTenantCredentials request =
     \<lparr>accessToken = (case in_headers request ''X-Miro-Access-Token'' of
                       Some v \<Rightarrow> if v \<noteq> [] then v else []
                     | None \<Rightarrow> [])\<rparr>"

definition validateCredentials :: "TenantCredentials \<Rightarrow> error + unit" where
  "validateCredentials credentials =
     (if accessToken credentials = []
      then Inl (JsError ''Missing credentials. Provide X-Miro-Access-Token header.'')
      else Inr ())"

text \<open>
  The configuration: \<open>env[key]\<close> as a function of the key, an absent binding being
  \<open>undefined\<close>. \<open>getEnvNumber\<close> reads a configured number: a value that is no string,
  or that does not parse, falls back to the default.
\<close>

type_synonym Env = "string \<Rightarrow> jsval"

definition getEnvNumber :: "Env \<Rightarrow> string \<Rightarrow> jsval \<Rightarrow> jsval" where
  "getEnvNumber env key defaultValue =
     (case env key of
        JStr v \<Rightarrow> (let parsed = parseInt v in if parsed = JNaN then defaultValue else parsed)
      | _ \<Rightarrow> defaultValue)"

definition getCharacterLimit :: "Env \<Rightarrow> jsval" where
  "getCharacterLimit env = getEnvNumber env ''CHARACTER_LIMIT'' (JNum 50000)"

definition getDefaultPageSize :: "Env \<Rightarrow> jsval" where
  "getDefaultPageSize env = getEnvNumber env ''DEFAULT_PAGE_SIZE'' (JNum 20)"

definition getMaxPageSize :: "Env \<Rightarrow> jsval" where
  "getMaxPageSize env = getEnvNumber env ''MAX_PAGE_SIZE'' (JNum 100)"

section \<open>The typed remote client (client.ts)\<close>

subsection \<open>The remote service\<close>

text \<open>
  An outgoing HTTP request as the global \<open>fetch\<close> receives it, and the response as the
  client reads it: the status, \<open>headers.get\<close> as a partial function of the header name, and
  the body, which either is a JSON document (given by the value it parses to; such a value
  holds no \<open>undefined\<close> and no \<open>NaN\<close>) or is text that does not parse as JSON.
\<close>

record http_request =
  req_url :: string
  req_method :: string
  req_headers :: "(string \<times> string) list"
  req_body :: "string option"

datatype wire_body = Json_body jsval | Not_json string

record http_response =
  res_status :: nat
  res_headers :: "string \<rightharpoonup> string"
  res_body :: wire_body

text \<open>
  The remote service answers a request, given the requests issued before it; \<open>None\<close> is a
  network failure, on which \<open>fetch\<close> rejects. The state threaded through every call is the
  log of the requests issued so far.
\<close>

type_synonym remote = "http_request list \<Rightarrow> http_request \<Rightarrow> http_response option"

type_synonym 'a call = "http_request list \<Rightarrow> (error + 'a) \<times> http_request list"

definition ok :: "'a \<Rightarrow> 'a call" where
  "ok v log = (Inr v, log)"

definition throw :: "error \<Rightarrow> 'a call" where
  "throw e log = (Inl e, log)"

text \<open>\<open>const v = await m; f(v)\<close>: a rejection of \<open>m\<close> propagates.\<close>

definition await :: "'a call \<Rightarrow> ('a \<Rightarrow> 'b call) \<Rightarrow> 'b call" where
  "await m f log = (case m log of (Inl e, log') \<Rightarrow> (Inl e, log') | (Inr v, log') \<Rightarrow> f v log')"

definition lift :: "error + 'a \<Rightarrow> 'a call" where
  "lift r log = (r, log)"

definition response_ok :: "http_response \<Rightarrow> bool" where
  "response_ok response = (200 \<le> res_status response \<and> res_status response \<le> 299)"

text \<open>\<open>JSON.parse(await response.text())\<close> and \<open>response.json()\<close>.\<close>

definition JSON_parse :: "wire_body \<Rightarrow> error + jsval" where
  "JSON_parse b = (case b of Json_body v \<Rightarrow> Inr v | Not_json t \<Rightarrow> Inl SyntaxError)"

subsection \<open>HTTP request helper\<close>

definition API_BASE_URL :: string where
  "API_BASE_URL = ''https://api.miro.com/v2''"

record RequestInit =
  init_method :: "string option"
  init_headers :: "(string \<times> string) list"
  init_body :: "string option"

definition GET :: RequestInit where
  "GET = \<lparr>init_method = None, init_headers = [], init_body = None\<rparr>"

definition with_method :: "string \<Rightarrow> RequestInit" where
  "with_method m = \<lparr>init_method = Some m, init_headers = [], init_body = None\<rparr>"

definition with_body :: "string \<Rightarrow> string option \<Rightarrow> RequestInit" where
  "with_body m b = \<lparr>init_method = Some m, init_headers = [], init_body = b\<rparr>"

definition getAuthHeaders :: "TenantCredentials \<Rightarrow> error + (string \<times> string) list" where
  "getAuthHeaders this =
     (if accessToken this = []
      then Inl (AuthenticationError ''No access token provided. Include X-Miro-Access-Token header.'')
      else Inr [(''Authorization'', ''Bearer '' @ accessToken this),
                (''Content-Type'', ''application/json'')])"

text \<open>
  The message of a Generic failure: the \<open>message\<close> field of the JSON error body if truthy,
  else its \<open>error\<close> field if truthy, else the default; a body that does not parse, or that
  parses to \<open>null\<close>, leaves the default. The error's constructor turns the message into a
  string.
\<close>

definition error_message :: "http_response \<Rightarrow> string" where
  "error_message response =
     (let message = ''Miro API error: '' @ show_nat (res_status response)
      in case JSON_parse (res_body response) of
           Inl e \<Rightarrow> message
         | Inr errorJson \<Rightarrow>
             (case get_prop errorJson ''message'' of
                Inl e \<Rightarrow> message
              | Inr m \<Rightarrow>
                  if truthy m then to_string m
                  else if truthy (js_prop errorJson ''error'') then to_string (js_prop errorJson ''error'')
                  else message))"

definition handle_response :: "http_response \<Rightarrow> error + jsval" where
  "handle_response response =
     (if res_status response = 429 then
        (let retryAfter = res_headers response ''Retry-After''
         in Inl (RateLimitError ''Rate limit exceeded''
                   (case retryAfter of
                      Some s \<Rightarrow> if s \<noteq> [] then parseInt s else JNum 60
                    | None \<Rightarrow> JNum 60)))
      else if res_status response = 401 \<or> res_status response = 403 then
        Inl (AuthenticationError ''Authentication failed. Check your Miro access token.'')
      else if \<not> response_ok response then
        Inl (MiroApiError (error_message response) (res_status response))
      else if res_status response = 204 then Inr JUndefined
      else JSON_parse (res_body response))"

text \<open>
  \<open>request\<close>: the authorisation headers are computed while the arguments of \<open>fetch\<close> are
  evaluated, so a missing token fails before \<open>fetch\<close> is called. A request handed to
  \<open>fetch\<close> is logged, whatever the network then does.
\<close>

definition request :: "TenantCredentials \<Rightarrow> remote \<Rightarrow> string \<Rightarrow> RequestInit \<Rightarrow> jsval call" where
  "request this remote endpoint options log =
     (let url = API_BASE_URL @ endpoint
      in case getAuthHeaders this of
           Inl e \<Rightarrow> (Inl e, log)
         | Inr auth \<Rightarrow>
             (let req = \<lparr>req_url = url,
                         req_method = (case init_method options of Some m \<Rightarrow> m | None \<Rightarrow> ''GET''),
                         req_headers = fold (\<lambda>(k, v) hs. set_prop hs k v) (init_headers options) auth,
                         req_body = init_body options\<rparr>
              in case remote log req of
                   None \<Rightarrow> (Inl (JsError ''fetch failed''), log @ [req])
                 | Some response \<Rightarrow> (handle_response response, log @ [req])))"

definition buildQueryString :: "(string \<times> jsval) list \<Rightarrow> string" where
  "buildQueryString params =
     (let query = map (\<lambda>(key, v). (key, to_string v)) (filter (\<lambda>(key, v). v \<noteq> JUndefined) params);
          str = URLSearchParams_toString query
      in if str \<noteq> [] then ''?'' @ str else [])"

subsection \<open>Connection\<close>

definition testConnection :: "TenantCredentials \<Rightarrow> remote \<Rightarrow> jsval call" where
  "testConnection this remote log =
     (case await (request this remote ''/users/me'' GET)
             (\<lambda>user. await (lift (get_prop user ''name''))
                (\<lambda>name. ok (JObj [(''connected'', JBool True),
                                   (''message'', JStr (''Connected as '' @ to_string name)),
                                   (''user'', user)]))) log of
        (Inl e, log') \<Rightarrow>
          (Inr (JObj [(''connected'', JBool False), (''message'', JStr (message_of e))]), log')
      | (Inr r, log') \<Rightarrow> (Inr r, log'))"

subsection \<open>Boards\<close>

definition listBoards :: "TenantCredentials \<Rightarrow> remote \<Rightarrow> jsval \<Rightarrow> jsval call" where
  "listBoards this remote params =
     request this remote (''/boards'' @ buildQueryString [(''limit'', opt_prop params ''limit''),
         (''cursor'', opt_prop params ''cursor''), (''team_id'', opt_prop params ''teamId''),
         (''query'', opt_prop params ''query''), (''sort'', opt_prop params ''sort'')]) GET"

definition getBoard :: "TenantCredentials \<Rightarrow> remote \<Rightarrow> jsval \<Rightarrow> jsval call" where
  "getBoard this remote boardId =
     request this remote (''/boards/'' @ to_string boardId) GET"

definition createBoard :: "TenantCredentials \<Rightarrow> remote \<Rightarrow> jsval \<Rightarrow> jsval call" where
  "createBoard this remote input =
     request this remote (''/boards'')
       (with_body ''POST'' (JSON_stringify input))"

definition updateBoard :: "TenantCredentials \<Rightarrow> remote \<Rightarrow> jsval \<Rightarrow> jsval \<Rightarrow> jsval call" where
  "updateBoard this remote boardId input =
     request this remote (''/boards/'' @ to_string boardId)
       (with_body ''PATCH'' (JSON_stringify input))"

definition deleteBoard :: "TenantCredentials \<Rightarrow> remote \<Rightarrow> jsval \<Rightarrow> jsval call" where
  "deleteBoard this remote boardId =
     await (request this remote (''/boards/'' @ to_string boardId) (with_method ''DELETE''))
       (\<lambda>r. ok JUndefined)"

definition copyBoard :: "TenantCredentials \<Rightarrow> remote \<Rightarrow> jsval \<Rightarrow> jsval \<Rightarrow> jsval call" where
  "copyBoard this remote boardId input =
     (let body = (if truthy (opt_prop input ''name'') then [(''name'', opt_prop input ''name'')] else [])
                 @ (if truthy (opt_prop input ''teamId'') then [(''team_id'', opt_prop input ''teamId'')] else [])
      in request this remote (''/boards/'' @ to_string boardId @ ''/copy'')
           (with_body ''PUT'' (JSON_stringify (JObj body))))"

subsection \<open>Board members\<close>

definition listBoardMembers :: "TenantCredentials \<Rightarrow> remote \<Rightarrow> jsval \<Rightarrow> jsval \<Rightarrow> jsval call" where
  "listBoardMembers this remote boardId params =
     request this remote (''/boards/'' @ to_string boardId @ ''/members''
         @ buildQueryString [(''limit'', opt_prop params ''limit''),
         (''cursor'', opt_prop params ''cursor'')]) GET"

definition getBoardMember :: "TenantCredentials \<Rightarrow> remote \<Rightarrow> jsval \<Rightarrow> jsval \<Rightarrow> jsval call" where
  "getBoardMember this remote boardId memberId =
     request this remote (''/boards/'' @ to_string boardId @ ''/members/''
         @ to_string memberId) GET"

record ShareBoardInput =
  share_emails :: jsval
  share_role :: jsval
  share_message :: jsval

definition shareBoard :: "TenantCredentials \<Rightarrow> remote \<Rightarrow> jsval \<Rightarrow> ShareBoardInput \<Rightarrow> jsval call" where
  "shareBoard this remote boardId input =
     await (request this remote (''/boards/'' @ to_string boardId @ ''/members'')
              (with_body ''POST'' (JSON_stringify (JObj
                 [(''emails'', share_emails input),
                  (''role'', if truthy (share_role input) then share_role input else JStr ''viewer''),
                  (''message'', share_message input)]))))
       (\<lambda>r. ok JUndefined)"

definition updateBoardMember :: "TenantCredentials \<Rightarrow> remote \<Rightarrow> jsval \<Rightarrow> jsval \<Rightarrow> jsval \<Rightarrow> jsval call" where
  "updateBoardMember this remote boardId memberId role =
     request this remote (''/boards/'' @ to_string boardId @ ''/members/'' @ to_string memberId)
       (with_body ''PATCH'' (JSON_stringify (JObj [(''role'', role)])))"

definition removeBoardMember :: "TenantCredentials \<Rightarrow> remote \<Rightarrow> jsval \<Rightarrow> jsval \<Rightarrow> jsval call" where
  "removeBoardMember this remote boardId memberId =
     await (request this remote (''/boards/'' @ to_string boardId @ ''/members/''
         @ to_string memberId) (with_method ''DELETE''))
       (\<lambda>r. ok JUndefined)"

subsection \<open>Generic items\<close>

definition listItems :: "TenantCredentials \<Rightarrow> remote \<Rightarrow> jsval \<Rightarrow> jsval \<Rightarrow> jsval call" where
  "listItems this remote boardId params =
     request this remote (''/boards/'' @ to_string boardId @ ''/items''
         @ buildQueryString [(''limit'', opt_prop params ''limit''),
         (''cursor'', opt_prop params ''cursor''), (''type'', opt_prop params ''type'')]) GET"

definition getItem :: "TenantCredentials \<Rightarrow> remote \<Rightarrow> jsval \<Rightarrow> jsval \<Rightarrow> jsval call" where
  "getItem this remote boardId itemId =
     request this remote (''/boards/'' @ to_string boardId @ ''/items/'' @ to_string itemId) GET"

definition updateItemPosition :: "TenantCredentials \<Rightarrow> remote \<Rightarrow> jsval \<Rightarrow> jsval \<Rightarrow> jsval \<Rightarrow> jsval \<Rightarrow> jsval call" where
  "updateItemPosition this remote boardId itemId position parentId =
     (let body = [(''position'', position)]
                 @ (if truthy parentId then [(''parent'', JObj [(''id'', parentId)])] else [])
      in request this remote (''/boards/'' @ to_string boardId @ ''/items/'' @ to_string itemId)
           (with_body ''PATCH'' (JSON_stringify (JObj body))))"

definition deleteItem :: "TenantCredentials \<Rightarrow> remote \<Rightarrow> jsval \<Rightarrow> jsval \<Rightarrow> jsval call" where
  "deleteItem this remote boardId itemId =
     await (request this remote (''/boards/'' @ to_string boardId @ ''/items/''
         @ to_string itemId) (with_method ''DELETE''))
       (\<lambda>r. ok JUndefined)"

subsection \<open>Sticky notes\<close>

definition listStickyNotes :: "TenantCredentials \<Rightarrow> remote \<Rightarrow> jsval \<Rightarrow> jsval \<Rightarrow> jsval call" where
  "listStickyNotes this remote boardId params =
     listItems this remote boardId (JObj (set_prop (own_entries params) ''type'' (JStr ''sticky_note'')))"

definition getStickyNote :: "TenantCredentials \<Rightarrow> remote \<Rightarrow> jsval \<Rightarrow> jsval \<Rightarrow> jsval call" where
  "getStickyNote this remote boardId itemId =
     request this remote (''/boards/'' @ to_string boardId @ ''/sticky_notes/''
         @ to_string itemId) GET"

definition createStickyNote :: "TenantCredentials \<Rightarrow> remote \<Rightarrow> jsval \<Rightarrow> jsval \<Rightarrow> jsval call" where
  "createStickyNote this remote boardId input =
     request this remote (''/boards/'' @ to_string boardId @ ''/sticky_notes'')
       (with_body ''POST'' (JSON_stringify input))"

definition updateStickyNote :: "TenantCredentials \<Rightarrow> remote \<Rightarrow> jsval \<Rightarrow> jsval \<Rightarrow> jsval \<Rightarrow> jsval call" where
  "updateStickyNote this remote boardId itemId input =
     request this remote (''/boards/'' @ to_string boardId @ ''/sticky_notes/'' @ to_string itemId)
       (with_body ''PATCH'' (JSON_stringify input))"

definition deleteStickyNote :: "TenantCredentials \<Rightarrow> remote \<Rightarrow> jsval \<Rightarrow> jsval \<Rightarrow> jsval call" where
  "deleteStickyNote this remote boardId itemId =
     await (request this remote (''/boards/'' @ to_string boardId @ ''/sticky_notes/''
         @ to_string itemId) (with_method ''DELETE''))
       (\<lambda>r. ok JUndefined)"

subsection \<open>Shapes\<close>

definition listShapes :: "TenantCredentials \<Rightarrow> remote \<Rightarrow> jsval \<Rightarrow> jsval \<Rightarrow> jsval call" where
  "listShapes this remote boardId params =
     listItems this remote boardId (JObj (set_prop (own_entries params) ''type'' (JStr ''shape'')))"

definition getShape :: "TenantCredentials \<Rightarrow> remote \<Rightarrow> jsval \<Rightarrow> jsval \<Rightarrow> jsval call" where
  "getShape this remote boardId itemId =
     request this remote (''/boards/'' @ to_string boardId @ ''/shapes/'' @ to_string itemId) GET"

definition createShape :: "TenantCredentials \<Rightarrow> remote \<Rightarrow> jsval \<Rightarrow> jsval \<Rightarrow> jsval call" where
  "createShape this remote boardId input =
     request this remote (''/boards/'' @ to_string boardId @ ''/shapes'')
       (with_body ''POST'' (JSON_stringify input))"

definition updateShape :: "TenantCredentials \<Rightarrow> remote \<Rightarrow> jsval \<Rightarrow> jsval \<Rightarrow> jsval \<Rightarrow> jsval call" where
  "updateShape this remote boardId itemId input =
     request this remote (''/boards/'' @ to_string boardId @ ''/shapes/'' @ to_string itemId)
       (with_body ''PATCH'' (JSON_stringify input))"

definition deleteShape :: "TenantCredentials \<Rightarrow> remote \<Rightarrow> jsval \<Rightarrow> jsval \<Rightarrow> jsval call" where
  "deleteShape this remote boardId itemId =
     await (request this remote (''/boards/'' @ to_string boardId @ ''/shapes/''
         @ to_string itemId) (with_method ''DELETE''))
       (\<lambda>r. ok JUndefined)"

subsection \<open>Text\<close>

definition listTexts :: "TenantCredentials \<Rightarrow> remote \<Rightarrow> jsval \<Rightarrow> jsval \<Rightarrow> jsval call" where
  "listTexts this remote boardId params =
     listItems this remote boardId (JObj (set_prop (own_entries params) ''type'' (JStr ''text'')))"

definition getText :: "TenantCredentials \<Rightarrow> remote \<Rightarrow> jsval \<Rightarrow> jsval \<Rightarrow> jsval call" where
  "getText this remote boardId itemId =
     request this remote (''/boards/'' @ to_string boardId @ ''/texts/'' @ to_string itemId) GET"

definition createText :: "TenantCredentials \<Rightarrow> remote \<Rightarrow> jsval \<Rightarrow> jsval \<Rightarrow> jsval call" where
  "createText this remote boardId input =
     request this remote (''/boards/'' @ to_string boardId @ ''/texts'')
       (with_body ''POST'' (JSON_stringify input))"

definition updateText :: "TenantCredentials \<Rightarrow> remote \<Rightarrow> jsval \<Rightarrow> jsval \<Rightarrow> jsval \<Rightarrow> jsval call" where
  "updateText this remote boardId itemId input =
     request this remote (''/boards/'' @ to_string boardId @ ''/texts/'' @ to_string itemId)
       (with_body ''PATCH'' (JSON_stringify input))"

definition deleteText :: "TenantCredentials \<Rightarrow> remote \<Rightarrow> jsval \<Rightarrow> jsval \<Rightarrow> jsval call" where
  "deleteText this remote boardId itemId =
     await (request this remote (''/boards/'' @ to_string boardId @ ''/texts/''
         @ to_string itemId) (with_method ''DELETE''))
       (\<lambda>r. ok JUndefined)"

subsection \<open>Cards\<close>

definition listCards :: "TenantCredentials \<Rightarrow> remote \<Rightarrow> jsval \<Rightarrow> jsval \<Rightarrow> jsval call" where
  "listCards this remote boardId params =
     listItems this remote boardId (JObj (set_prop (own_entries params) ''type'' (JStr ''card'')))"

definition getCard :: "TenantCredentials \<Rightarrow> remote \<Rightarrow> jsval \<Rightarrow> jsval \<Rightarrow> jsval call" where
  "getCard this remote boardId itemId =
     request this remote (''/boards/'' @ to_string boardId @ ''/cards/'' @ to_string itemId) GET"

definition createCard :: "TenantCredentials \<Rightarrow> remote \<Rightarrow> jsval \<Rightarrow> jsval \<Rightarrow> jsval call" where
  "createCard this remote boardId input =
     request this remote (''/boards/'' @ to_string boardId @ ''/cards'')
       (with_body ''POST'' (JSON_stringify input))"

definition updateCard :: "TenantCredentials \<Rightarrow> remote \<Rightarrow> jsval \<Rightarrow> jsval \<Rightarrow> jsval \<Rightarrow> jsval call" where
  "updateCard this remote boardId itemId input =
     request this remote (''/boards/'' @ to_string boardId @ ''/cards/'' @ to_string itemId)
       (with_body ''PATCH'' (JSON_stringify input))"

definition deleteCard :: "TenantCredentials \<Rightarrow> remote \<Rightarrow> jsval \<Rightarrow> jsval \<Rightarrow> jsval call" where
  "deleteCard this remote boardId itemId =
     await (request this remote (''/boards/'' @ to_string boardId @ ''/cards/''
         @ to_string itemId) (with_method ''DELETE''))
       (\<lambda>r. ok JUndefined)"

subsection \<open>Images\<close>

definition getImage :: "TenantCredentials \<Rightarrow> remote \<Rightarrow> jsval \<Rightarrow> jsval \<Rightarrow> jsval call" where
  "getImage this remote boardId itemId =
     request this remote (''/boards/'' @ to_string boardId @ ''/images/'' @ to_string itemId) GET"

definition createImageFromUrl :: "TenantCredentials \<Rightarrow> remote \<Rightarrow> jsval \<Rightarrow> jsval \<Rightarrow> jsval call" where
  "createImageFromUrl this remote boardId input =
     request this remote (''/boards/'' @ to_string boardId @ ''/images'')
       (with_body ''POST'' (JSON_stringify input))"

definition updateImage :: "TenantCredentials \<Rightarrow> remote \<Rightarrow> jsval \<Rightarrow> jsval \<Rightarrow> jsval \<Rightarrow> jsval call" where
  "updateImage this remote boardId itemId input =
     request this remote (''/boards/'' @ to_string boardId @ ''/images/'' @ to_string itemId)
       (with_body ''PATCH'' (JSON_stringify input))"

definition deleteImage :: "TenantCredentials \<Rightarrow> remote \<Rightarrow> jsval \<Rightarrow> jsval \<Rightarrow> jsval call" where
  "deleteImage this remote boardId itemId =
     await (request this remote (''/boards/'' @ to_string boardId @ ''/images/''
         @ to_string itemId) (with_method ''DELETE''))
       (\<lambda>r. ok JUndefined)"

subsection \<open>Frames\<close>

definition listFrames :: "TenantCredentials \<Rightarrow> remote \<Rightarrow> jsval \<Rightarrow> jsval \<Rightarrow> jsval call" where
  "listFrames this remote boardId params =
     listItems this remote boardId (JObj (set_prop (own_entries params) ''type'' (JStr ''frame'')))"

definition getFrame :: "TenantCredentials \<Rightarrow> remote \<Rightarrow> jsval \<Rightarrow> jsval \<Rightarrow> jsval call" where
  "getFrame this remote boardId itemId =
     request this remote (''/boards/'' @ to_string boardId @ ''/frames/'' @ to_string itemId) GET"

definition createFrame :: "TenantCredentials \<Rightarrow> remote \<Rightarrow> jsval \<Rightarrow> jsval \<Rightarrow> jsval call" where
  "createFrame this remote boardId input =
     request this remote (''/boards/'' @ to_string boardId @ ''/frames'')
       (with_body ''POST'' (JSON_stringify input))"

definition updateFrame :: "TenantCredentials \<Rightarrow> remote \<Rightarrow> jsval \<Rightarrow> jsval \<Rightarrow> jsval \<Rightarrow> jsval call" where
  "updateFrame this remote boardId itemId input =
     request this remote (''/boards/'' @ to_string boardId @ ''/frames/'' @ to_string itemId)
       (with_body ''PATCH'' (JSON_stringify input))"

definition deleteFrame :: "TenantCredentials \<Rightarrow> remote \<Rightarrow> jsval \<Rightarrow> jsval \<Rightarrow> jsval call" where
  "deleteFrame this remote boardId itemId =
     await (request this remote (''/boards/'' @ to_string boardId @ ''/frames/''
         @ to_string itemId) (with_method ''DELETE''))
       (\<lambda>r. ok JUndefined)"

definition getFrameItems :: "TenantCredentials \<Rightarrow> remote \<Rightarrow> jsval \<Rightarrow> jsval \<Rightarrow> jsval \<Rightarrow> jsval call" where
  "getFrameItems this remote boardId frameId params =
     request this remote (''/boards/'' @ to_string boardId @ ''/frames/'' @ to_string frameId
         @ ''/items'' @ buildQueryString [(''limit'', opt_prop params ''limit''),
         (''cursor'', opt_prop params ''cursor'')]) GET"

subsection \<open>Connectors\<close>

definition listConnectors :: "TenantCredentials \<Rightarrow> remote \<Rightarrow> jsval \<Rightarrow> jsval \<Rightarrow> jsval call" where
  "listConnectors this remote boardId params =
     request this remote (''/boards/'' @ to_string boardId @ ''/connectors''
         @ buildQueryString [(''limit'', opt_prop params ''limit''),
         (''cursor'', opt_prop params ''cursor'')]) GET"

definition getConnector :: "TenantCredentials \<Rightarrow> remote \<Rightarrow> jsval \<Rightarrow> jsval \<Rightarrow> jsval call" where
  "getConnector this remote boardId connectorId =
     request this remote (''/boards/'' @ to_string boardId @ ''/connectors/''
         @ to_string connectorId) GET"

definition createConnector :: "TenantCredentials \<Rightarrow> remote \<Rightarrow> jsval \<Rightarrow> jsval \<Rightarrow> jsval call" where
  "createConnector this remote boardId input =
     request this remote (''/boards/'' @ to_string boardId @ ''/connectors'')
       (with_body ''POST'' (JSON_stringify input))"

definition updateConnector :: "TenantCredentials \<Rightarrow> remote \<Rightarrow> jsval \<Rightarrow> jsval \<Rightarrow> jsval \<Rightarrow> jsval call" where
  "updateConnector this remote boardId connectorId input =
     request this remote (''/boards/'' @ to_string boardId @ ''/connectors/''
         @ to_string connectorId)
       (with_body ''PATCH'' (JSON_stringify input))"

definition deleteConnector :: "TenantCredentials \<Rightarrow> remote \<Rightarrow> jsval \<Rightarrow> jsval \<Rightarrow> jsval call" where
  "deleteConnector this remote boardId connectorId =
     await (request this remote (''/boards/'' @ to_string boardId @ ''/connectors/''
         @ to_string connectorId) (with_method ''DELETE''))
       (\<lambda>r. ok JUndefined)"

subsection \<open>Embeds\<close>

definition getEmbed :: "TenantCredentials \<Rightarrow> remote \<Rightarrow> jsval \<Rightarrow> jsval \<Rightarrow> jsval call" where
  "getEmbed this remote boardId itemId =
     request this remote (''/boards/'' @ to_string boardId @ ''/embeds/'' @ to_string itemId) GET"

definition createEmbed :: "TenantCredentials \<Rightarrow> remote \<Rightarrow> jsval \<Rightarrow> jsval \<Rightarrow> jsval call" where
  "createEmbed this remote boardId input =
     request this remote (''/boards/'' @ to_string boardId @ ''/embeds'')
       (with_body ''POST'' (JSON_stringify input))"

definition updateEmbed :: "TenantCredentials \<Rightarrow> remote \<Rightarrow> jsval \<Rightarrow> jsval \<Rightarrow> jsval \<Rightarrow> jsval call" where
  "updateEmbed this remote boardId itemId input =
     request this remote (''/boards/'' @ to_string boardId @ ''/embeds/'' @ to_string itemId)
       (with_body ''PATCH'' (JSON_stringify input))"

definition deleteEmbed :: "TenantCredentials \<Rightarrow> remote \<Rightarrow> jsval \<Rightarrow> jsval \<Rightarrow> jsval call" where
  "deleteEmbed this remote boardId itemId =
     await (request this remote (''/boards/'' @ to_string boardId @ ''/embeds/''
         @ to_string itemId) (with_method ''DELETE''))
       (\<lambda>r. ok JUndefined)"

subsection \<open>App cards\<close>

definition getAppCard :: "TenantCredentials \<Rightarrow> remote \<Rightarrow> jsval \<Rightarrow> jsval \<Rightarrow> jsval call" where
  "getAppCard this remote boardId itemId =
     request this remote (''/boards/'' @ to_string boardId @ ''/app_cards/''
         @ to_string itemId) GET"

definition createAppCard :: "TenantCredentials \<Rightarrow> remote \<Rightarrow> jsval \<Rightarrow> jsval \<Rightarrow> jsval call" where
  "createAppCard this remote boardId input =
     request this remote (''/boards/'' @ to_string boardId @ ''/app_cards'')
       (with_body ''POST'' (JSON_stringify input))"

definition updateAppCard :: "TenantCredentials \<Rightarrow> remote \<Rightarrow> jsval \<Rightarrow> jsval \<Rightarrow> jsval \<Rightarrow> jsval call" where
  "updateAppCard this remote boardId itemId input =
     request this remote (''/boards/'' @ to_string boardId @ ''/app_cards/'' @ to_string itemId)
       (with_body ''PATCH'' (JSON_stringify input))"

definition deleteAppCard :: "TenantCredentials \<Rightarrow> remote \<Rightarrow> jsval \<Rightarrow> jsval \<Rightarrow> jsval call" where
  "deleteAppCard this remote boardId itemId =
     await (request this remote (''/boards/'' @ to_string boardId @ ''/app_cards/''
         @ to_string itemId) (with_method ''DELETE''))
       (\<lambda>r. ok JUndefined)"

subsection \<open>Tags\<close>

definition listTags :: "TenantCredentials \<Rightarrow> remote \<Rightarrow> jsval \<Rightarrow> jsval \<Rightarrow> jsval call" where
  "listTags this remote boardId params =
     request this remote (''/boards/'' @ to_string boardId @ ''/tags''
         @ buildQueryString [(''limit'', opt_prop params ''limit''),
         (''cursor'', opt_prop params ''cursor'')]) GET"

definition getTag :: "TenantCredentials \<Rightarrow> remote \<Rightarrow> jsval \<Rightarrow> jsval \<Rightarrow> jsval call" where
  "getTag this remote boardId tagId =
     request this remote (''/boards/'' @ to_string boardId @ ''/tags/'' @ to_string tagId) GET"

definition createTag :: "TenantCredentials \<Rightarrow> remote \<Rightarrow> jsval \<Rightarrow> jsval \<Rightarrow> jsval call" where
  "createTag this remote boardId input =
     request this remote (''/boards/'' @ to_string boardId @ ''/tags'')
       (with_body ''POST'' (JSON_stringify input))"

definition updateTag :: "TenantCredentials \<Rightarrow> remote \<Rightarrow> jsval \<Rightarrow> jsval \<Rightarrow> jsval \<Rightarrow> jsval call" where
  "updateTag this remote boardId tagId input =
     request this remote (''/boards/'' @ to_string boardId @ ''/tags/'' @ to_string tagId)
       (with_body ''PATCH'' (JSON_stringify input))"

definition deleteTag :: "TenantCredentials \<Rightarrow> remote \<Rightarrow> jsval \<Rightarrow> jsval \<Rightarrow> jsval call" where
  "deleteTag this remote boardId tagId =
     await (request this remote (''/boards/'' @ to_string boardId @ ''/tags/''
         @ to_string tagId) (with_method ''DELETE''))
       (\<lambda>r. ok JUndefined)"

definition attachTagToItem :: "TenantCredentials \<Rightarrow> remote \<Rightarrow> jsval \<Rightarrow> jsval \<Rightarrow> jsval \<Rightarrow> jsval call" where
  "attachTagToItem this remote boardId itemId tagId =
     await (request this remote (''/boards/'' @ to_string boardId @ ''/items/'' @ to_string itemId
         @ ''/tags/'' @ to_string tagId) (with_method ''POST''))
       (\<lambda>r. ok JUndefined)"

definition removeTagFromItem :: "TenantCredentials \<Rightarrow> remote \<Rightarrow> jsval \<Rightarrow> jsval \<Rightarrow> jsval \<Rightarrow> jsval call" where
  "removeTagFromItem this remote boardId itemId tagId =
     await (request this remote (''/boards/'' @ to_string boardId @ ''/items/'' @ to_string itemId
         @ ''/tags/'' @ to_string tagId) (with_method ''DELETE''))
       (\<lambda>r. ok JUndefined)"

definition getItemsByTag :: "TenantCredentials \<Rightarrow> remote \<Rightarrow> jsval \<Rightarrow> jsval \<Rightarrow> jsval \<Rightarrow> jsval call" where
  "getItemsByTag this remote boardId tagId params =
     request this remote (''/boards/'' @ to_string boardId @ ''/tags/'' @ to_string tagId
         @ ''/items'' @ buildQueryString [(''limit'', opt_prop params ''limit''),
         (''cursor'', opt_prop params ''cursor'')]) GET"

definition getTagsFromItem :: "TenantCredentials \<Rightarrow> remote \<Rightarrow> jsval \<Rightarrow> jsval \<Rightarrow> jsval call" where
  "getTagsFromItem this remote boardId itemId =
     await (request this remote (''/boards/'' @ to_string boardId @ ''/items/'' @ to_string itemId
         @ ''/tags'') GET)
       (\<lambda>response. lift (get_prop response ''data''))"

subsection \<open>Documents\<close>

definition getDocument :: "TenantCredentials \<Rightarrow> remote \<Rightarrow> jsval \<Rightarrow> jsval \<Rightarrow> jsval call" where
  "getDocument this remote boardId itemId =
     request this remote (''/boards/'' @ to_string boardId @ ''/documents/''
         @ to_string itemId) GET"

definition createDocumentFromUrl :: "TenantCredentials \<Rightarrow> remote \<Rightarrow> jsval \<Rightarrow> jsval \<Rightarrow> jsval call" where
  "createDocumentFromUrl this remote boardId input =
     request this remote (''/boards/'' @ to_string boardId @ ''/documents'')
       (with_body ''POST'' (JSON_stringify input))"

definition deleteDocument :: "TenantCredentials \<Rightarrow> remote \<Rightarrow> jsval \<Rightarrow> jsval \<Rightarrow> jsval call" where
  "deleteDocument this remote boardId itemId =
     await (request this remote (''/boards/'' @ to_string boardId @ ''/documents/''
         @ to_string itemId) (with_method ''DELETE''))
       (\<lambda>r. ok JUndefined)"

subsection \<open>The client interface\<close>

text \<open>One constructor per method of the \<open>MiroClient\<close> interface, and the dispatch to the
  implementation.\<close>

datatype (plugins only: code) client_call =
    Call_testConnection
  | Call_listBoards jsval
  | Call_getBoard jsval
  | Call_createBoard jsval
  | Call_updateBoard jsval jsval
  | Call_deleteBoard jsval
  | Call_copyBoard jsval jsval
  | Call_listBoardMembers jsval jsval
  | Call_getBoardMember jsval jsval
  | Call_shareBoard jsval ShareBoardInput
  | Call_updateBoardMember jsval jsval jsval
  | Call_removeBoardMember jsval jsval
  | Call_listItems jsval jsval
  | Call_getItem jsval jsval
  | Call_updateItemPosition jsval jsval jsval jsval
  | Call_deleteItem jsval jsval
  | Call_listStickyNotes jsval jsval
  | Call_getStickyNote jsval jsval
  | Call_createStickyNote jsval jsval
  | Call_updateStickyNote jsval jsval jsval
  | Call_deleteStickyNote jsval jsval
  | Call_listShapes jsval jsval
  | Call_getShape jsval jsval
  | Call_createShape jsval jsval
  | Call_updateShape jsval jsval jsval
  | Call_deleteShape jsval jsval
  | Call_listTexts jsval jsval
  | Call_getText jsval jsval
  | Call_createText jsval jsval
  | Call_updateText jsval jsval jsval
  | Call_deleteText jsval jsval
  | Call_listCards jsval jsval
  | Call_getCard jsval jsval
  | Call_createCard jsval jsval
  | Call_updateCard jsval jsval jsval
  | Call_deleteCard jsval jsval
  | Call_getImage jsval jsval
  | Call_createImageFromUrl jsval jsval
  | Call_updateImage jsval jsval jsval
  | Call_deleteImage jsval jsval
  | Call_listFrames jsval jsval
  | Call_getFrame jsval jsval
  | Call_createFrame jsval jsval
  | Call_updateFrame jsval jsval jsval
  | Call_deleteFrame jsval jsval
  | Call_getFrameItems jsval jsval jsval
  | Call_listConnectors jsval jsval
  | Call_getConnector jsval jsval
  | Call_createConnector jsval jsval
  | Call_updateConnector jsval jsval jsval
  | Call_deleteConnector jsval jsval
  | Call_getEmbed jsval jsval
  | Call_createEmbed jsval jsval
  | Call_updateEmbed jsval jsval jsval
  | Call_deleteEmbed jsval jsval
  | Call_getAppCard jsval jsval
  | Call_createAppCard jsval jsval
  | Call_updateAppCard jsval jsval jsval
  | Call_deleteAppCard jsval jsval
  | Call_listTags jsval jsval
  | Call_getTag jsval jsval
  | Call_createTag jsval jsval
  | Call_updateTag jsval jsval jsval
  | Call_deleteTag jsval jsval
  | Call_attachTagToItem jsval jsval jsval
  | Call_removeTagFromItem jsval jsval jsval
  | Call_getItemsByTag jsval jsval jsval
  | Call_getTagsFromItem jsval jsval
  | Call_getDocument jsval jsval
  | Call_createDocumentFromUrl jsval jsval
  | Call_deleteDocument jsval jsval

primrec invoke :: "TenantCredentials \<Rightarrow> remote \<Rightarrow> client_call \<Rightarrow> jsval call" where
  "invoke this remote Call_testConnection = testConnection this remote"
| "invoke this remote (Call_listBoards a0) = listBoards this remote a0"
| "invoke this remote (Call_getBoard a0) = getBoard this remote a0"
| "invoke this remote (Call_createBoard a0) = createBoard this remote a0"
| "invoke this remote (Call_updateBoard a0 a1) = updateBoard this remote a0 a1"
| "invoke this remote (Call_deleteBoard a0) = deleteBoard this remote a0"
| "invoke this remote (Call_copyBoard a0 a1) = copyBoard this remote a0 a1"
| "invoke this remote (Call_listBoardMembers a0 a1) = listBoardMembers this remote a0 a1"
| "invoke this remote (Call_getBoardMember a0 a1) = getBoardMember this remote a0 a1"
| "invoke this remote (Call_shareBoard a0 a1) = shareBoard this remote a0 a1"
| "invoke this remote (Call_updateBoardMember a0 a1 a2) = updateBoardMember this remote a0 a1 a2"
| "invoke this remote (Call_removeBoardMember a0 a1) = removeBoardMember this remote a0 a1"
| "invoke this remote (Call_listItems a0 a1) = listItems this remote a0 a1"
| "invoke this remote (Call_getItem a0 a1) = getItem this remote a0 a1"
| "invoke this remote (Call_updateItemPosition a0 a1 a2 a3) = updateItemPosition this remote a0 a1 a2 a3"
| "invoke this remote (Call_deleteItem a0 a1) = deleteItem this remote a0 a1"
| "invoke this remote (Call_listStickyNotes a0 a1) = listStickyNotes this remote a0 a1"
| "invoke this remote (Call_getStickyNote a0 a1) = getStickyNote this remote a0 a1"
| "invoke this remote (Call_createStickyNote a0 a1) = createStickyNote this remote a0 a1"
| "invoke this remote (Call_updateStickyNote a0 a1 a2) = updateStickyNote this remote a0 a1 a2"
| "invoke this remote (Call_deleteStickyNote a0 a1) = deleteStickyNote this remote a0 a1"
| "invoke this remote (Call_listShapes a0 a1) = listShapes this remote a0 a1"
| "invoke this remote (Call_getShape a0 a1) = getShape this remote a0 a1"
| "invoke this remote (Call_createShape a0 a1) = createShape this remote a0 a1"
| "invoke this remote (Call_updateShape a0 a1 a2) = updateShape this remote a0 a1 a2"
| "invoke this remote (Call_deleteShape a0 a1) = deleteShape this remote a0 a1"
| "invoke this remote (Call_listTexts a0 a1) = listTexts this remote a0 a1"
| "invoke this remote (Call_getText a0 a1) = getText this remote a0 a1"
| "invoke this remote (Call_createText a0 a1) = createText this remote a0 a1"
| "invoke this remote (Call_updateText a0 a1 a2) = updateText this remote a0 a1 a2"
| "invoke this remote (Call_deleteText a0 a1) = deleteText this remote a0 a1"
| "invoke this remote (Call_listCards a0 a1) = listCards this remote a0 a1"
| "invoke this remote (Call_getCard a0 a1) = getCard this remote a0 a1"
| "invoke this remote (Call_createCard a0 a1) = createCard this remote a0 a1"
| "invoke this remote (Call_updateCard a0 a1 a2) = updateCard this remote a0 a1 a2"
| "invoke this remote (Call_deleteCard a0 a1) = deleteCard this remote a0 a1"
| "invoke this remote (Call_getImage a0 a1) = getImage this remote a0 a1"
| "invoke this remote (Call_createImageFromUrl a0 a1) = createImageFromUrl this remote a0 a1"
| "invoke this remote (Call_updateImage a0 a1 a2) = updateImage this remote a0 a1 a2"
| "invoke this remote (Call_deleteImage a0 a1) = deleteImage this remote a0 a1"
| "invoke this remote (Call_listFrames a0 a1) = listFrames this remote a0 a1"
| "invoke this remote (Call_getFrame a0 a1) = getFrame this remote a0 a1"
| "invoke this remote (Call_createFrame a0 a1) = createFrame this remote a0 a1"
| "invoke this remote (Call_updateFrame a0 a1 a2) = updateFrame this remote a0 a1 a2"
| "invoke this remote (Call_deleteFrame a0 a1) = deleteFrame this remote a0 a1"
| "invoke this remote (Call_getFrameItems a0 a1 a2) = getFrameItems this remote a0 a1 a2"
| "invoke this remote (Call_listConnectors a0 a1) = listConnectors this remote a0 a1"
| "invoke this remote (Call_getConnector a0 a1) = getConnector this remote a0 a1"
| "invoke this remote (Call_createConnector a0 a1) = createConnector this remote a0 a1"
| "invoke this remote (Call_updateConnector a0 a1 a2) = updateConnector this remote a0 a1 a2"
| "invoke this remote (Call_deleteConnector a0 a1) = deleteConnector this remote a0 a1"
| "invoke this remote (Call_getEmbed a0 a1) = getEmbed this remote a0 a1"
| "invoke this remote (Call_createEmbed a0 a1) = createEmbed this remote a0 a1"
| "invoke this remote (Call_updateEmbed a0 a1 a2) = updateEmbed this remote a0 a1 a2"
| "invoke this remote (Call_deleteEmbed a0 a1) = deleteEmbed this remote a0 a1"
| "invoke this remote (Call_getAppCard a0 a1) = getAppCard this remote a0 a1"
| "invoke this remote (Call_createAppCard a0 a1) = createAppCard this remote a0 a1"
| "invoke this remote (Call_updateAppCard a0 a1 a2) = updateAppCard this remote a0 a1 a2"
| "invoke this remote (Call_deleteAppCard a0 a1) = deleteAppCard this remote a0 a1"
| "invoke this remote (Call_listTags a0 a1) = listTags this remote a0 a1"
| "invoke this remote (Call_getTag a0 a1) = getTag this remote a0 a1"
| "invoke this remote (Call_createTag a0 a1) = createTag this remote a0 a1"
| "invoke this remote (Call_updateTag a0 a1 a2) = updateTag this remote a0 a1 a2"
| "invoke this remote (Call_deleteTag a0 a1) = deleteTag this remote a0 a1"
| "invoke this remote (Call_attachTagToItem a0 a1 a2) = attachTagToItem this remote a0 a1 a2"
| "invoke this remote (Call_removeTagFromItem a0 a1 a2) = removeTagFromItem this remote a0 a1 a2"
| "invoke this remote (Call_getItemsByTag a0 a1 a2) = getItemsByTag this remote a0 a1 a2"
| "invoke this remote (Call_getTagsFromItem a0 a1) = getTagsFromItem this remote a0 a1"
| "invoke this remote (Call_getDocument a0 a1) = getDocument this remote a0 a1"
| "invoke this remote (Call_createDocumentFromUrl a0 a1) = createDocumentFromUrl this remote a0 a1"
| "invoke this remote (Call_deleteDocument a0 a1) = deleteDocument this remote a0 a1"

section \<open>Response formatting (utils/formatters.ts)\<close>

text \<open>
  The tool response: \<open>content\<close> is a list of blocks of type \<open>text\<close>, \<open>isError\<close> is optional.
  The text of a block is what \<open>JSON.stringify\<close> returned, which is no string (\<open>None\<close>) when
  the value serialised is \<open>undefined\<close>.
\<close>

record text_block =
  block_type :: string
  block_text :: "string option"

record ToolResponse =
  content :: "text_block list"
  isError :: "bool option"

definition text_response :: "string option \<Rightarrow> ToolResponse" where
  "text_response t = \<lparr>content = [\<lparr>block_type = ''text'', block_text = t\<rparr>], isError = None\<rparr>"

definition newline :: string where
  "newline = [CHR 0x0A]"

text \<open>A loop that builds one line per element and stops at the first fault.\<close>

fun traverse :: "('a \<Rightarrow> error + 'b) \<Rightarrow> 'a list \<Rightarrow> error + 'b list" where
  "traverse f [] = Inr []"
| "traverse f (x # xs) =
     (case f x of
        Inl e \<Rightarrow> Inl e
      | Inr y \<Rightarrow> (case traverse f xs of Inl e \<Rightarrow> Inl e | Inr ys \<Rightarrow> Inr (y # ys)))"

text \<open>\<open>${v || '-'}\<close> and \<open>String(v ?? '-')\<close>.\<close>

definition or_dash :: "jsval \<Rightarrow> string" where
  "or_dash v = (if truthy v then to_string v else ''-'')"

definition nullish_dash :: "jsval \<Rightarrow> string" where
  "nullish_dash v = (if nullish v then ''-'' else to_string v)"

definition capitalize :: "string \<Rightarrow> string" where
  "capitalize str = (case str of [] \<Rightarrow> [] | c # cs \<Rightarrow> upper_char c # cs)"

text \<open>
  \<open>formatKey\<close>: a space before every capital letter, the first character in upper case
  (the pattern \<open>^.\<close> does not match a line terminator), then trimmed.
\<close>

definition formatKey :: "string \<Rightarrow> string" where
  "formatKey key =
     (let spaced = concat (map (\<lambda>c. if is_upper c then [CHR '' '', c] else [c]) key);
          first_up = (case spaced of
                        [] \<Rightarrow> []
                      | c # cs \<Rightarrow> if c = CHR 0x0A \<or> c = CHR 0x0D then spaced else upper_char c # cs)
      in trim first_up)"

subsection \<open>Tables\<close>

definition boards_row :: "jsval \<Rightarrow> error + string" where
  "boards_row board =
     (if nullish board then Inl TypeError
      else Inr (''| '' @ to_string (js_prop board ''id'') @ '' | ''
          @ to_string (js_prop board ''name'')
                @ '' | '' @ or_dash (js_prop board ''description'')
                @ '' | [Open]('' @ or_dash (js_prop board ''viewLink'') @ '') |''))"

definition formatBoardsTable :: "jsval list \<Rightarrow> error + string" where
  "formatBoardsTable boards =
     (case traverse boards_row boards of
        Inl e \<Rightarrow> Inl e
      | Inr rows \<Rightarrow>
          Inr (join newline ([''| ID | Name | Description | View Link |'', ''|---|---|---|---|'']
              @ rows)))"

text \<open>
  One row of the items table. \<open>'data' in item\<close> is a fault when \<open>item\<close> is no object, and
  so is \<open>'content' in data\<close> when \<open>item.data\<close> is a truthy primitive.
\<close>

definition item_content :: "jsval \<Rightarrow> error + string" where
  "item_content item =
     (case has_prop ''data'' item of
        Inl e \<Rightarrow> Inl e
      | Inr present \<Rightarrow>
          if present \<and> truthy (js_prop item ''data'') then
            (let data = js_prop item ''data''
             in case has_prop ''content'' data of
                  Inl e \<Rightarrow> Inl e
                | Inr c \<Rightarrow>
                    if c then Inr (take 50 (to_string (js_prop data ''content'')))
                    else (case has_prop ''title'' data of
                            Inl e \<Rightarrow> Inl e
                          | Inr t \<Rightarrow> if t then Inr (take 50 (to_string (js_prop data ''title'')))
                                     else Inr ''-''))
          else Inr ''-'')"

definition item_pos :: "jsval \<Rightarrow> error + string" where
  "item_pos item =
     (case has_prop ''position'' item of
        Inl e \<Rightarrow> Inl e
      | Inr present \<Rightarrow>
          if present \<and> truthy (js_prop item ''position'') then
            (let position = js_prop item ''position''
             in Inr (''('' @ to_string (js_prop position ''x'') @ '', ''
                     @ to_string (js_prop position ''y'') @ '')''))
          else Inr ''-'')"

definition items_row :: "jsval \<Rightarrow> error + string" where
  "items_row item =
     (case item_content item of
        Inl e \<Rightarrow> Inl e
      | Inr cell \<Rightarrow>
          (case item_pos item of
             Inl e \<Rightarrow> Inl e
           | Inr pos \<Rightarrow>
               Inr (''| '' @ to_string (js_prop item ''id'') @ '' | ''
                   @ to_string (js_prop item ''type'')
                    @ '' | '' @ cell @ '' | '' @ pos @ '' |'')))"

definition formatItemsTable :: "jsval list \<Rightarrow> error + string" where
  "formatItemsTable items =
     (case traverse items_row items of
        Inl e \<Rightarrow> Inl e
      | Inr rows \<Rightarrow>
          Inr (join newline ([''| ID | Type | Content/Title | Position |'', ''|---|---|---|---|'']
              @ rows)))"

definition members_row :: "jsval \<Rightarrow> error + string" where
  "members_row member =
     (if nullish member then Inl TypeError
      else Inr (''| '' @ to_string (js_prop member ''id'') @ '' | ''
          @ or_dash (js_prop member ''name'')
                @ '' | '' @ or_dash (js_prop member ''email'')
                @ '' | '' @ or_dash (js_prop member ''role'') @ '' |''))"

definition formatMembersTable :: "jsval list \<Rightarrow> error + string" where
  "formatMembersTable members =
     (case traverse members_row members of
        Inl e \<Rightarrow> Inl e
      | Inr rows \<Rightarrow>
          Inr (join newline ([''| ID | Name | Email | Role |'', ''|---|---|---|---|''] @ rows)))"

definition tags_row :: "jsval \<Rightarrow> error + string" where
  "tags_row tag =
     (if nullish tag then Inl TypeError
      else Inr (''| '' @ to_string (js_prop tag ''id'') @ '' | ''
          @ to_string (js_prop tag ''title'')
                @ '' | '' @ or_dash (js_prop tag ''fillColor'') @ '' |''))"

definition formatTagsTable :: "jsval list \<Rightarrow> error + string" where
  "formatTagsTable tags =
     (case traverse tags_row tags of
        Inl e \<Rightarrow> Inl e
      | Inr rows \<Rightarrow> Inr (join newline ([''| ID | Title | Color |'', ''|---|---|---|'']
          @ rows)))"

definition generic_row :: "string list \<Rightarrow> jsval \<Rightarrow> error + string" where
  "generic_row keys record =
     (case traverse (\<lambda>k. case get_prop record k of Inl e \<Rightarrow> Inl e | Inr v \<Rightarrow> Inr (nullish_dash v)) keys of
        Inl e \<Rightarrow> Inl e
      | Inr values \<Rightarrow> Inr (''| '' @ join '' | '' values @ '' |''))"

definition formatGenericTable :: "jsval list \<Rightarrow> error + string" where
  "formatGenericTable items =
     (case items of
        [] \<Rightarrow> Inr ''_No items_''
      | first # rest \<Rightarrow>
          (case Object_keys first of
             Inl e \<Rightarrow> Inl e
           | Inr all_keys \<Rightarrow>
               (let keys = take 5 all_keys
                in case traverse (generic_row keys) items of
                     Inl e \<Rightarrow> Inl e
                   | Inr rows \<Rightarrow>
                       Inr (join newline
                              ([''| '' @ join '' | '' keys @ '' |'',
                                ''|'' @ join ''|'' (map (\<lambda>k. ''---'') keys) @ ''|'']
                                    @ rows)))))"

definition formatArrayAsMarkdown :: "jsval list \<Rightarrow> string \<Rightarrow> error + string" where
  "formatArrayAsMarkdown data entityType = formatGenericTable data"

subsection \<open>Paginated responses and single objects\<close>

definition isPaginatedResponse :: "jsval \<Rightarrow> bool" where
  "isPaginatedResponse data =
     (case data of
        JObj kvs \<Rightarrow> ''data'' \<in> set (map fst kvs)
                    \<and> (case js_prop data ''data'' of JArr xs \<Rightarrow> True | _ \<Rightarrow> False)
      | _ \<Rightarrow> False)"

text \<open>
  The lines that precede the items: the heading, the counts as the response states them,
  and the cursor hint.
\<close>

definition page_header :: "jsval \<Rightarrow> string \<Rightarrow> string list" where
  "page_header data entityType =
     [''## '' @ capitalize entityType, []]
     @ [if js_prop data ''total'' \<noteq> JUndefined
        then ''**Total:** '' @ to_string (js_prop data ''total'') @ '' | **Showing:** ''
             @ to_string (js_prop data ''size'')
        else ''**Showing:** '' @ to_string (js_prop data ''size'')]
     @ (if truthy (js_prop data ''cursor'')
        then [''**Next cursor:** `'' @ to_string (js_prop data ''cursor'') @ ''`''] else [])
     @ [[]]"

text \<open>
  \<open>formatPaginatedAsMarkdown\<close> is called on a value that passed \<open>isPaginatedResponse\<close>, so
  \<open>data.data\<close> is an array. On any other value reading its length or iterating it is a
  fault, a string apart, which is iterated character by character.
\<close>

definition formatPaginatedAsMarkdown :: "jsval \<Rightarrow> string \<Rightarrow> error + string" where
  "formatPaginatedAsMarkdown data entityType =
     (let lines = page_header data entityType
      in case (case js_prop data ''data'' of
                 JArr xs \<Rightarrow> Inr xs
               | JStr cs \<Rightarrow> Inr (map (\<lambda>c. JStr [c]) cs)
               | _ \<Rightarrow> Inl TypeError) of
           Inl e \<Rightarrow> Inl e
         | Inr items \<Rightarrow>
             if length items = 0 then Inr (join newline (lines @ [''_No items found._'']))
             else
               (case (if entityType = ''boards'' then formatBoardsTable items
                      else if entityType = ''items'' then formatItemsTable items
                      else if entityType = ''members'' then formatMembersTable items
                      else if entityType = ''tags'' then formatTagsTable items
                      else formatGenericTable items) of
                  Inl e \<Rightarrow> Inl e
                | Inr table \<Rightarrow> Inr (join newline (lines @ [table]))))"

definition strip_plural :: "string \<Rightarrow> string" where
  "strip_plural entityType =
     (if entityType \<noteq> [] \<and> last entityType = CHR ''s'' then butlast entityType else entityType)"

definition object_lines :: "string \<times> jsval \<Rightarrow> string list" where
  "object_lines kv =
     (case kv of (key, v) \<Rightarrow>
        if nullish v then []
        else (case v of
                JObj kvs \<Rightarrow> [''**'' @ formatKey key @ '':**'', ''```json'',
                              (case JSON_stringify2 v of Some t \<Rightarrow> t | None \<Rightarrow> []), ''```'']
              | JArr xs \<Rightarrow> [''**'' @ formatKey key @ '':**'', ''```json'',
                             (case JSON_stringify2 v of Some t \<Rightarrow> t | None \<Rightarrow> []), ''```'']
              | _ \<Rightarrow> [''**'' @ formatKey key @ '':** '' @ to_string v]))"

definition formatObjectAsMarkdown :: "jsval \<Rightarrow> string \<Rightarrow> string" where
  "formatObjectAsMarkdown data entityType =
     join newline ([''## '' @ capitalize (strip_plural entityType), []]
                   @ concat (map object_lines (own_entries data)))"

definition formatAsMarkdown :: "jsval \<Rightarrow> string \<Rightarrow> error + string" where
  "formatAsMarkdown data entityType =
     (if isPaginatedResponse data then formatPaginatedAsMarkdown data entityType
      else (case data of
              JArr xs \<Rightarrow> formatArrayAsMarkdown xs entityType
            | JObj kvs \<Rightarrow> Inr (formatObjectAsMarkdown data entityType)
            | _ \<Rightarrow> Inr (to_string data)))"

subsection \<open>The two envelopes\<close>

definition formatResponse :: "jsval \<Rightarrow> jsval \<Rightarrow> string \<Rightarrow> error + ToolResponse" where
  "formatResponse data format entityType =
     (if format = JStr ''markdown'' then
        (case formatAsMarkdown data entityType of
           Inl e \<Rightarrow> Inl e
         | Inr t \<Rightarrow> Inr (text_response (Some t)))
      else Inr (text_response (JSON_stringify2 data)))"

text \<open>
  \<open>formatError\<close>. Every value thrown in the modelled code is an \<open>Error\<close> instance, so the
  branch for other thrown values is not reached.
\<close>

definition error_text :: "error \<Rightarrow> string" where
  "error_text e =
     (if instanceof_MiroApiError e
      then ''Error: '' @ message_of e @ (if retryable e then '' (retryable)'' else [])
      else ''Error: '' @ message_of e)"

definition formatError :: "error \<Rightarrow> ToolResponse" where
  "formatError e =
     (let errorInfo = formatErrorForLogging e;
          message = error_text e
      in \<lparr>content = [\<lparr>block_type = ''text'',
                       block_text = JSON_stringify2 (JObj [(''error'', JStr message),
                           (''details'', errorInfo)])\<rparr>],
          isError = Some True\<rparr>)"

section \<open>The tools (tools/*.ts)\<close>

text \<open>
  A tool is registered with a name, a description, an input schema and a handler. The SDK
  validates the input against the schema and fills in the defaults before the handler
  runs; the handler destructures the validated object, a property that is absent being
  \<open>undefined\<close>. Every handler is a \<open>try\<close> block and a \<open>catch\<close> block, kept apart here:
  \<open>tool_body\<close> is the \<open>try\<close> block, which returns an envelope or throws, and \<open>tool_catch\<close>
  is what the \<open>catch\<close> block returns for the error caught.
\<close>

type_synonym args = "(string \<times> jsval) list"

definition arg :: "args \<Rightarrow> string \<Rightarrow> jsval" where
  "arg a k = (case map_of a k of Some v \<Rightarrow> v | None \<Rightarrow> JUndefined)"

text \<open>\<open>if (c) obj.k = v\<close> while a fresh object is built.\<close>

definition field_if :: "bool \<Rightarrow> string \<Rightarrow> jsval \<Rightarrow> (string \<times> jsval) list" where
  "field_if c k v = (if c then [(k, v)] else [])"

record tool =
  tool_name :: string
  tool_body :: "args \<Rightarrow> ToolResponse call"
  tool_catch :: "error \<Rightarrow> ToolResponse"

text \<open>One invocation of a tool: the handler's \<open>try\<close> and \<open>catch\<close>.\<close>

definition call_tool :: "tool \<Rightarrow> args \<Rightarrow> http_request list \<Rightarrow> ToolResponse \<times> http_request list" where
  "call_tool t a log =
     (case tool_body t a log of
        (Inl e, log') \<Rightarrow> (tool_catch t e, log')
      | (Inr r, log') \<Rightarrow> (r, log'))"

subsection \<open>Board tools\<close>

definition miro_list_boards :: "TenantCredentials \<Rightarrow> remote \<Rightarrow> args \<Rightarrow> ToolResponse call" where
  "miro_list_boards this remote a =
     await (listBoards this remote (JObj [(''limit'', arg a ''limit''),
         (''cursor'', arg a ''cursor''), (''teamId'', arg a ''teamId''),
         (''query'', arg a ''query''), (''sort'', arg a ''sort'')]))
       (\<lambda>result. lift (formatResponse result (arg a ''format'') ''boards''))"

definition miro_get_board :: "TenantCredentials \<Rightarrow> remote \<Rightarrow> args \<Rightarrow> ToolResponse call" where
  "miro_get_board this remote a =
     await (getBoard this remote (arg a ''boardId''))
       (\<lambda>board. lift (formatResponse board (arg a ''format'') ''board''))"

definition miro_create_board_input :: "args \<Rightarrow> jsval" where
  "miro_create_board_input a =
     JObj ([(''name'', arg a ''name'')]
             @ field_if (truthy (arg a ''description'')) ''description'' (arg a ''description'')
             @ field_if (truthy (arg a ''teamId'')) ''teamId'' (arg a ''teamId'')
             @ field_if (truthy (arg a ''access'')) ''sharingPolicy'' (JObj [(''access'', arg a ''access'')]))"

definition miro_create_board :: "TenantCredentials \<Rightarrow> remote \<Rightarrow> args \<Rightarrow> ToolResponse call" where
  "miro_create_board this remote a =
     await (createBoard this remote (miro_create_board_input a))
       (\<lambda>board. ok (text_response (JSON_stringify2 (JObj [(''success'', JBool True),
           (''message'', JStr ''Board created''), (''board'', board)]))))"

definition miro_update_board_input :: "args \<Rightarrow> jsval" where
  "miro_update_board_input a =
     JObj (field_if (truthy (arg a ''name'')) ''name'' (arg a ''name'')
             @ field_if (truthy (arg a ''description'')) ''description'' (arg a ''description''))"

definition miro_update_board :: "TenantCredentials \<Rightarrow> remote \<Rightarrow> args \<Rightarrow> ToolResponse call" where
  "miro_update_board this remote a =
     await (updateBoard this remote (arg a ''boardId'') (miro_update_board_input a))
       (\<lambda>board. ok (text_response (JSON_stringify2 (JObj [(''success'', JBool True),
           (''message'', JStr ''Board updated''), (''board'', board)]))))"

definition miro_delete_board :: "TenantCredentials \<Rightarrow> remote \<Rightarrow> args \<Rightarrow> ToolResponse call" where
  "miro_delete_board this remote a =
     await (deleteBoard this remote (arg a ''boardId''))
       (\<lambda>r. ok (text_response (JSON_stringify2 (JObj [(''success'', JBool True),
           (''message'', JStr (''Board '' @ to_string (arg a ''boardId'') @ '' deleted''))]))))"

definition miro_copy_board :: "TenantCredentials \<Rightarrow> remote \<Rightarrow> args \<Rightarrow> ToolResponse call" where
  "miro_copy_board this remote a =
     await (copyBoard this remote (arg a ''boardId'') (JObj [(''name'', arg a ''name''),
         (''teamId'', arg a ''teamId'')]))
       (\<lambda>board. ok (text_response (JSON_stringify2 (JObj [(''success'', JBool True),
           (''message'', JStr ''Board copied''), (''board'', board)]))))"

subsection \<open>Board member tools\<close>

definition miro_list_board_members :: "TenantCredentials \<Rightarrow> remote \<Rightarrow> args \<Rightarrow> ToolResponse call" where
  "miro_list_board_members this remote a =
     await (listBoardMembers this remote (arg a ''boardId'') (JObj [(''limit'', arg a ''limit''),
         (''cursor'', arg a ''cursor'')]))
       (\<lambda>result. lift (formatResponse result (arg a ''format'') ''members''))"

definition miro_get_board_member :: "TenantCredentials \<Rightarrow> remote \<Rightarrow> args \<Rightarrow> ToolResponse call" where
  "miro_get_board_member this remote a =
     await (getBoardMember this remote (arg a ''boardId'') (arg a ''memberId''))
       (\<lambda>member. ok (text_response (JSON_stringify2 member)))"

text \<open>
  \<open>miro_share_board\<close> splits the list of addresses inside its \<open>try\<close>; on a value
  that is no string, \<open>emails.split\<close> is a fault.
\<close>

definition miro_share_board :: "TenantCredentials \<Rightarrow> remote \<Rightarrow> args \<Rightarrow> ToolResponse call" where
  "miro_share_board this remote a =
     (case arg a ''emails'' of
        JStr emails \<Rightarrow>
          (let emailList = filter (\<lambda>e. e \<noteq> []) (map trim (split_on CHR '','' emails))
           in await (shareBoard this remote (arg a ''boardId'')
                       \<lparr>share_emails = JArr (map JStr emailList), share_role = arg a ''role'',
                        share_message = arg a ''message''\<rparr>)
                (\<lambda>r. ok (text_response (JSON_stringify2 (JObj [(''success'', JBool True),
                    (''message'', JStr (''Board shared with '' @ show_nat (length emailList)
                    @ '' user(s)''))])))))
      | _ \<Rightarrow> throw TypeError)"

definition miro_update_board_member :: "TenantCredentials \<Rightarrow> remote \<Rightarrow> args \<Rightarrow> ToolResponse call" where
  "miro_update_board_member this remote a =
     await (updateBoardMember this remote (arg a ''boardId'') (arg a ''memberId'') (arg a ''role''))
       (\<lambda>member. ok (text_response (JSON_stringify2 (JObj [(''success'', JBool True),
           (''message'', JStr ''Member updated''), (''member'', member)]))))"

definition miro_remove_board_member :: "TenantCredentials \<Rightarrow> remote \<Rightarrow> args \<Rightarrow> ToolResponse call" where
  "miro_remove_board_member this remote a =
     await (removeBoardMember this remote (arg a ''boardId'') (arg a ''memberId''))
       (\<lambda>r. ok (text_response (JSON_stringify2 (JObj [(''success'', JBool True),
           (''message'', JStr (''Member '' @ to_string (arg a ''memberId'')
           @ '' removed from board''))]))))"

subsection \<open>Generic item tools\<close>

definition miro_list_items :: "TenantCredentials \<Rightarrow> remote \<Rightarrow> args \<Rightarrow> ToolResponse call" where
  "miro_list_items this remote a =
     await (listItems this remote (arg a ''boardId'') (JObj [(''limit'', arg a ''limit''),
         (''cursor'', arg a ''cursor''), (''type'', arg a ''type'')]))
       (\<lambda>result. lift (formatResponse result (arg a ''format'') ''items''))"

definition miro_get_item :: "TenantCredentials \<Rightarrow> remote \<Rightarrow> args \<Rightarrow> ToolResponse call" where
  "miro_get_item this remote a =
     await (getItem this remote (arg a ''boardId'') (arg a ''itemId''))
       (\<lambda>item. ok (text_response (JSON_stringify2 item)))"

definition miro_update_item_position :: "TenantCredentials \<Rightarrow> remote \<Rightarrow> args \<Rightarrow> ToolResponse call" where
  "miro_update_item_position this remote a =
     await (updateItemPosition this remote (arg a ''boardId'') (arg a ''itemId'')
              (JObj [(''x'', arg a ''x''), (''y'', arg a ''y'')]) (arg a ''parentId''))
       (\<lambda>item. ok (text_response (JSON_stringify2 (JObj [(''success'', JBool True),
           (''message'', JStr ''Item position updated''), (''item'', item)]))))"

definition miro_delete_item :: "TenantCredentials \<Rightarrow> remote \<Rightarrow> args \<Rightarrow> ToolResponse call" where
  "miro_delete_item this remote a =
     await (deleteItem this remote (arg a ''boardId'') (arg a ''itemId''))
       (\<lambda>r. ok (text_response (JSON_stringify2 (JObj [(''success'', JBool True),
           (''message'', JStr (''Item '' @ to_string (arg a ''itemId'') @ '' deleted''))]))))"

subsection \<open>Sticky note tools\<close>

definition miro_create_sticky_note_input :: "args \<Rightarrow> jsval" where
  "miro_create_sticky_note_input a =
     JObj ([(''data'', JObj ([(''content'', arg a ''content'')]
         @ field_if (truthy (arg a ''shape'')) ''shape'' (arg a ''shape''))),
         (''position'', JObj [(''x'', arg a ''x''), (''y'', arg a ''y'')])]
             @ field_if (truthy (arg a ''fillColor'')) ''style'' (JObj [(''fillColor'', arg a ''fillColor'')])
             @ field_if (truthy (arg a ''width'') \<or> truthy (arg a ''height'')) ''geometry'' (JObj [(''width'', arg a ''width''),
                 (''height'', arg a ''height'')]))"

definition miro_create_sticky_note :: "TenantCredentials \<Rightarrow> remote \<Rightarrow> args \<Rightarrow> ToolResponse call" where
  "miro_create_sticky_note this remote a =
     await (createStickyNote this remote (arg a ''boardId'') (miro_create_sticky_note_input a))
       (\<lambda>stickyNote. ok (text_response (JSON_stringify2 (JObj [(''success'', JBool True),
           (''message'', JStr ''Sticky note created''), (''stickyNote'', stickyNote)]))))"

definition miro_get_sticky_note :: "TenantCredentials \<Rightarrow> remote \<Rightarrow> args \<Rightarrow> ToolResponse call" where
  "miro_get_sticky_note this remote a =
     await (getStickyNote this remote (arg a ''boardId'') (arg a ''itemId''))
       (\<lambda>stickyNote. ok (text_response (JSON_stringify2 stickyNote)))"

definition miro_update_sticky_note_input :: "args \<Rightarrow> jsval" where
  "miro_update_sticky_note_input a =
     JObj (field_if (truthy (arg a ''content'')) ''data'' (JObj [(''content'', arg a ''content'')])
             @ field_if (arg a ''x'' \<noteq> JUndefined \<and> arg a ''y'' \<noteq> JUndefined) ''position'' (JObj [(''x'', arg a ''x''),
                 (''y'', arg a ''y'')])
             @ field_if (truthy (arg a ''fillColor'')) ''style'' (JObj [(''fillColor'', arg a ''fillColor'')]))"

definition miro_update_sticky_note :: "TenantCredentials \<Rightarrow> remote \<Rightarrow> args \<Rightarrow> ToolResponse call" where
  "miro_update_sticky_note this remote a =
     await (updateStickyNote this remote (arg a ''boardId'') (arg a ''itemId'') (miro_update_sticky_note_input a))
       (\<lambda>stickyNote. ok (text_response (JSON_stringify2 (JObj [(''success'', JBool True),
           (''message'', JStr ''Sticky note updated''), (''stickyNote'', stickyNote)]))))"

definition miro_delete_sticky_note :: "TenantCredentials \<Rightarrow> remote \<Rightarrow> args \<Rightarrow> ToolResponse call" where
  "miro_delete_sticky_note this remote a =
     await (deleteStickyNote this remote (arg a ''boardId'') (arg a ''itemId''))
       (\<lambda>r. ok (text_response (JSON_stringify2 (JObj [(''success'', JBool True),
           (''message'', JStr (''Sticky note '' @ to_string (arg a ''itemId'')
           @ '' deleted''))]))))"

subsection \<open>Shape tools\<close>

definition miro_create_shape_input :: "args \<Rightarrow> jsval" where
  "miro_create_shape_input a =
     JObj ([(''data'', JObj ([(''shape'', arg a ''shape'')]
         @ field_if (truthy (arg a ''content'')) ''content'' (arg a ''content''))),
         (''position'', JObj [(''x'', arg a ''x''), (''y'', arg a ''y'')]),
         (''geometry'', JObj [(''width'', arg a ''width''), (''height'', arg a ''height'')])]
             @ field_if (truthy (arg a ''fillColor'') \<or> truthy (arg a ''borderColor'') \<or> truthy (arg a ''borderWidth'')) ''style'' (JObj (field_if (truthy (arg a ''fillColor'')) ''fillColor'' (arg a ''fillColor'')
                 @ field_if (truthy (arg a ''borderColor'')) ''borderColor'' (arg a ''borderColor'')
                 @ field_if (truthy (arg a ''borderWidth'')) ''borderWidth'' (arg a ''borderWidth''))))"

definition miro_create_shape :: "TenantCredentials \<Rightarrow> remote \<Rightarrow> args \<Rightarrow> ToolResponse call" where
  "miro_create_shape this remote a =
     await (createShape this remote (arg a ''boardId'') (miro_create_shape_input a))
       (\<lambda>shapeItem. ok (text_response (JSON_stringify2 (JObj [(''success'', JBool True),
           (''message'', JStr ''Shape created''), (''shape'', shapeItem)]))))"

definition miro_get_shape :: "TenantCredentials \<Rightarrow> remote \<Rightarrow> args \<Rightarrow> ToolResponse call" where
  "miro_get_shape this remote a =
     await (getShape this remote (arg a ''boardId'') (arg a ''itemId''))
       (\<lambda>shape. ok (text_response (JSON_stringify2 shape)))"

definition miro_update_shape_input :: "args \<Rightarrow> jsval" where
  "miro_update_shape_input a =
     JObj (field_if (truthy (arg a ''content'')) ''data'' (JObj [(''content'', arg a ''content'')])
             @ field_if (arg a ''x'' \<noteq> JUndefined \<and> arg a ''y'' \<noteq> JUndefined) ''position'' (JObj [(''x'', arg a ''x''),
                 (''y'', arg a ''y'')])
             @ field_if (arg a ''width'' \<noteq> JUndefined \<or> arg a ''height'' \<noteq> JUndefined) ''geometry'' (JObj [(''width'', arg a ''width''),
                 (''height'', arg a ''height'')])
             @ field_if (truthy (arg a ''fillColor'')) ''style'' (JObj [(''fillColor'', arg a ''fillColor'')]))"

definition miro_update_shape :: "TenantCredentials \<Rightarrow> remote \<Rightarrow> args \<Rightarrow> ToolResponse call" where
  "miro_update_shape this remote a =
     await (updateShape this remote (arg a ''boardId'') (arg a ''itemId'') (miro_update_shape_input a))
       (\<lambda>shape. ok (text_response (JSON_stringify2 (JObj [(''success'', JBool True),
           (''message'', JStr ''Shape updated''), (''shape'', shape)]))))"

definition miro_delete_shape :: "TenantCredentials \<Rightarrow> remote \<Rightarrow> args \<Rightarrow> ToolResponse call" where
  "miro_delete_shape this remote a =
     await (deleteShape this remote (arg a ''boardId'') (arg a ''itemId''))
       (\<lambda>r. ok (text_response (JSON_stringify2 (JObj [(''success'', JBool True),
           (''message'', JStr (''Shape '' @ to_string (arg a ''itemId'') @ '' deleted''))]))))"

subsection \<open>Text tools\<close>

definition miro_create_text_input :: "args \<Rightarrow> jsval" where
  "miro_create_text_input a =
     JObj ([(''data'', JObj ([(''content'', arg a ''content'')])),
         (''position'', JObj [(''x'', arg a ''x''), (''y'', arg a ''y'')])]
             @ field_if (truthy (arg a ''width'')) ''geometry'' (JObj [(''width'', arg a ''width'')])
             @ field_if (truthy (arg a ''fontSize'') \<or> truthy (arg a ''textAlign'') \<or> truthy (arg a ''color'')) ''style'' (JObj (field_if (truthy (arg a ''fontSize'')) ''fontSize'' (arg a ''fontSize'')
                 @ field_if (truthy (arg a ''textAlign'')) ''textAlign'' (arg a ''textAlign'')
                 @ field_if (truthy (arg a ''color'')) ''color'' (arg a ''color''))))"

definition miro_create_text :: "TenantCredentials \<Rightarrow> remote \<Rightarrow> args \<Rightarrow> ToolResponse call" where
  "miro_create_text this remote a =
     await (createText this remote (arg a ''boardId'') (miro_create_text_input a))
       (\<lambda>textItem. ok (text_response (JSON_stringify2 (JObj [(''success'', JBool True),
           (''message'', JStr ''Text item created''), (''textItem'', textItem)]))))"

definition miro_get_text :: "TenantCredentials \<Rightarrow> remote \<Rightarrow> args \<Rightarrow> ToolResponse call" where
  "miro_get_text this remote a =
     await (getText this remote (arg a ''boardId'') (arg a ''itemId''))
       (\<lambda>textItem. ok (text_response (JSON_stringify2 textItem)))"

definition miro_update_text_input :: "args \<Rightarrow> jsval" where
  "miro_update_text_input a =
     JObj (field_if (truthy (arg a ''content'')) ''data'' (JObj [(''content'', arg a ''content'')])
             @ field_if (arg a ''x'' \<noteq> JUndefined \<and> arg a ''y'' \<noteq> JUndefined) ''position'' (JObj [(''x'', arg a ''x''),
                 (''y'', arg a ''y'')])
             @ field_if (truthy (arg a ''fontSize'') \<or> truthy (arg a ''color'')) ''style'' (JObj (field_if (truthy (arg a ''fontSize'')) ''fontSize'' (arg a ''fontSize'')
                 @ field_if (truthy (arg a ''color'')) ''color'' (arg a ''color''))))"

definition miro_update_text :: "TenantCredentials \<Rightarrow> remote \<Rightarrow> args \<Rightarrow> ToolResponse call" where
  "miro_update_text this remote a =
     await (updateText this remote (arg a ''boardId'') (arg a ''itemId'') (miro_update_text_input a))
       (\<lambda>textItem. ok (text_response (JSON_stringify2 (JObj [(''success'', JBool True),
           (''message'', JStr ''Text item updated''), (''textItem'', textItem)]))))"

definition miro_delete_text :: "TenantCredentials \<Rightarrow> remote \<Rightarrow> args \<Rightarrow> ToolResponse call" where
  "miro_delete_text this remote a =
     await (deleteText this remote (arg a ''boardId'') (arg a ''itemId''))
       (\<lambda>r. ok (text_response (JSON_stringify2 (JObj [(''success'', JBool True),
           (''message'', JStr (''Text item '' @ to_string (arg a ''itemId'') @ '' deleted''))]))))"

subsection \<open>Card tools\<close>

definition miro_create_card_input :: "args \<Rightarrow> jsval" where
  "miro_create_card_input a =
     JObj ([(''data'', JObj ([(''title'', arg a ''title'')]
         @ field_if (truthy (arg a ''description'')) ''description'' (arg a ''description'')
         @ field_if (truthy (arg a ''dueDate'')) ''dueDate'' (arg a ''dueDate'')
         @ field_if (truthy (arg a ''assigneeId'')) ''assigneeId'' (arg a ''assigneeId''))),
         (''position'', JObj [(''x'', arg a ''x''), (''y'', arg a ''y'')])])"

definition miro_create_card :: "TenantCredentials \<Rightarrow> remote \<Rightarrow> args \<Rightarrow> ToolResponse call" where
  "miro_create_card this remote a =
     await (createCard this remote (arg a ''boardId'') (miro_create_card_input a))
       (\<lambda>card. ok (text_response (JSON_stringify2 (JObj [(''success'', JBool True),
           (''message'', JStr ''Card created''), (''card'', card)]))))"

definition miro_get_card :: "TenantCredentials \<Rightarrow> remote \<Rightarrow> args \<Rightarrow> ToolResponse call" where
  "miro_get_card this remote a =
     await (getCard this remote (arg a ''boardId'') (arg a ''itemId''))
       (\<lambda>card. ok (text_response (JSON_stringify2 card)))"

definition miro_update_card_input :: "args \<Rightarrow> jsval" where
  "miro_update_card_input a =
     JObj (field_if (truthy (arg a ''title'') \<or> truthy (arg a ''description'') \<or> truthy (arg a ''dueDate'') \<or> truthy (arg a ''assigneeId'')) ''data'' (JObj (field_if (truthy (arg a ''title'')) ''title'' (arg a ''title'')
         @ field_if (truthy (arg a ''description'')) ''description'' (arg a ''description'')
         @ field_if (truthy (arg a ''dueDate'')) ''dueDate'' (arg a ''dueDate'')
         @ field_if (truthy (arg a ''assigneeId'')) ''assigneeId'' (arg a ''assigneeId'')))
             @ field_if (arg a ''x'' \<noteq> JUndefined \<and> arg a ''y'' \<noteq> JUndefined) ''position'' (JObj [(''x'', arg a ''x''),
                 (''y'', arg a ''y'')]))"

definition miro_update_card :: "TenantCredentials \<Rightarrow> remote \<Rightarrow> args \<Rightarrow> ToolResponse call" where
  "miro_update_card this remote a =
     await (updateCard this remote (arg a ''boardId'') (arg a ''itemId'') (miro_update_card_input a))
       (\<lambda>card. ok (text_response (JSON_stringify2 (JObj [(''success'', JBool True),
           (''message'', JStr ''Card updated''), (''card'', card)]))))"

definition miro_delete_card :: "TenantCredentials \<Rightarrow> remote \<Rightarrow> args \<Rightarrow> ToolResponse call" where
  "miro_delete_card this remote a =
     await (deleteCard this remote (arg a ''boardId'') (arg a ''itemId''))
       (\<lambda>r. ok (text_response (JSON_stringify2 (JObj [(''success'', JBool True),
           (''message'', JStr (''Card '' @ to_string (arg a ''itemId'') @ '' deleted''))]))))"

subsection \<open>Frame tools\<close>

definition miro_create_frame_input :: "args \<Rightarrow> jsval" where
  "miro_create_frame_input a =
     JObj ([(''data'', JObj (field_if (truthy (arg a ''title'')) ''title'' (arg a ''title'')
         @ field_if (truthy (arg a ''format'')) ''format'' (arg a ''format''))),
         (''position'', JObj [(''x'', arg a ''x''), (''y'', arg a ''y'')]),
         (''geometry'', JObj [(''width'', arg a ''width''), (''height'', arg a ''height'')])]
             @ field_if (truthy (arg a ''fillColor'')) ''style'' (JObj [(''fillColor'', arg a ''fillColor'')]))"

definition miro_create_frame :: "TenantCredentials \<Rightarrow> remote \<Rightarrow> args \<Rightarrow> ToolResponse call" where
  "miro_create_frame this remote a =
     await (createFrame this remote (arg a ''boardId'') (miro_create_frame_input a))
       (\<lambda>frame. ok (text_response (JSON_stringify2 (JObj [(''success'', JBool True),
           (''message'', JStr ''Frame created''), (''frame'', frame)]))))"

definition miro_get_frame :: "TenantCredentials \<Rightarrow> remote \<Rightarrow> args \<Rightarrow> ToolResponse call" where
  "miro_get_frame this remote a =
     await (getFrame this remote (arg a ''boardId'') (arg a ''itemId''))
       (\<lambda>frame. ok (text_response (JSON_stringify2 frame)))"

definition miro_update_frame_input :: "args \<Rightarrow> jsval" where
  "miro_update_frame_input a =
     JObj (field_if (truthy (arg a ''title'')) ''data'' (JObj [(''title'', arg a ''title'')])
             @ field_if (arg a ''x'' \<noteq> JUndefined \<and> arg a ''y'' \<noteq> JUndefined) ''position'' (JObj [(''x'', arg a ''x''),
                 (''y'', arg a ''y'')])
             @ field_if (arg a ''width'' \<noteq> JUndefined \<or> arg a ''height'' \<noteq> JUndefined) ''geometry'' (JObj [(''width'', arg a ''width''),
                 (''height'', arg a ''height'')])
             @ field_if (truthy (arg a ''fillColor'')) ''style'' (JObj [(''fillColor'', arg a ''fillColor'')]))"

definition miro_update_frame :: "TenantCredentials \<Rightarrow> remote \<Rightarrow> args \<Rightarrow> ToolResponse call" where
  "miro_update_frame this remote a =
     await (updateFrame this remote (arg a ''boardId'') (arg a ''itemId'') (miro_update_frame_input a))
       (\<lambda>frame. ok (text_response (JSON_stringify2 (JObj [(''success'', JBool True),
           (''message'', JStr ''Frame updated''), (''frame'', frame)]))))"

definition miro_delete_frame :: "TenantCredentials \<Rightarrow> remote \<Rightarrow> args \<Rightarrow> ToolResponse call" where
  "miro_delete_frame this remote a =
     await (deleteFrame this remote (arg a ''boardId'') (arg a ''itemId''))
       (\<lambda>r. ok (text_response (JSON_stringify2 (JObj [(''success'', JBool True),
           (''message'', JStr (''Frame '' @ to_string (arg a ''itemId'') @ '' deleted''))]))))"

definition miro_get_frame_items :: "TenantCredentials \<Rightarrow> remote \<Rightarrow> args \<Rightarrow> ToolResponse call" where
  "miro_get_frame_items this remote a =
     await (getFrameItems this remote (arg a ''boardId'') (arg a ''frameId'') (JObj [(''limit'', arg a ''limit''),
         (''cursor'', arg a ''cursor'')]))
       (\<lambda>result. lift (formatResponse result (arg a ''format'') ''items''))"

subsection \<open>Connector tools\<close>

definition miro_list_connectors :: "TenantCredentials \<Rightarrow> remote \<Rightarrow> args \<Rightarrow> ToolResponse call" where
  "miro_list_connectors this remote a =
     await (listConnectors this remote (arg a ''boardId'') (JObj [(''limit'', arg a ''limit''),
         (''cursor'', arg a ''cursor'')]))
       (\<lambda>result. lift (formatResponse result (arg a ''format'') ''connectors''))"

definition miro_create_connector_input :: "args \<Rightarrow> jsval" where
  "miro_create_connector_input a =
     JObj ([(''startItem'', JObj [(''id'', arg a ''startItemId'')]),
         (''endItem'', JObj [(''id'', arg a ''endItemId'')])]
             @ field_if (truthy (arg a ''shape'')) ''shape'' (arg a ''shape'')
             @ field_if (truthy (arg a ''startStrokeCap'') \<or> truthy (arg a ''endStrokeCap'') \<or> truthy (arg a ''strokeColor'') \<or> truthy (arg a ''strokeWidth'')) ''style'' (JObj (field_if (truthy (arg a ''startStrokeCap'')) ''startStrokeCap'' (arg a ''startStrokeCap'')
                 @ field_if (truthy (arg a ''endStrokeCap'')) ''endStrokeCap'' (arg a ''endStrokeCap'')
                 @ field_if (truthy (arg a ''strokeColor'')) ''strokeColor'' (arg a ''strokeColor'')
                 @ field_if (truthy (arg a ''strokeWidth'')) ''strokeWidth'' (arg a ''strokeWidth'')))
             @ field_if (truthy (arg a ''caption'')) ''captions'' (JArr [JObj [(''content'', arg a ''caption'')]]))"

definition miro_create_connector :: "TenantCredentials \<Rightarrow> remote \<Rightarrow> args \<Rightarrow> ToolResponse call" where
  "miro_create_connector this remote a =
     await (createConnector this remote (arg a ''boardId'') (miro_create_connector_input a))
       (\<lambda>connector. ok (text_response (JSON_stringify2 (JObj [(''success'', JBool True),
           (''message'', JStr ''Connector created''), (''connector'', connector)]))))"

definition miro_get_connector :: "TenantCredentials \<Rightarrow> remote \<Rightarrow> args \<Rightarrow> ToolResponse call" where
  "miro_get_connector this remote a =
     await (getConnector this remote (arg a ''boardId'') (arg a ''connectorId''))
       (\<lambda>connector. ok (text_response (JSON_stringify2 connector)))"

definition miro_update_connector_input :: "args \<Rightarrow> jsval" where
  "miro_update_connector_input a =
     JObj (field_if (truthy (arg a ''shape'')) ''shape'' (arg a ''shape'')
             @ field_if (truthy (arg a ''startStrokeCap'') \<or> truthy (arg a ''endStrokeCap'') \<or> truthy (arg a ''strokeColor'')) ''style'' (JObj (field_if (truthy (arg a ''startStrokeCap'')) ''startStrokeCap'' (arg a ''startStrokeCap'')
                 @ field_if (truthy (arg a ''endStrokeCap'')) ''endStrokeCap'' (arg a ''endStrokeCap'')
                 @ field_if (truthy (arg a ''strokeColor'')) ''strokeColor'' (arg a ''strokeColor'')))
             @ field_if (truthy (arg a ''caption'')) ''captions'' (JArr [JObj [(''content'', arg a ''caption'')]]))"

definition miro_update_connector :: "TenantCredentials \<Rightarrow> remote \<Rightarrow> args \<Rightarrow> ToolResponse call" where
  "miro_update_connector this remote a =
     await (updateConnector this remote (arg a ''boardId'') (arg a ''connectorId'') (miro_update_connector_input a))
       (\<lambda>connector. ok (text_response (JSON_stringify2 (JObj [(''success'', JBool True),
           (''message'', JStr ''Connector updated''), (''connector'', connector)]))))"

definition miro_delete_connector :: "TenantCredentials \<Rightarrow> remote \<Rightarrow> args \<Rightarrow> ToolResponse call" where
  "miro_delete_connector this remote a =
     await (deleteConnector this remote (arg a ''boardId'') (arg a ''connectorId''))
       (\<lambda>r. ok (text_response (JSON_stringify2 (JObj [(''success'', JBool True),
           (''message'', JStr (''Connector '' @ to_string (arg a ''connectorId'')
           @ '' deleted''))]))))"

subsection \<open>Image tools\<close>

definition miro_create_image_input :: "args \<Rightarrow> jsval" where
  "miro_create_image_input a =
     JObj ([(''data'', JObj ([(''url'', arg a ''url'')]
         @ field_if (truthy (arg a ''title'')) ''title'' (arg a ''title''))),
         (''position'', JObj [(''x'', arg a ''x''), (''y'', arg a ''y'')])]
             @ field_if (truthy (arg a ''width'') \<or> truthy (arg a ''height'')) ''geometry'' (JObj [(''width'', arg a ''width''),
                 (''height'', arg a ''height'')]))"

definition miro_create_image :: "TenantCredentials \<Rightarrow> remote \<Rightarrow> args \<Rightarrow> ToolResponse call" where
  "miro_create_image this remote a =
     await (createImageFromUrl this remote (arg a ''boardId'') (miro_create_image_input a))
       (\<lambda>image. ok (text_response (JSON_stringify2 (JObj [(''success'', JBool True),
           (''message'', JStr ''Image created''), (''image'', image)]))))"

definition miro_get_image :: "TenantCredentials \<Rightarrow> remote \<Rightarrow> args \<Rightarrow> ToolResponse call" where
  "miro_get_image this remote a =
     await (getImage this remote (arg a ''boardId'') (arg a ''itemId''))
       (\<lambda>image. ok (text_response (JSON_stringify2 image)))"

definition miro_update_image_input :: "args \<Rightarrow> jsval" where
  "miro_update_image_input a =
     JObj (field_if (truthy (arg a ''title'')) ''data'' (JObj [(''title'', arg a ''title'')])
             @ field_if (arg a ''x'' \<noteq> JUndefined \<and> arg a ''y'' \<noteq> JUndefined) ''position'' (JObj [(''x'', arg a ''x''),
                 (''y'', arg a ''y'')])
             @ field_if (arg a ''width'' \<noteq> JUndefined \<or> arg a ''height'' \<noteq> JUndefined) ''geometry'' (JObj [(''width'', arg a ''width''),
                 (''height'', arg a ''height'')]))"

definition miro_update_image :: "TenantCredentials \<Rightarrow> remote \<Rightarrow> args \<Rightarrow> ToolResponse call" where
  "miro_update_image this remote a =
     await (updateImage this remote (arg a ''boardId'') (arg a ''itemId'') (miro_update_image_input a))
       (\<lambda>image. ok (text_response (JSON_stringify2 (JObj [(''success'', JBool True),
           (''message'', JStr ''Image updated''), (''image'', image)]))))"

definition miro_delete_image :: "TenantCredentials \<Rightarrow> remote \<Rightarrow> args \<Rightarrow> ToolResponse call" where
  "miro_delete_image this remote a =
     await (deleteImage this remote (arg a ''boardId'') (arg a ''itemId''))
       (\<lambda>r. ok (text_response (JSON_stringify2 (JObj [(''success'', JBool True),
           (''message'', JStr (''Image '' @ to_string (arg a ''itemId'') @ '' deleted''))]))))"

subsection \<open>Tag tools\<close>

definition miro_list_tags :: "TenantCredentials \<Rightarrow> remote \<Rightarrow> args \<Rightarrow> ToolResponse call" where
  "miro_list_tags this remote a =
     await (listTags this remote (arg a ''boardId'') (JObj [(''limit'', arg a ''limit''),
         (''cursor'', arg a ''cursor'')]))
       (\<lambda>result. lift (formatResponse result (arg a ''format'') ''tags''))"

definition miro_create_tag_input :: "args \<Rightarrow> jsval" where
  "miro_create_tag_input a =
     JObj ([(''title'', arg a ''title'')]
             @ field_if (truthy (arg a ''fillColor'')) ''fillColor'' (arg a ''fillColor''))"

definition miro_create_tag :: "TenantCredentials \<Rightarrow> remote \<Rightarrow> args \<Rightarrow> ToolResponse call" where
  "miro_create_tag this remote a =
     await (createTag this remote (arg a ''boardId'') (miro_create_tag_input a))
       (\<lambda>tag. ok (text_response (JSON_stringify2 (JObj [(''success'', JBool True),
           (''message'', JStr ''Tag created''), (''tag'', tag)]))))"

definition miro_get_tag :: "TenantCredentials \<Rightarrow> remote \<Rightarrow> args \<Rightarrow> ToolResponse call" where
  "miro_get_tag this remote a =
     await (getTag this remote (arg a ''boardId'') (arg a ''tagId''))
       (\<lambda>tag. ok (text_response (JSON_stringify2 tag)))"

definition miro_update_tag_input :: "args \<Rightarrow> jsval" where
  "miro_update_tag_input a =
     JObj (field_if (truthy (arg a ''title'')) ''title'' (arg a ''title'')
             @ field_if (truthy (arg a ''fillColor'')) ''fillColor'' (arg a ''fillColor''))"

definition miro_update_tag :: "TenantCredentials \<Rightarrow> remote \<Rightarrow> args \<Rightarrow> ToolResponse call" where
  "miro_update_tag this remote a =
     await (updateTag this remote (arg a ''boardId'') (arg a ''tagId'') (miro_update_tag_input a))
       (\<lambda>tag. ok (text_response (JSON_stringify2 (JObj [(''success'', JBool True),
           (''message'', JStr ''Tag updated''), (''tag'', tag)]))))"

definition miro_delete_tag :: "TenantCredentials \<Rightarrow> remote \<Rightarrow> args \<Rightarrow> ToolResponse call" where
  "miro_delete_tag this remote a =
     await (deleteTag this remote (arg a ''boardId'') (arg a ''tagId''))
       (\<lambda>r. ok (text_response (JSON_stringify2 (JObj [(''success'', JBool True),
           (''message'', JStr (''Tag '' @ to_string (arg a ''tagId'') @ '' deleted''))]))))"

definition miro_attach_tag :: "TenantCredentials \<Rightarrow> remote \<Rightarrow> args \<Rightarrow> ToolResponse call" where
  "miro_attach_tag this remote a =
     await (attachTagToItem this remote (arg a ''boardId'') (arg a ''itemId'') (arg a ''tagId''))
       (\<lambda>r. ok (text_response (JSON_stringify2 (JObj [(''success'', JBool True),
           (''message'', JStr (''Tag '' @ to_string (arg a ''tagId'') @ '' attached to item ''
           @ to_string (arg a ''itemId'')))]))))"

definition miro_remove_tag :: "TenantCredentials \<Rightarrow> remote \<Rightarrow> args \<Rightarrow> ToolResponse call" where
  "miro_remove_tag this remote a =
     await (removeTagFromItem this remote (arg a ''boardId'') (arg a ''itemId'') (arg a ''tagId''))
       (\<lambda>r. ok (text_response (JSON_stringify2 (JObj [(''success'', JBool True),
           (''message'', JStr (''Tag '' @ to_string (arg a ''tagId'') @ '' removed from item ''
           @ to_string (arg a ''itemId'')))]))))"

definition miro_get_items_by_tag :: "TenantCredentials \<Rightarrow> remote \<Rightarrow> args \<Rightarrow> ToolResponse call" where
  "miro_get_items_by_tag this remote a =
     await (getItemsByTag this remote (arg a ''boardId'') (arg a ''tagId'') (JObj [(''limit'', arg a ''limit''),
         (''cursor'', arg a ''cursor'')]))
       (\<lambda>result. lift (formatResponse result (arg a ''format'') ''items''))"

definition miro_get_item_tags :: "TenantCredentials \<Rightarrow> remote \<Rightarrow> args \<Rightarrow> ToolResponse call" where
  "miro_get_item_tags this remote a =
     await (getTagsFromItem this remote (arg a ''boardId'') (arg a ''itemId''))
       (\<lambda>tags. ok (text_response (JSON_stringify2 (JObj [(''tags'', tags)]))))"

subsection \<open>Embed tools\<close>

definition miro_create_embed_input :: "args \<Rightarrow> jsval" where
  "miro_create_embed_input a =
     JObj ([(''data'', JObj ([(''url'', arg a ''url'')]
         @ field_if (truthy (arg a ''mode'')) ''mode'' (arg a ''mode''))),
         (''position'', JObj [(''x'', arg a ''x''), (''y'', arg a ''y'')])]
             @ field_if (truthy (arg a ''width'') \<or> truthy (arg a ''height'')) ''geometry'' (JObj [(''width'', arg a ''width''),
                 (''height'', arg a ''height'')]))"

definition miro_create_embed :: "TenantCredentials \<Rightarrow> remote \<Rightarrow> args \<Rightarrow> ToolResponse call" where
  "miro_create_embed this remote a =
     await (createEmbed this remote (arg a ''boardId'') (miro_create_embed_input a))
       (\<lambda>embed. ok (text_response (JSON_stringify2 (JObj [(''success'', JBool True),
           (''message'', JStr ''Embed created''), (''embed'', embed)]))))"

definition miro_get_embed :: "TenantCredentials \<Rightarrow> remote \<Rightarrow> args \<Rightarrow> ToolResponse call" where
  "miro_get_embed this remote a =
     await (getEmbed this remote (arg a ''boardId'') (arg a ''itemId''))
       (\<lambda>embed. ok (text_response (JSON_stringify2 embed)))"

definition miro_update_embed_input :: "args \<Rightarrow> jsval" where
  "miro_update_embed_input a =
     JObj (field_if (arg a ''x'' \<noteq> JUndefined \<and> arg a ''y'' \<noteq> JUndefined) ''position'' (JObj [(''x'', arg a ''x''),
         (''y'', arg a ''y'')])
             @ field_if (arg a ''width'' \<noteq> JUndefined \<or> arg a ''height'' \<noteq> JUndefined) ''geometry'' (JObj [(''width'', arg a ''width''),
                 (''height'', arg a ''height'')]))"

definition miro_update_embed :: "TenantCredentials \<Rightarrow> remote \<Rightarrow> args \<Rightarrow> ToolResponse call" where
  "miro_update_embed this remote a =
     await (updateEmbed this remote (arg a ''boardId'') (arg a ''itemId'') (miro_update_embed_input a))
       (\<lambda>embed. ok (text_response (JSON_stringify2 (JObj [(''success'', JBool True),
           (''message'', JStr ''Embed updated''), (''embed'', embed)]))))"

definition miro_delete_embed :: "TenantCredentials \<Rightarrow> remote \<Rightarrow> args \<Rightarrow> ToolResponse call" where
  "miro_delete_embed this remote a =
     await (deleteEmbed this remote (arg a ''boardId'') (arg a ''itemId''))
       (\<lambda>r. ok (text_response (JSON_stringify2 (JObj [(''success'', JBool True),
           (''message'', JStr (''Embed '' @ to_string (arg a ''itemId'') @ '' deleted''))]))))"

subsection \<open>App card tools\<close>

definition miro_create_app_card_input :: "args \<Rightarrow> jsval" where
  "miro_create_app_card_input a =
     JObj ([(''data'', JObj ([(''title'', arg a ''title'')]
         @ field_if (truthy (arg a ''description'')) ''description'' (arg a ''description'')
         @ field_if (truthy (arg a ''status'')) ''status'' (arg a ''status''))),
         (''position'', JObj [(''x'', arg a ''x''), (''y'', arg a ''y'')])])"

definition miro_create_app_card :: "TenantCredentials \<Rightarrow> remote \<Rightarrow> args \<Rightarrow> ToolResponse call" where
  "miro_create_app_card this remote a =
     await (createAppCard this remote (arg a ''boardId'') (miro_create_app_card_input a))
       (\<lambda>appCard. ok (text_response (JSON_stringify2 (JObj [(''success'', JBool True),
           (''message'', JStr ''App card created''), (''appCard'', appCard)]))))"

definition miro_get_app_card :: "TenantCredentials \<Rightarrow> remote \<Rightarrow> args \<Rightarrow> ToolResponse call" where
  "miro_get_app_card this remote a =
     await (getAppCard this remote (arg a ''boardId'') (arg a ''itemId''))
       (\<lambda>appCard. ok (text_response (JSON_stringify2 appCard)))"

definition miro_update_app_card_input :: "args \<Rightarrow> jsval" where
  "miro_update_app_card_input a =
     JObj (field_if (truthy (arg a ''title'') \<or> truthy (arg a ''description'') \<or> truthy (arg a ''status'')) ''data'' (JObj (field_if (truthy (arg a ''title'')) ''title'' (arg a ''title'')
         @ field_if (truthy (arg a ''description'')) ''description'' (arg a ''description'')
         @ field_if (truthy (arg a ''status'')) ''status'' (arg a ''status'')))
             @ field_if (arg a ''x'' \<noteq> JUndefined \<and> arg a ''y'' \<noteq> JUndefined) ''position'' (JObj [(''x'', arg a ''x''),
                 (''y'', arg a ''y'')]))"

definition miro_update_app_card :: "TenantCredentials \<Rightarrow> remote \<Rightarrow> args \<Rightarrow> ToolResponse call" where
  "miro_update_app_card this remote a =
     await (updateAppCard this remote (arg a ''boardId'') (arg a ''itemId'') (miro_update_app_card_input a))
       (\<lambda>appCard. ok (text_response (JSON_stringify2 (JObj [(''success'', JBool True),
           (''message'', JStr ''App card updated''), (''appCard'', appCard)]))))"

definition miro_delete_app_card :: "TenantCredentials \<Rightarrow> remote \<Rightarrow> args \<Rightarrow> ToolResponse call" where
  "miro_delete_app_card this remote a =
     await (deleteAppCard this remote (arg a ''boardId'') (arg a ''itemId''))
       (\<lambda>r. ok (text_response (JSON_stringify2 (JObj [(''success'', JBool True),
           (''message'', JStr (''App card '' @ to_string (arg a ''itemId'') @ '' deleted''))]))))"

subsection \<open>Document tools\<close>

definition miro_create_document_input :: "args \<Rightarrow> jsval" where
  "miro_create_document_input a =
     JObj ([(''data'', JObj ([(''url'', arg a ''url'')]
         @ field_if (truthy (arg a ''title'')) ''title'' (arg a ''title''))),
         (''position'', JObj [(''x'', arg a ''x''), (''y'', arg a ''y'')])])"

definition miro_create_document :: "TenantCredentials \<Rightarrow> remote \<Rightarrow> args \<Rightarrow> ToolResponse call" where
  "miro_create_document this remote a =
     await (createDocumentFromUrl this remote (arg a ''boardId'') (miro_create_document_input a))
       (\<lambda>document. ok (text_response (JSON_stringify2 (JObj [(''success'', JBool True),
           (''message'', JStr ''Document created''), (''document'', document)]))))"

definition miro_get_document :: "TenantCredentials \<Rightarrow> remote \<Rightarrow> args \<Rightarrow> ToolResponse call" where
  "miro_get_document this remote a =
     await (getDocument this remote (arg a ''boardId'') (arg a ''itemId''))
       (\<lambda>document. ok (text_response (JSON_stringify2 document)))"

definition miro_delete_document :: "TenantCredentials \<Rightarrow> remote \<Rightarrow> args \<Rightarrow> ToolResponse call" where
  "miro_delete_document this remote a =
     await (deleteDocument this remote (arg a ''boardId'') (arg a ''itemId''))
       (\<lambda>r. ok (text_response (JSON_stringify2 (JObj [(''success'', JBool True),
           (''message'', JStr (''Document '' @ to_string (arg a ''itemId'') @ '' deleted''))]))))"

subsection \<open>Registration\<close>

definition registerBoardTools :: "TenantCredentials \<Rightarrow> remote \<Rightarrow> tool list" where
  "registerBoardTools this remote =
     [\<lparr>tool_name = ''miro_list_boards'', tool_body = miro_list_boards this remote, tool_catch = formatError\<rparr>,
      \<lparr>tool_name = ''miro_get_board'', tool_body = miro_get_board this remote, tool_catch = formatError\<rparr>,
      \<lparr>tool_name = ''miro_create_board'', tool_body = miro_create_board this remote, tool_catch = formatError\<rparr>,
      \<lparr>tool_name = ''miro_update_board'', tool_body = miro_update_board this remote, tool_catch = formatError\<rparr>,
      \<lparr>tool_name = ''miro_delete_board'', tool_body = miro_delete_board this remote, tool_catch = formatError\<rparr>,
      \<lparr>tool_name = ''miro_copy_board'', tool_body = miro_copy_board this remote, tool_catch = formatError\<rparr>]"

definition registerMemberTools :: "TenantCredentials \<Rightarrow> remote \<Rightarrow> tool list" where
  "registerMemberTools this remote =
     [\<lparr>tool_name = ''miro_list_board_members'', tool_body = miro_list_board_members this remote, tool_catch = formatError\<rparr>,
      \<lparr>tool_name = ''miro_get_board_member'', tool_body = miro_get_board_member this remote, tool_catch = formatError\<rparr>,
      \<lparr>tool_name = ''miro_share_board'', tool_body = miro_share_board this remote, tool_catch = formatError\<rparr>,
      \<lparr>tool_name = ''miro_update_board_member'', tool_body = miro_update_board_member this remote, tool_catch = formatError\<rparr>,
      \<lparr>tool_name = ''miro_remove_board_member'', tool_body = miro_remove_board_member this remote, tool_catch = formatError\<rparr>]"

definition registerItemTools :: "TenantCredentials \<Rightarrow> remote \<Rightarrow> tool list" where
  "registerItemTools this remote =
     [\<lparr>tool_name = ''miro_list_items'', tool_body = miro_list_items this remote, tool_catch = formatError\<rparr>,
      \<lparr>tool_name = ''miro_get_item'', tool_body = miro_get_item this remote, tool_catch = formatError\<rparr>,
      \<lparr>tool_name = ''miro_update_item_position'', tool_body = miro_update_item_position this remote, tool_catch = formatError\<rparr>,
      \<lparr>tool_name = ''miro_delete_item'', tool_body = miro_delete_item this remote, tool_catch = formatError\<rparr>]"

definition registerStickyNoteTools :: "TenantCredentials \<Rightarrow> remote \<Rightarrow> tool list" where
  "registerStickyNoteTools this remote =
     [\<lparr>tool_name = ''miro_create_sticky_note'', tool_body = miro_create_sticky_note this remote, tool_catch = formatError\<rparr>,
      \<lparr>tool_name = ''miro_get_sticky_note'', tool_body = miro_get_sticky_note this remote, tool_catch = formatError\<rparr>,
      \<lparr>tool_name = ''miro_update_sticky_note'', tool_body = miro_update_sticky_note this remote, tool_catch = formatError\<rparr>,
      \<lparr>tool_name = ''miro_delete_sticky_note'', tool_body = miro_delete_sticky_note this remote, tool_catch = formatError\<rparr>]"

definition registerShapeTools :: "TenantCredentials \<Rightarrow> remote \<Rightarrow> tool list" where
  "registerShapeTools this remote =
     [\<lparr>tool_name = ''miro_create_shape'', tool_body = miro_create_shape this remote, tool_catch = formatError\<rparr>,
      \<lparr>tool_name = ''miro_get_shape'', tool_body = miro_get_shape this remote, tool_catch = formatError\<rparr>,
      \<lparr>tool_name = ''miro_update_shape'', tool_body = miro_update_shape this remote, tool_catch = formatError\<rparr>,
      \<lparr>tool_name = ''miro_delete_shape'', tool_body = miro_delete_shape this remote, tool_catch = formatError\<rparr>]"

definition registerTextTools :: "TenantCredentials \<Rightarrow> remote \<Rightarrow> tool list" where
  "registerTextTools this remote =
     [\<lparr>tool_name = ''miro_create_text'', tool_body = miro_create_text this remote, tool_catch = formatError\<rparr>,
      \<lparr>tool_name = ''miro_get_text'', tool_body = miro_get_text this remote, tool_catch = formatError\<rparr>,
      \<lparr>tool_name = ''miro_update_text'', tool_body = miro_update_text this remote, tool_catch = formatError\<rparr>,
      \<lparr>tool_name = ''miro_delete_text'', tool_body = miro_delete_text this remote, tool_catch = formatError\<rparr>]"

definition registerCardTools :: "TenantCredentials \<Rightarrow> remote \<Rightarrow> tool list" where
  "registerCardTools this remote =
     [\<lparr>tool_name = ''miro_create_card'', tool_body = miro_create_card this remote, tool_catch = formatError\<rparr>,
      \<lparr>tool_name = ''miro_get_card'', tool_body = miro_get_card this remote, tool_catch = formatError\<rparr>,
      \<lparr>tool_name = ''miro_update_card'', tool_body = miro_update_card this remote, tool_catch = formatError\<rparr>,
      \<lparr>tool_name = ''miro_delete_card'', tool_body = miro_delete_card this remote, tool_catch = formatError\<rparr>]"

definition registerFrameTools :: "TenantCredentials \<Rightarrow> remote \<Rightarrow> tool list" where
  "registerFrameTools this remote =
     [\<lparr>tool_name = ''miro_create_frame'', tool_body = miro_create_frame this remote, tool_catch = formatError\<rparr>,
      \<lparr>tool_name = ''miro_get_frame'', tool_body = miro_get_frame this remote, tool_catch = formatError\<rparr>,
      \<lparr>tool_name = ''miro_update_frame'', tool_body = miro_update_frame this remote, tool_catch = formatError\<rparr>,
      \<lparr>tool_name = ''miro_delete_frame'', tool_body = miro_delete_frame this remote, tool_catch = formatError\<rparr>,
      \<lparr>tool_name = ''miro_get_frame_items'', tool_body = miro_get_frame_items this remote, tool_catch = formatError\<rparr>]"

definition registerConnectorTools :: "TenantCredentials \<Rightarrow> remote \<Rightarrow> tool list" where
  "registerConnectorTools this remote =
     [\<lparr>tool_name = ''miro_list_connectors'', tool_body = miro_list_connectors this remote, tool_catch = formatError\<rparr>,
      \<lparr>tool_name = ''miro_create_connector'', tool_body = miro_create_connector this remote, tool_catch = formatError\<rparr>,
      \<lparr>tool_name = ''miro_get_connector'', tool_body = miro_get_connector this remote, tool_catch = formatError\<rparr>,
      \<lparr>tool_name = ''miro_update_connector'', tool_body = miro_update_connector this remote, tool_catch = formatError\<rparr>,
      \<lparr>tool_name = ''miro_delete_connector'', tool_body = miro_delete_connector this remote, tool_catch = formatError\<rparr>]"

definition registerImageTools :: "TenantCredentials \<Rightarrow> remote \<Rightarrow> tool list" where
  "registerImageTools this remote =
     [\<lparr>tool_name = ''miro_create_image'', tool_body = miro_create_image this remote, tool_catch = formatError\<rparr>,
      \<lparr>tool_name = ''miro_get_image'', tool_body = miro_get_image this remote, tool_catch = formatError\<rparr>,
      \<lparr>tool_name = ''miro_update_image'', tool_body = miro_update_image this remote, tool_catch = formatError\<rparr>,
      \<lparr>tool_name = ''miro_delete_image'', tool_body = miro_delete_image this remote, tool_catch = formatError\<rparr>]"

definition registerTagTools :: "TenantCredentials \<Rightarrow> remote \<Rightarrow> tool list" where
  "registerTagTools this remote =
     [\<lparr>tool_name = ''miro_list_tags'', tool_body = miro_list_tags this remote, tool_catch = formatError\<rparr>,
      \<lparr>tool_name = ''miro_create_tag'', tool_body = miro_create_tag this remote, tool_catch = formatError\<rparr>,
      \<lparr>tool_name = ''miro_get_tag'', tool_body = miro_get_tag this remote, tool_catch = formatError\<rparr>,
      \<lparr>tool_name = ''miro_update_tag'', tool_body = miro_update_tag this remote, tool_catch = formatError\<rparr>,
      \<lparr>tool_name = ''miro_delete_tag'', tool_body = miro_delete_tag this remote, tool_catch = formatError\<rparr>,
      \<lparr>tool_name = ''miro_attach_tag'', tool_body = miro_attach_tag this remote, tool_catch = formatError\<rparr>,
      \<lparr>tool_name = ''miro_remove_tag'', tool_body = miro_remove_tag this remote, tool_catch = formatError\<rparr>,
      \<lparr>tool_name = ''miro_get_items_by_tag'', tool_body = miro_get_items_by_tag this remote, tool_catch = formatError\<rparr>,
      \<lparr>tool_name = ''miro_get_item_tags'', tool_body = miro_get_item_tags this remote, tool_catch = formatError\<rparr>]"

definition registerEmbedTools :: "TenantCredentials \<Rightarrow> remote \<Rightarrow> tool list" where
  "registerEmbedTools this remote =
     [\<lparr>tool_name = ''miro_create_embed'', tool_body = miro_create_embed this remote, tool_catch = formatError\<rparr>,
      \<lparr>tool_name = ''miro_get_embed'', tool_body = miro_get_embed this remote, tool_catch = formatError\<rparr>,
      \<lparr>tool_name = ''miro_update_embed'', tool_body = miro_update_embed this remote, tool_catch = formatError\<rparr>,
      \<lparr>tool_name = ''miro_delete_embed'', tool_body = miro_delete_embed this remote, tool_catch = formatError\<rparr>]"

definition registerAppCardTools :: "TenantCredentials \<Rightarrow> remote \<Rightarrow> tool list" where
  "registerAppCardTools this remote =
     [\<lparr>tool_name = ''miro_create_app_card'', tool_body = miro_create_app_card this remote, tool_catch = formatError\<rparr>,
      \<lparr>tool_name = ''miro_get_app_card'', tool_body = miro_get_app_card this remote, tool_catch = formatError\<rparr>,
      \<lparr>tool_name = ''miro_update_app_card'', tool_body = miro_update_app_card this remote, tool_catch = formatError\<rparr>,
      \<lparr>tool_name = ''miro_delete_app_card'', tool_body = miro_delete_app_card this remote, tool_catch = formatError\<rparr>]"

definition registerDocumentTools :: "TenantCredentials \<Rightarrow> remote \<Rightarrow> tool list" where
  "registerDocumentTools this remote =
     [\<lparr>tool_name = ''miro_create_document'', tool_body = miro_create_document this remote, tool_catch = formatError\<rparr>,
      \<lparr>tool_name = ''miro_get_document'', tool_body = miro_get_document this remote, tool_catch = formatError\<rparr>,
      \<lparr>tool_name = ''miro_delete_document'', tool_body = miro_delete_document this remote, tool_catch = formatError\<rparr>]"

section \<open>The server and the front door (index.ts)\<close>

definition SERVER_NAME :: string where
  "SERVER_NAME = ''primrose-mcp-miro''"

definition SERVER_VERSION :: string where
  "SERVER_VERSION = ''1.0.0''"

text \<open>
  The connection test: the client method reports a failure as a result, so the \<open>try\<close>
  block returns its serialisation; the \<open>catch\<close> block has its own wording.
\<close>

definition miro_test_connection :: "TenantCredentials \<Rightarrow> remote \<Rightarrow> args \<Rightarrow> ToolResponse call" where
  "miro_test_connection this remote a =
     await (testConnection this remote)
       (\<lambda>result. ok (text_response (JSON_stringify2 result)))"

definition miro_test_connection_catch :: "error \<Rightarrow> ToolResponse" where
  "miro_test_connection_catch e =
     \<lparr>content = [\<lparr>block_type = ''text'', block_text = Some (''Connection failed: ''
         @ message_of e)\<rparr>],
      isError = Some True\<rparr>"

text \<open>
  \<open>createStatelessServer\<close>: a client bound to the credentials, and every tool registered
  on a fresh server, in the order of the source.
\<close>

definition createStatelessServer :: "TenantCredentials \<Rightarrow> remote \<Rightarrow> tool list" where
  "createStatelessServer credentials remote =
     registerBoardTools credentials remote
     @ registerMemberTools credentials remote
     @ registerItemTools credentials remote
     @ registerStickyNoteTools credentials remote
     @ registerShapeTools credentials remote
     @ registerTextTools credentials remote
     @ registerCardTools credentials remote
     @ registerFrameTools credentials remote
     @ registerConnectorTools credentials remote
     @ registerImageTools credentials remote
     @ registerTagTools credentials remote
     @ registerEmbedTools credentials remote
     @ registerAppCardTools credentials remote
     @ registerDocumentTools credentials remote
     @ [\<lparr>tool_name = ''miro_test_connection'', tool_body = miro_test_connection credentials remote,
         tool_catch = miro_test_connection_catch\<rparr>]"

text \<open>
  The reply of the worker to an inbound request. The handler of the protocol library
  (\<open>createMcpHandler\<close>) is not part of the repository: it is a parameter, given the server
  built for the request, the request and the log of remote requests.
\<close>

record http_reply =
  reply_status :: nat
  reply_headers :: "(string \<times> string) list"
  reply_body :: "string option"

type_synonym mcp_handler =
  "tool list \<Rightarrow> inbound_request \<Rightarrow> http_request list \<Rightarrow> http_reply \<times> http_request list"

definition tool_names :: "string list" where
  "tool_names =
     [''miro_list_boards'', ''miro_get_board'', ''miro_create_board'', ''miro_update_board'',
      ''miro_delete_board'', ''miro_copy_board'',
      ''miro_list_board_members'', ''miro_get_board_member'', ''miro_share_board'',
      ''miro_update_board_member'', ''miro_remove_board_member'',
      ''miro_list_items'', ''miro_get_item'', ''miro_update_item_position'', ''miro_delete_item'',
      ''miro_create_sticky_note'', ''miro_get_sticky_note'', ''miro_update_sticky_note'',
      ''miro_delete_sticky_note'',
      ''miro_create_shape'', ''miro_get_shape'', ''miro_update_shape'', ''miro_delete_shape'',
      ''miro_create_text'', ''miro_get_text'', ''miro_update_text'', ''miro_delete_text'',
      ''miro_create_card'', ''miro_get_card'', ''miro_update_card'', ''miro_delete_card'',
      ''miro_create_frame'', ''miro_get_frame'', ''miro_update_frame'', ''miro_delete_frame'',
      ''miro_get_frame_items'',
      ''miro_list_connectors'', ''miro_create_connector'', ''miro_get_connector'',
      ''miro_update_connector'', ''miro_delete_connector'',
      ''miro_create_image'', ''miro_get_image'', ''miro_update_image'', ''miro_delete_image'',
      ''miro_list_tags'', ''miro_create_tag'', ''miro_get_tag'', ''miro_update_tag'',
      ''miro_delete_tag'', ''miro_attach_tag'', ''miro_remove_tag'', ''miro_get_items_by_tag'',
      ''miro_get_item_tags'',
      ''miro_create_embed'', ''miro_get_embed'', ''miro_update_embed'', ''miro_delete_embed'',
      ''miro_create_app_card'', ''miro_get_app_card'', ''miro_update_app_card'',
      ''miro_delete_app_card'',
      ''miro_create_document'', ''miro_get_document'', ''miro_delete_document'',
      ''miro_test_connection'']"

definition json_reply :: "nat \<Rightarrow> jsval \<Rightarrow> http_reply" where
  "json_reply st v =
     \<lparr>reply_status = st, reply_headers = [(''Content-Type'', ''application/json'')],
      reply_body = JSON_stringify v\<rparr>"

definition fetch ::
  "mcp_handler \<Rightarrow> remote \<Rightarrow> inbound_request \<Rightarrow> http_request list \<Rightarrow> http_reply \<times> http_request list" where
  "fetch handler remote req log =
     (if in_pathname req = ''/health'' then
        (json_reply 200 (JObj [(''status'', JStr ''ok''), (''server'', JStr SERVER_NAME)]), log)
      else if in_pathname req = ''/mcp'' \<and> in_method req = ''POST'' then
        (let credentials = parseTenantCredentials req
         in case validateCredentials credentials of
              Inl e \<Rightarrow>
                (json_reply 401
                   (JObj [(''error'', JStr ''Unauthorized''),
                          (''message'', JStr (message_of e)),
                          (''required_headers'', JArr [JStr ''X-Miro-Access-Token''])]), log)
            | Inr u \<Rightarrow> handler (createStatelessServer credentials remote) req log)
      else if in_pathname req = ''/sse'' then
        (\<lparr>reply_status = 501, reply_headers = [],
          reply_body = Some ''SSE endpoint requires Durable Objects. Enable in wrangler.jsonc.''\<rparr>, log)
      else
        (json_reply 200
           (JObj [(''name'', JStr SERVER_NAME),
                  (''version'', JStr SERVER_VERSION),
                  (''description'', JStr ''Multi-tenant Miro MCP Server''),
                  (''endpoints'', JObj [(''mcp'', JStr ''/mcp (POST) - Streamable HTTP MCP endpoint''),
                                         (''health'', JStr ''/health - Health check'')]),
                  (''authentication'',
                     JObj [(''description'', JStr ''Pass Miro credentials via request headers''),
                           (''required_headers'',
                              JObj [(''X-Miro-Access-Token'', JStr ''Miro OAuth access token'')])]),
                  (''tools'', JArr (map JStr tool_names))]), log))"

section \<open>Notions used to state the properties\<close>

text \<open>
  The dispatch of a \<open>tools/call\<close> request by the protocol library: the tool registered
  under the name is invoked on the validated arguments.
\<close>

definition lookup_tool :: "tool list \<Rightarrow> string \<Rightarrow> tool option" where
  "lookup_tool server n = find (\<lambda>t. tool_name t = n) server"

definition invoke_tool ::
  "tool list \<Rightarrow> string \<Rightarrow> args \<Rightarrow> http_request list \<Rightarrow> (ToolResponse \<times> http_request list) option" where
  "invoke_tool server n a log = map_option (\<lambda>t. call_tool t a log) (lookup_tool server n)"

text \<open>The request that \<open>request\<close> hands to \<open>fetch\<close> when a token is present.\<close>

definition outgoing :: "TenantCredentials \<Rightarrow> string \<Rightarrow> RequestInit \<Rightarrow> http_request" where
  "outgoing this endpoint options =
     \<lparr>req_url = API_BASE_URL @ endpoint,
      req_method = (case init_method options of Some m \<Rightarrow> m | None \<Rightarrow> ''GET''),
      req_headers = fold (\<lambda>(k, v) hs. set_prop hs k v) (init_headers options)
                      [(''Authorization'', ''Bearer '' @ accessToken this),
                       (''Content-Type'', ''application/json'')],
      req_body = init_body options\<rparr>"

text \<open>Remote services for the examples: one that is unreachable, one that gives one answer.\<close>

definition offline :: remote where
  "offline log req = None"

definition answers :: "http_response \<Rightarrow> remote" where
  "answers response log req = Some response"

text \<open>
  The message of a Generic failure in the spec's words: the \<open>message\<close> field of the JSON
  error body, else its \<open>error\<close> field, else the default string with the status.
\<close>

definition spec_generic_message :: "nat \<Rightarrow> wire_body \<Rightarrow> string" where
  "spec_generic_message st b =
     (case b of
        Json_body j \<Rightarrow>
          (case filter truthy (map (js_prop j) [''message'', ''error'']) of
             v # vs \<Rightarrow> to_string v
           | [] \<Rightarrow> ''Miro API error: '' @ show_nat st)
      | Not_json t \<Rightarrow> ''Miro API error: '' @ show_nat st)"


text \<open>Responses of the remote service used in the examples.\<close>

definition rate_limited_30 :: http_response where
  "rate_limited_30 = \<lparr>res_status = 429, res_headers = [''Retry-After'' \<mapsto> ''30''], res_body = Not_json []\<rparr>"

definition unauthorized_401 :: http_response where
  "unauthorized_401 = \<lparr>res_status = 401, res_headers = Map.empty, res_body = Not_json []\<rparr>"


text \<open>The end-to-end scenario: the validated input of the call and the request expected.\<close>

definition hello_note :: args where
  "hello_note = [(''boardId'', JStr ''b1''), (''content'', JStr ''hello''), (''x'', JNum 10),
      (''y'', JNum 20)]"

definition hello_request :: "TenantCredentials \<Rightarrow> http_request" where
  \<open>hello_request this =
     \<lparr>req_url = ''https://api.miro.com/v2/boards/b1/sticky_notes'',
      req_method = ''POST'',
      req_headers = [(''Authorization'', ''Bearer '' @ accessToken this),
                     (''Content-Type'', ''application/json'')],
      req_body = Some ''{"data":{"content":"hello"},"position":{"x":10,"y":20}}''\<rparr>\<close>

text \<open>
  The update tools whose schema has optional \<open>x\<close> and \<open>y\<close>: the handler, the input object
  it builds, and the path segment of the entity. (\<open>miro_update_item_position\<close> requires
  both coordinates, so the schema leaves it no input with one coordinate.)
\<close>

definition update_tools_with_position ::
  "((TenantCredentials \<Rightarrow> remote \<Rightarrow> args \<Rightarrow> ToolResponse call) \<times> (args \<Rightarrow> jsval) \<times> string) list" where
  "update_tools_with_position =
     [(miro_update_sticky_note, miro_update_sticky_note_input, ''sticky_notes''),
      (miro_update_shape, miro_update_shape_input, ''shapes''),
      (miro_update_text, miro_update_text_input, ''texts''),
      (miro_update_card, miro_update_card_input, ''cards''),
      (miro_update_frame, miro_update_frame_input, ''frames''),
      (miro_update_image, miro_update_image_input, ''images''),
      (miro_update_embed, miro_update_embed_input, ''embeds''),
      (miro_update_app_card, miro_update_app_card_input, ''app_cards'')]"


text \<open>A \<open>try\<close> block that, when it returns, returns an envelope of one text block and no error flag.\<close>

definition text_only :: "(args \<Rightarrow> ToolResponse call) \<Rightarrow> bool" where
  "text_only body = (\<forall>a log r log'. body a log = (Inr r, log') \<longrightarrow> (\<exists>b. r = text_response b))"


section \<open>Properties\<close>

subsection \<open>Auxiliary facts\<close>

lemmas client_defs =
  listBoards_def getBoard_def createBoard_def updateBoard_def deleteBoard_def copyBoard_def
  listBoardMembers_def getBoardMember_def shareBoard_def updateBoardMember_def
  removeBoardMember_def listItems_def getItem_def updateItemPosition_def deleteItem_def
  listStickyNotes_def getStickyNote_def createStickyNote_def updateStickyNote_def
  deleteStickyNote_def listShapes_def getShape_def createShape_def updateShape_def deleteShape_def
  listTexts_def getText_def createText_def updateText_def deleteText_def listCards_def getCard_def
  createCard_def updateCard_def deleteCard_def getImage_def createImageFromUrl_def updateImage_def
  deleteImage_def listFrames_def getFrame_def createFrame_def updateFrame_def deleteFrame_def
  getFrameItems_def listConnectors_def getConnector_def createConnector_def updateConnector_def
  deleteConnector_def getEmbed_def createEmbed_def updateEmbed_def deleteEmbed_def getAppCard_def
  createAppCard_def updateAppCard_def deleteAppCard_def listTags_def getTag_def createTag_def
  updateTag_def deleteTag_def attachTagToItem_def removeTagFromItem_def getItemsByTag_def
  getTagsFromItem_def getDocument_def createDocumentFromUrl_def deleteDocument_def

lemmas register_defs =
  createStatelessServer_def registerBoardTools_def registerMemberTools_def registerItemTools_def
  registerStickyNoteTools_def registerShapeTools_def registerTextTools_def registerCardTools_def
  registerFrameTools_def registerConnectorTools_def registerImageTools_def registerTagTools_def
  registerEmbedTools_def registerAppCardTools_def registerDocumentTools_def

lemma request_no_token:
  "accessToken this = [] \<Longrightarrow>
   request this remote endpoint options log =
     (Inl (AuthenticationError ''No access token provided. Include X-Miro-Access-Token header.''), log)"
  by (simp add: request_def getAuthHeaders_def)

lemma request_with_token:
  "accessToken this \<noteq> [] \<Longrightarrow>
   request this remote endpoint options log =
     (case remote log (outgoing this endpoint options) of
        None \<Rightarrow> Inl (JsError ''fetch failed'')
      | Some response \<Rightarrow> handle_response response,
      log @ [outgoing this endpoint options])"
  by (simp add: request_def getAuthHeaders_def outgoing_def Let_def split: option.splits)

lemma request_answers:
  "accessToken this \<noteq> [] \<Longrightarrow>
   request this (answers response) endpoint options log =
     (handle_response response, log @ [outgoing this endpoint options])"
  by (simp add: request_with_token answers_def)

lemma testConnection_failure:
  "request this remote ''/users/me'' GET log = (Inl e, log') \<Longrightarrow>
   testConnection this remote log =
     (Inr (JObj [(''connected'', JBool False), (''message'', JStr (message_of e))]), log')"
  by (simp add: testConnection_def await_def)

lemma testConnection_returns: "\<exists>r. fst (testConnection this remote log) = Inr r"
  by (simp add: testConnection_def split: prod.splits sum.splits)

lemma js_prop_nullish: "nullish j \<Longrightarrow> js_prop j k = JUndefined"
  by (auto simp add: nullish_def js_prop_def)

lemma error_message_spec:
  "error_message response = spec_generic_message (res_status response) (res_body response)"
  by (cases "res_body response")
     (auto simp add: error_message_def spec_generic_message_def JSON_parse_def get_prop_def
        js_prop_nullish Let_def)

lemma handle_response_429:
  "res_status response = 429 \<Longrightarrow>
   handle_response response =
     Inl (RateLimitError ''Rate limit exceeded''
            (case res_headers response ''Retry-After'' of
               Some s \<Rightarrow> if s \<noteq> [] then parseInt s else JNum 60
             | None \<Rightarrow> JNum 60))"
  by (simp add: handle_response_def)

lemma handle_response_generic:
  "\<not> response_ok response \<Longrightarrow> res_status response \<notin> {429, 401, 403} \<Longrightarrow>
   handle_response response =
     Inl (MiroApiError (spec_generic_message (res_status response) (res_body response))
            (res_status response))"
  by (simp add: handle_response_def error_message_spec)

lemma handle_response_204:
  "res_status response = 204 \<Longrightarrow> handle_response response = Inr JUndefined"
  by (simp add: handle_response_def response_ok_def)


lemma parseInt_30: "parseInt ''30'' = JNum 30"
  by (simp add: parseInt_def round_double_def is_space_def is_digit_def digits_value_def)

lemma Number_toString_30: "Number_toString 30 = ''30''"
  by code_simp

lemma request_rate_limited_30:
  assumes "accessToken this \<noteq> []" and "res_status response = 429"
    and "res_headers response ''Retry-After'' = Some ''30''"
  shows "request this (answers response) endpoint options log
         = (Inl (RateLimitError ''Rate limit exceeded'' (JNum 30)), log
             @ [outgoing this endpoint options])"
  using assms by (simp add: request_answers handle_response_429 parseInt_30)

lemma join_snoc: "xs \<noteq> [] \<Longrightarrow> join sep (xs @ [y]) = join sep xs @ sep @ y"
  by (induction sep xs rule: join.induct) auto

lemma page_header_nonempty: "page_header d ety \<noteq> []"
  by (simp add: page_header_def)


lemma object_is_paginated:
  "map_of kvs ''data'' = Some (JArr items) \<Longrightarrow> isPaginatedResponse (JObj kvs)"
  by (auto simp add: js_prop_def isPaginatedResponse_def image_iff dest!: map_of_SomeD
      intro!: bexI [where x = "(''data'', JArr items)"])


subsection \<open>The shape of every handler\<close>

lemma await_ok_text:
  "await m (\<lambda>v. ok (text_response (g v))) log = (Inr r, log') \<Longrightarrow> \<exists>b. r = text_response b"
  by (auto simp add: await_def ok_def split: prod.splits sum.splits)

lemma await_lift_format:
  "await m (\<lambda>v. lift (formatResponse v f e)) log = (Inr r, log') \<Longrightarrow> \<exists>b. r = text_response b"
  by (auto simp add: await_def lift_def formatResponse_def split: prod.splits sum.splits if_splits)

lemma registerBoardTools_shape:
  "t \<in> set (registerBoardTools this remote) \<Longrightarrow> text_only (tool_body t) \<and> tool_catch t = formatError"
  by (auto simp add: registerBoardTools_def text_only_def
      miro_list_boards_def miro_get_board_def miro_create_board_def miro_update_board_def
      miro_delete_board_def miro_copy_board_def
      dest: await_ok_text await_lift_format)

lemma registerMemberTools_shape:
  "t \<in> set (registerMemberTools this remote) \<Longrightarrow> text_only (tool_body t) \<and> tool_catch t = formatError"
  by (auto simp add: registerMemberTools_def text_only_def
      miro_list_board_members_def miro_get_board_member_def miro_share_board_def
      miro_update_board_member_def miro_remove_board_member_def Let_def throw_def split: jsval.splits
      dest: await_ok_text await_lift_format)

lemma registerItemTools_shape:
  "t \<in> set (registerItemTools this remote) \<Longrightarrow> text_only (tool_body t) \<and> tool_catch t = formatError"
  by (auto simp add: registerItemTools_def text_only_def
      miro_list_items_def miro_get_item_def miro_update_item_position_def miro_delete_item_def
      dest: await_ok_text await_lift_format)

lemma registerStickyNoteTools_shape:
  "t \<in> set (registerStickyNoteTools this remote) \<Longrightarrow> text_only (tool_body t) \<and> tool_catch t = formatError"
  by (auto simp add: registerStickyNoteTools_def text_only_def
      miro_create_sticky_note_def miro_get_sticky_note_def miro_update_sticky_note_def
      miro_delete_sticky_note_def
      dest: await_ok_text await_lift_format)

lemma registerShapeTools_shape:
  "t \<in> set (registerShapeTools this remote) \<Longrightarrow> text_only (tool_body t) \<and> tool_catch t = formatError"
  by (auto simp add: registerShapeTools_def text_only_def
      miro_create_shape_def miro_get_shape_def miro_update_shape_def miro_delete_shape_def
      dest: await_ok_text await_lift_format)

lemma registerTextTools_shape:
  "t \<in> set (registerTextTools this remote) \<Longrightarrow> text_only (tool_body t) \<and> tool_catch t = formatError"
  by (auto simp add: registerTextTools_def text_only_def
      miro_create_text_def miro_get_text_def miro_update_text_def miro_delete_text_def
      dest: await_ok_text await_lift_format)

lemma registerCardTools_shape:
  "t \<in> set (registerCardTools this remote) \<Longrightarrow> text_only (tool_body t) \<and> tool_catch t = formatError"
  by (auto simp add: registerCardTools_def text_only_def
      miro_create_card_def miro_get_card_def miro_update_card_def miro_delete_card_def
      dest: await_ok_text await_lift_format)

lemma registerFrameTools_shape:
  "t \<in> set (registerFrameTools this remote) \<Longrightarrow> text_only (tool_body t) \<and> tool_catch t = formatError"
  by (auto simp add: registerFrameTools_def text_only_def
      miro_create_frame_def miro_get_frame_def miro_update_frame_def miro_delete_frame_def
      miro_get_frame_items_def
      dest: await_ok_text await_lift_format)

lemma registerConnectorTools_shape:
  "t \<in> set (registerConnectorTools this remote) \<Longrightarrow> text_only (tool_body t) \<and> tool_catch t = formatError"
  by (auto simp add: registerConnectorTools_def text_only_def
      miro_list_connectors_def miro_create_connector_def miro_get_connector_def
      miro_update_connector_def miro_delete_connector_def
      dest: await_ok_text await_lift_format)

lemma registerImageTools_shape:
  "t \<in> set (registerImageTools this remote) \<Longrightarrow> text_only (tool_body t) \<and> tool_catch t = formatError"
  by (auto simp add: registerImageTools_def text_only_def
      miro_create_image_def miro_get_image_def miro_update_image_def miro_delete_image_def
      dest: await_ok_text await_lift_format)

lemma registerTagTools_shape:
  "t \<in> set (registerTagTools this remote) \<Longrightarrow> text_only (tool_body t) \<and> tool_catch t = formatError"
  by (auto simp add: registerTagTools_def text_only_def
      miro_list_tags_def miro_create_tag_def miro_get_tag_def miro_update_tag_def miro_delete_tag_def
      miro_attach_tag_def miro_remove_tag_def miro_get_items_by_tag_def miro_get_item_tags_def
      dest: await_ok_text await_lift_format)

lemma registerEmbedTools_shape:
  "t \<in> set (registerEmbedTools this remote) \<Longrightarrow> text_only (tool_body t) \<and> tool_catch t = formatError"
  by (auto simp add: registerEmbedTools_def text_only_def
      miro_create_embed_def miro_get_embed_def miro_update_embed_def miro_delete_embed_def
      dest: await_ok_text await_lift_format)

lemma registerAppCardTools_shape:
  "t \<in> set (registerAppCardTools this remote) \<Longrightarrow> text_only (tool_body t) \<and> tool_catch t = formatError"
  by (auto simp add: registerAppCardTools_def text_only_def
      miro_create_app_card_def miro_get_app_card_def miro_update_app_card_def miro_delete_app_card_def
      dest: await_ok_text await_lift_format)

lemma registerDocumentTools_shape:
  "t \<in> set (registerDocumentTools this remote) \<Longrightarrow> text_only (tool_body t) \<and> tool_catch t = formatError"
  by (auto simp add: registerDocumentTools_def text_only_def
      miro_create_document_def miro_get_document_def miro_delete_document_def
      dest: await_ok_text await_lift_format)

lemma miro_test_connection_returns:
  "\<exists>b. fst (miro_test_connection this remote a log) = Inr (text_response b)"
  using testConnection_returns [of this remote log]
  by (cases "testConnection this remote log") (auto simp add: miro_test_connection_def await_def ok_def)

lemma server_shape:
  assumes "t \<in> set (createStatelessServer this remote)"
  shows "text_only (tool_body t)
       \<and> (tool_catch t = formatError
          \<or> (tool_catch t = miro_test_connection_catch \<and> tool_body t = miro_test_connection this remote))"
proof -
  have m: "text_only (miro_test_connection this remote)"
    by (auto simp add: text_only_def miro_test_connection_def dest: await_ok_text)
  show ?thesis
    using assms m
    by (auto simp add: createStatelessServer_def
        dest: registerBoardTools_shape registerMemberTools_shape registerItemTools_shape
          registerStickyNoteTools_shape registerShapeTools_shape registerTextTools_shape
          registerCardTools_shape registerFrameTools_shape registerConnectorTools_shape
          registerImageTools_shape registerTagTools_shape registerEmbedTools_shape
          registerAppCardTools_shape registerDocumentTools_shape)
qed

lemma test_connection_by_name:
  assumes "t \<in> set (createStatelessServer this remote)" and "tool_name t = ''miro_test_connection''"
  shows "tool_body t = miro_test_connection this remote"
  using assms by (auto simp add: register_defs)


lemma create_sticky_note_member:
  "\<lparr>tool_name = ''miro_create_sticky_note'', tool_body = miro_create_sticky_note this remote,
     tool_catch = formatError\<rparr> \<in> set (createStatelessServer this remote)"
  by (simp add: register_defs)

subsection \<open>Every handler passes a remote failure on\<close>

text \<open>
  When the remote service answers with a status that the request helper turns into an
  error, the \<open>try\<close> block of every tool but the connection test throws that error
  (for \<open>miro_share_board\<close>, on an input whose \<open>emails\<close> is a string, as its schema
  requires). In particular an HTTP 429 with \<open>Retry-After: 30\<close> makes it throw the
  RateLimited error with the wait 30.
\<close>

lemma request_fails:
  assumes "accessToken this \<noteq> []" and "handle_response response = Inl e"
  shows "request this (answers response) endpoint options log
         = (Inl e, log @ [outgoing this endpoint options])"
  using assms by (simp add: request_answers)

lemma registerBoardTools_propagate:
  assumes "t \<in> set (registerBoardTools this (answers response))" and "accessToken this \<noteq> []"
    and "handle_response response = Inl e"
  shows "fst (tool_body t a log) = Inl e"
  using assms
  by (auto simp add: registerBoardTools_def
      miro_list_boards_def miro_get_board_def miro_create_board_def miro_update_board_def
      miro_delete_board_def miro_copy_board_def
      client_defs await_def request_fails)

lemma registerMemberTools_propagate:
  assumes "t \<in> set (registerMemberTools this (answers response))" and "accessToken this \<noteq> []"
    and "handle_response response = Inl e"
    and "tool_name t = ''miro_share_board'' \<longrightarrow> (\<exists>s. arg a ''emails'' = JStr s)"
  shows "fst (tool_body t a log) = Inl e"
  using assms
  by (auto simp add: registerMemberTools_def
      miro_list_board_members_def miro_get_board_member_def miro_share_board_def
      miro_update_board_member_def miro_remove_board_member_def
      client_defs await_def request_fails Let_def)

lemma registerItemTools_propagate:
  assumes "t \<in> set (registerItemTools this (answers response))" and "accessToken this \<noteq> []"
    and "handle_response response = Inl e"
  shows "fst (tool_body t a log) = Inl e"
  using assms
  by (auto simp add: registerItemTools_def
      miro_list_items_def miro_get_item_def miro_update_item_position_def miro_delete_item_def
      client_defs await_def request_fails)

lemma registerStickyNoteTools_propagate:
  assumes "t \<in> set (registerStickyNoteTools this (answers response))" and "accessToken this \<noteq> []"
    and "handle_response response = Inl e"
  shows "fst (tool_body t a log) = Inl e"
  using assms
  by (auto simp add: registerStickyNoteTools_def
      miro_create_sticky_note_def miro_get_sticky_note_def miro_update_sticky_note_def
      miro_delete_sticky_note_def
      client_defs await_def request_fails)

lemma registerShapeTools_propagate:
  assumes "t \<in> set (registerShapeTools this (answers response))" and "accessToken this \<noteq> []"
    and "handle_response response = Inl e"
  shows "fst (tool_body t a log) = Inl e"
  using assms
  by (auto simp add: registerShapeTools_def
      miro_create_shape_def miro_get_shape_def miro_update_shape_def miro_delete_shape_def
      client_defs await_def request_fails)

lemma registerTextTools_propagate:
  assumes "t \<in> set (registerTextTools this (answers response))" and "accessToken this \<noteq> []"
    and "handle_response response = Inl e"
  shows "fst (tool_body t a log) = Inl e"
  using assms
  by (auto simp add: registerTextTools_def
      miro_create_text_def miro_get_text_def miro_update_text_def miro_delete_text_def
      client_defs await_def request_fails)

lemma registerCardTools_propagate:
  assumes "t \<in> set (registerCardTools this (answers response))" and "accessToken this \<noteq> []"
    and "handle_response response = Inl e"
  shows "fst (tool_body t a log) = Inl e"
  using assms
  by (auto simp add: registerCardTools_def
      miro_create_card_def miro_get_card_def miro_update_card_def miro_delete_card_def
      client_defs await_def request_fails)

lemma registerFrameTools_propagate:
  assumes "t \<in> set (registerFrameTools this (answers response))" and "accessToken this \<noteq> []"
    and "handle_response response = Inl e"
  shows "fst (tool_body t a log) = Inl e"
  using assms
  by (auto simp add: registerFrameTools_def
      miro_create_frame_def miro_get_frame_def miro_update_frame_def miro_delete_frame_def
      miro_get_frame_items_def
      client_defs await_def request_fails)

lemma registerConnectorTools_propagate:
  assumes "t \<in> set (registerConnectorTools this (answers response))" and "accessToken this \<noteq> []"
    and "handle_response response = Inl e"
  shows "fst (tool_body t a log) = Inl e"
  using assms
  by (auto simp add: registerConnectorTools_def
      miro_list_connectors_def miro_create_connector_def miro_get_connector_def
      miro_update_connector_def miro_delete_connector_def
      client_defs await_def request_fails)

lemma registerImageTools_propagate:
  assumes "t \<in> set (registerImageTools this (answers response))" and "accessToken this \<noteq> []"
    and "handle_response response = Inl e"
  shows "fst (tool_body t a log) = Inl e"
  using assms
  by (auto simp add: registerImageTools_def
      miro_create_image_def miro_get_image_def miro_update_image_def miro_delete_image_def
      client_defs await_def request_fails)

lemma registerTagTools_propagate:
  assumes "t \<in> set (registerTagTools this (answers response))" and "accessToken this \<noteq> []"
    and "handle_response response = Inl e"
  shows "fst (tool_body t a log) = Inl e"
  using assms
  by (auto simp add: registerTagTools_def
      miro_list_tags_def miro_create_tag_def miro_get_tag_def miro_update_tag_def
      miro_delete_tag_def miro_attach_tag_def miro_remove_tag_def miro_get_items_by_tag_def
      miro_get_item_tags_def
      client_defs await_def request_fails)

lemma registerEmbedTools_propagate:
  assumes "t \<in> set (registerEmbedTools this (answers response))" and "accessToken this \<noteq> []"
    and "handle_response response = Inl e"
  shows "fst (tool_body t a log) = Inl e"
  using assms
  by (auto simp add: registerEmbedTools_def
      miro_create_embed_def miro_get_embed_def miro_update_embed_def miro_delete_embed_def
      client_defs await_def request_fails)

lemma registerAppCardTools_propagate:
  assumes "t \<in> set (registerAppCardTools this (answers response))" and "accessToken this \<noteq> []"
    and "handle_response response = Inl e"
  shows "fst (tool_body t a log) = Inl e"
  using assms
  by (auto simp add: registerAppCardTools_def
      miro_create_app_card_def miro_get_app_card_def miro_update_app_card_def
      miro_delete_app_card_def
      client_defs await_def request_fails)

lemma registerDocumentTools_propagate:
  assumes "t \<in> set (registerDocumentTools this (answers response))" and "accessToken this \<noteq> []"
    and "handle_response response = Inl e"
  shows "fst (tool_body t a log) = Inl e"
  using assms
  by (auto simp add: registerDocumentTools_def
      miro_create_document_def miro_get_document_def miro_delete_document_def
      client_defs await_def request_fails)

lemma every_tool_propagates:
  assumes "t \<in> set (createStatelessServer this (answers response))" and "accessToken this \<noteq> []"
    and "handle_response response = Inl e"
    and "tool_name t \<noteq> ''miro_test_connection''"
    and "tool_name t = ''miro_share_board'' \<longrightarrow> (\<exists>s. arg a ''emails'' = JStr s)"
  shows "fst (tool_body t a log) = Inl e"
  using assms
  by (auto simp add: createStatelessServer_def
      dest: registerBoardTools_propagate registerMemberTools_propagate registerItemTools_propagate
      registerStickyNoteTools_propagate registerShapeTools_propagate registerTextTools_propagate
      registerCardTools_propagate registerFrameTools_propagate registerConnectorTools_propagate
      registerImageTools_propagate registerTagTools_propagate registerEmbedTools_propagate
      registerAppCardTools_propagate registerDocumentTools_propagate)

lemma every_tool_rate_limited:
  assumes "t \<in> set (createStatelessServer this (answers response))" and "accessToken this \<noteq> []"
    and "res_status response = 429" and "res_headers response ''Retry-After'' = Some ''30''"
    and "tool_name t \<noteq> ''miro_test_connection''"
    and "tool_name t = ''miro_share_board'' \<longrightarrow> (\<exists>s. arg a ''emails'' = JStr s)"
  shows "fst (tool_body t a log) = Inl (RateLimitError ''Rate limit exceeded'' (JNum 30))"
  using every_tool_propagates [OF assms(1,2) _ assms(5,6)] assms(3,4)
  by (simp add: handle_response_429 parseInt_30)

subsection \<open>C1: the front door rejects a request without a token\<close>

lemma stringify_unauthorized:
  \<open>JSON_stringify (JObj [(''error'', JStr ''Unauthorized''),
                          (''message'', JStr ''Missing credentials. Provide X-Miro-Access-Token header.''),
                          (''required_headers'', JArr [JStr ''X-Miro-Access-Token''])])
   = Some ''{"error":"Unauthorized","message":"Missing credentials. Provide X-Miro-Access-Token header.","required_headers":["X-Miro-Access-Token"]}''\<close>
  by code_simp

text \<open>
  Claim C1. A POST to \<open>/mcp\<close> whose \<open>X-Miro-Access-Token\<close> header is absent or empty is
  answered with status 401 and a JSON body that lists the required headers. The answer
  is the same for every protocol handler and every remote service, and the log of remote
  requests is returned as it was: no server is built, no tool runs and no remote call is
  made.
\<close>

theorem C1_missing_token_rejected:
  assumes "in_pathname req = ''/mcp''" and "in_method req = ''POST''"
    and "in_headers req ''X-Miro-Access-Token'' = None \<or> in_headers req ''X-Miro-Access-Token'' = Some []"
  shows \<open>fetch handler remote req log =
    (\<lparr>reply_status = 401, reply_headers = [(''Content-Type'', ''application/json'')],
      reply_body = Some ''{"error":"Unauthorized","message":"Missing credentials. Provide X-Miro-Access-Token header.","required_headers":["X-Miro-Access-Token"]}''\<rparr>, log)\<close>
  using assms stringify_unauthorized
  by (auto simp add: fetch_def parseTenantCredentials_def validateCredentials_def json_reply_def)

theorem C1_missing_token_rejected_witness:
  \<open>fetch (\<lambda>server r l. (json_reply 200 JNull, l)) offline
     \<lparr>in_pathname = ''/mcp'', in_method = ''POST'', in_headers = Map.empty\<rparr> []
   = (\<lparr>reply_status = 401, reply_headers = [(''Content-Type'', ''application/json'')],
       reply_body = Some ''{"error":"Unauthorized","message":"Missing credentials. Provide X-Miro-Access-Token header.","required_headers":["X-Miro-Access-Token"]}''\<rparr>, [])\<close>
  using C1_missing_token_rejected
    [where req = "\<lparr>in_pathname = ''/mcp'', in_method = ''POST'', in_headers = Map.empty\<rparr>"
       and handler = "\<lambda>server r l. (json_reply 200 JNull, l)" and remote = offline and log = "[]"]
  by simp

subsection \<open>C2: the client without a token\<close>

text \<open>
  Claim C2, as stated, fails at \<open>testConnection\<close>: with an empty token the method does not
  fail, it returns a result that reports the missing token.
\<close>

theorem C2_testConnection_counterexample:
  "invoke \<lparr>accessToken = []\<rparr> offline Call_testConnection []
   = (Inr (JObj [(''connected'', JBool False),
                 (''message'', JStr ''No access token provided. Include X-Miro-Access-Token header.'')]), [])"
  by (simp add: testConnection_def request_def getAuthHeaders_def await_def)

text \<open>
  Claim C2, amended. With an empty token no client method issues an HTTP request; every
  method but \<open>testConnection\<close> fails with the Authentication error, and \<open>testConnection\<close>
  catches that error and returns a result with \<open>connected: false\<close> and the error's message.
\<close>

theorem C2_no_token_fails_closed:
  assumes "accessToken this = []"
  shows "invoke this remote c log =
           (if c = Call_testConnection
            then Inr (JObj [(''connected'', JBool False),
                            (''message'', JStr ''No access token provided. Include X-Miro-Access-Token header.'')])
            else Inl (AuthenticationError ''No access token provided. Include X-Miro-Access-Token header.''),
            log)"
  using assms
  by (cases c) (simp_all add: client_defs testConnection_def request_no_token await_def)

theorem C2_no_token_fails_closed_witness:
  "invoke \<lparr>accessToken = []\<rparr> offline (Call_getBoard (JStr ''b1'')) []
   = (Inl (AuthenticationError ''No access token provided. Include X-Miro-Access-Token header.''), [])"
  using C2_no_token_fails_closed
    [where this = "\<lparr>accessToken = []\<rparr>" and remote = offline and c = "Call_getBoard (JStr ''b1'')"
       and log = "[]"]
  by simp

subsection \<open>C3: the retry-after value of a rate limit\<close>

text \<open>
  On an HTTP 429 the request helper fails with the RateLimited error, and so does every
  client method that awaits it; \<open>testConnection\<close> catches the error and returns a result.
\<close>

lemma rate_limited_call:
  assumes "accessToken this \<noteq> []" and "res_status response = 429"
  shows "fst (invoke this (answers response) c log) =
           (if c = Call_testConnection
            then Inr (JObj [(''connected'', JBool False),
                (''message'', JStr ''Rate limit exceeded'')])
            else Inl (RateLimitError ''Rate limit exceeded''
                        (case res_headers response ''Retry-After'' of
                           Some s \<Rightarrow> if s \<noteq> [] then parseInt s else JNum 60
                         | None \<Rightarrow> JNum 60)))"
proof -
  let ?e = "RateLimitError ''Rate limit exceeded''
              (case res_headers response ''Retry-After'' of
                 Some s \<Rightarrow> if s \<noteq> [] then parseInt s else JNum 60
               | None \<Rightarrow> JNum 60)"
  have g: "\<And>endpoint options log. request this (answers response) endpoint options log
          = (Inl ?e, log @ [outgoing this endpoint options])"
    using assms by (simp add: request_answers handle_response_429)
  show ?thesis
    by (cases c) (simp_all add: client_defs testConnection_failure [OF g] await_def g)
qed

text \<open>
  Claim C3, as stated, fails at \<open>testConnection\<close>: on an HTTP 429 with \<open>Retry-After: 30\<close>
  the method does not fail, it returns the result \<open>{connected: false, message}\<close>, which
  carries no retry-after value.
\<close>

theorem C3_testConnection_counterexample:
  "invoke \<lparr>accessToken = ''token''\<rparr> (answers rate_limited_30) Call_testConnection []
   = (Inr (JObj [(''connected'', JBool False), (''message'', JStr ''Rate limit exceeded'')]),
      [\<lparr>req_url = ''https://api.miro.com/v2/users/me'', req_method = ''GET'',
        req_headers = [(''Authorization'', ''Bearer token''),
            (''Content-Type'', ''application/json'')],
        req_body = None\<rparr>])"
  by code_simp

text \<open>
  What \<open>parseInt\<close> reads from a header that is a run of decimal digits: the integer they
  write, as long as it is below \<open>2^53\<close>.
\<close>

lemma digit_not_space: "is_digit c \<Longrightarrow> \<not> is_space c"
  by (auto simp add: is_digit_def is_space_def)

lemma digit_not_sign: "is_digit c \<Longrightarrow> c \<noteq> CHR ''-'' \<and> c \<noteq> CHR ''+''"
  by (auto simp add: is_digit_def)

lemma parseInt_digits:
  assumes "ds \<noteq> []" and "\<forall>c\<in>set ds. is_digit c" and "digits_value ds < 9007199254740992"
  shows "parseInt ds = JNum (digits_value ds)"
proof -
  from assms(1) obtain c r where d: "ds = c # r"
    by (cases ds) auto
  have c: "is_digit c"
    using assms(2) d by simp
  have t: "takeWhile is_digit ds = ds"
    using assms(2) by (simp add: takeWhile_eq_all_conv)
  have s: "dropWhile is_space ds = ds"
    using d digit_not_space [OF c] by simp
  show ?thesis
    unfolding parseInt_def s
    using digit_not_sign [OF c] assms(1,3) t
    by (simp add: d round_double_def)
qed

text \<open>
  Claim C3, amended. On an HTTP 429 every client method but \<open>testConnection\<close> fails with
  the RateLimited error. Its retry-after value is 60 when the \<open>Retry-After\<close> header is
  absent or empty; it is the integer written in the header when the header is a run of
  decimal digits of value below \<open>2^53\<close>; and whenever \<open>parseInt\<close> reads a number from the
  header (the integer at its start, rounded to a double beyond \<open>2^53\<close>), it is that number.
  \<open>testConnection\<close> returns \<open>{connected: false, message: Rate limit exceeded}\<close>.
\<close>

theorem C3_rate_limit_retry_after:
  assumes "accessToken this \<noteq> []" and "res_status response = 429"
  shows "(res_headers response ''Retry-After'' = None \<or> res_headers response ''Retry-After'' = Some []
            \<longrightarrow> fst (invoke this (answers response) c log) =
                  (if c = Call_testConnection
                   then Inr (JObj [(''connected'', JBool False),
                                   (''message'', JStr ''Rate limit exceeded'')])
                   else Inl (RateLimitError ''Rate limit exceeded'' (JNum 60))))
       \<and> (\<forall>ds. res_headers response ''Retry-After'' = Some ds \<and> ds \<noteq> []
                 \<and> (\<forall>d\<in>set ds. is_digit d) \<and> digits_value ds < 9007199254740992
            \<longrightarrow> fst (invoke this (answers response) c log) =
                  (if c = Call_testConnection
                   then Inr (JObj [(''connected'', JBool False),
                                   (''message'', JStr ''Rate limit exceeded'')])
                   else Inl (RateLimitError ''Rate limit exceeded'' (JNum (digits_value ds)))))
       \<and> (\<forall>s n. res_headers response ''Retry-After'' = Some s \<and> parseInt s = JNum n
            \<longrightarrow> fst (invoke this (answers response) c log) =
                  (if c = Call_testConnection
                   then Inr (JObj [(''connected'', JBool False),
                                   (''message'', JStr ''Rate limit exceeded'')])
                   else Inl (RateLimitError ''Rate limit exceeded'' (JNum n))))"
proof (intro conjI impI allI)
  assume "res_headers response ''Retry-After'' = None \<or> res_headers response ''Retry-After'' = Some []"
  then show "fst (invoke this (answers response) c log) =
                  (if c = Call_testConnection
                   then Inr (JObj [(''connected'', JBool False),
                                   (''message'', JStr ''Rate limit exceeded'')])
                   else Inl (RateLimitError ''Rate limit exceeded'' (JNum 60)))"
    using rate_limited_call [OF assms, of c log] by auto
next
  fix ds
  assume h: "res_headers response ''Retry-After'' = Some ds \<and> ds \<noteq> []
               \<and> (\<forall>d\<in>set ds. is_digit d) \<and> digits_value ds < 9007199254740992"
  then have "parseInt ds = JNum (digits_value ds)"
    by (simp add: parseInt_digits)
  then show "fst (invoke this (answers response) c log) =
                  (if c = Call_testConnection
                   then Inr (JObj [(''connected'', JBool False),
                                   (''message'', JStr ''Rate limit exceeded'')])
                   else Inl (RateLimitError ''Rate limit exceeded'' (JNum (digits_value ds))))"
    using rate_limited_call [OF assms, of c log] h by simp
next
  fix s n
  assume h: "res_headers response ''Retry-After'' = Some s \<and> parseInt s = JNum n"
  then have "s \<noteq> []"
    by (auto simp add: parseInt_def)
  then show "fst (invoke this (answers response) c log) =
                  (if c = Call_testConnection
                   then Inr (JObj [(''connected'', JBool False),
                                   (''message'', JStr ''Rate limit exceeded'')])
                   else Inl (RateLimitError ''Rate limit exceeded'' (JNum n)))"
    using rate_limited_call [OF assms, of c log] h by simp
qed

theorem C3_rate_limit_retry_after_witness:
  "fst (invoke \<lparr>accessToken = ''token''\<rparr> (answers rate_limited_30) (Call_getBoard (JStr ''b1'')) [])
   = Inl (RateLimitError ''Rate limit exceeded'' (JNum 30))
   \<and> fst (invoke \<lparr>accessToken = ''token''\<rparr>
            (answers \<lparr>res_status = 429, res_headers = Map.empty, res_body = Not_json []\<rparr>)
            (Call_getBoard (JStr ''b1'')) [])
     = Inl (RateLimitError ''Rate limit exceeded'' (JNum 60))"
  using C3_rate_limit_retry_after
    [where this = "\<lparr>accessToken = ''token''\<rparr>" and response = rate_limited_30
       and c = "Call_getBoard (JStr ''b1'')" and log = "[]"]
    C3_rate_limit_retry_after
    [where this = "\<lparr>accessToken = ''token''\<rparr>"
       and response = "\<lparr>res_status = 429, res_headers = Map.empty, res_body = Not_json []\<rparr>"
       and c = "Call_getBoard (JStr ''b1'')" and log = "[]"]
  by (simp add: rate_limited_30_def is_digit_def digits_value_def)

text \<open>
  A header that is present and does not start with an integer, such as the HTTP-date form
  of \<open>Retry-After\<close>, is outside the amended claim. There the request helper hands on what
  \<open>parseInt\<close> returns, \<open>NaN\<close>, where the configuration reader \<open>getEnvNumber\<close> guards the same
  \<open>parseInt\<close> with \<open>Number.isNaN\<close> and falls back to its default. An integer beyond \<open>2^53\<close>
  is read as the double nearest to it.
\<close>

lemma unparseable_retry_after_is_NaN:
  "fst (invoke \<lparr>accessToken = ''token''\<rparr>
          (answers \<lparr>res_status = 429,
                     res_headers = [''Retry-After'' \<mapsto> ''Wed, 21 Oct 2015 07:28:00 GMT''],
                     res_body = Not_json []\<rparr>)
          (Call_getBoard (JStr ''b1'')) [])
   = Inl (RateLimitError ''Rate limit exceeded'' JNaN)
   \<and> getMaxPageSize (\<lambda>key. JStr ''Wed, 21 Oct 2015 07:28:00 GMT'') = JNum 100"
  using rate_limited_call
    [where this = "\<lparr>accessToken = ''token''\<rparr>"
       and response = "\<lparr>res_status = 429,
                     res_headers = [''Retry-After'' \<mapsto> ''Wed, 21 Oct 2015 07:28:00 GMT''],
                     res_body = Not_json []\<rparr>"
       and c = "Call_getBoard (JStr ''b1'')" and log = "[]"]
  by (simp add: getMaxPageSize_def getEnvNumber_def parseInt_def is_space_def
        is_digit_def digits_value_def)

lemma parseInt_beyond_safe_integers: "parseInt ''9007199254740993'' = JNum 9007199254740992"
  by code_simp

subsection \<open>C4: the envelope of a rate-limited invocation\<close>

lemma formatError_rate_limited:
  \<open>formatError (RateLimitError m (JNum 30))
   = \<lparr>content = [\<lparr>block_type = ''text'',
                   block_text = Some (''{'' @ newline @ ''  "error": "Error: ''
                       @ concat (map quote_char m)
                     @ '' (retryable)",'' @ newline @ ''  "details": {'' @ newline
                     @ ''    "name": "RateLimitError",'' @ newline
                     @ ''    "message": "'' @ concat (map quote_char m) @ ''",'' @ newline
                     @ ''    "retryable": true,'' @ newline
                     @ ''    "retryAfter": 30'' @ newline @ ''  }'' @ newline @ ''}'')\<rparr>],
      isError = Some True\<rparr>\<close>
  by (simp add: formatError_def error_text_def JSON_stringify2_def Let_def quote_def quote_char_def
      Number_toString_30 newline_def)

lemma rate_limited_marker:
  \<open>\<exists>txt. formatError (RateLimitError m (JNum 30))
            = \<lparr>content = [\<lparr>block_type = ''text'', block_text = Some txt\<rparr>], isError = Some True\<rparr>
        \<and> sublist ''(retryable)'' txt \<and> sublist ''"retryAfter": 30'' txt\<close>
proof -
  let ?q = "concat (map quote_char m)"
  let ?txt = \<open>''{'' @ newline @ ''  "error": "Error: '' @ ?q
                     @ '' (retryable)",'' @ newline @ ''  "details": {'' @ newline
                     @ ''    "name": "RateLimitError",'' @ newline
                     @ ''    "message": "'' @ ?q @ ''",'' @ newline
                     @ ''    "retryable": true,'' @ newline
                     @ ''    "retryAfter": 30'' @ newline @ ''  }'' @ newline @ ''}''\<close>
  have a: \<open>?txt = (''{'' @ newline @ ''  "error": "Error: '' @ ?q @ '' '') @ ''(retryable)''
              @ (''",'' @ newline @ ''  "details": {'' @ newline
                     @ ''    "name": "RateLimitError",'' @ newline
                     @ ''    "message": "'' @ ?q @ ''",'' @ newline
                     @ ''    "retryable": true,'' @ newline
                     @ ''    "retryAfter": 30'' @ newline @ ''  }'' @ newline @ ''}'')\<close>
    by simp
  have b: \<open>?txt = (''{'' @ newline @ ''  "error": "Error: '' @ ?q
                     @ '' (retryable)",'' @ newline @ ''  "details": {'' @ newline
                     @ ''    "name": "RateLimitError",'' @ newline
                     @ ''    "message": "'' @ ?q @ ''",'' @ newline
                     @ ''    "retryable": true,'' @ newline @ ''    '') @ ''"retryAfter": 30''
              @ (newline @ ''  }'' @ newline @ ''}'')\<close>
    by simp
  have "sublist ''(retryable)'' ?txt"
    by (subst a) (rule sublist_appendI)
  moreover have \<open>sublist ''"retryAfter": 30'' ?txt\<close>
    by (subst b) (rule sublist_appendI)
  ultimately show ?thesis
    using formatError_rate_limited [of m] by blast
qed

text \<open>
  Claim C4. Whenever the invocation of a registered tool fails with a RateLimited error
  whose wait is 30, which is how every handler but the connection test fails on an HTTP
  429 with \<open>Retry-After: 30\<close> (lemma \<open>every_tool_rate_limited\<close>), the envelope returned is the failure
  envelope: one text block and \<open>isError: true\<close>, the text contains the marker
  \<open>(retryable)\<close> and carries the wait as \<open>"retryAfter": 30\<close>. The error classes and
  the rendering of the error details are modelled from the spec.
\<close>

theorem C4_rate_limited_envelope:
  assumes "t \<in> set (createStatelessServer this remote)"
    and "tool_body t a log = (Inl (RateLimitError m (JNum 30)), log')"
  shows \<open>\<exists>txt. call_tool t a log
                = (\<lparr>content = [\<lparr>block_type = ''text'', block_text = Some txt\<rparr>], isError = Some True\<rparr>, log')
              \<and> sublist ''(retryable)'' txt \<and> sublist ''"retryAfter": 30'' txt\<close>
proof -
  have "tool_body t \<noteq> miro_test_connection this remote"
    using assms(2) miro_test_connection_returns [of this remote a log] by auto
  with server_shape [OF assms(1)] have "tool_catch t = formatError"
    by auto
  then have "call_tool t a log = (formatError (RateLimitError m (JNum 30)), log')"
    using assms(2) by (simp add: call_tool_def)
  with rate_limited_marker [of m] show ?thesis
    by auto
qed

lemma rate_limited_hello_note:
  "miro_create_sticky_note \<lparr>accessToken = ''token''\<rparr> (answers rate_limited_30) hello_note []
   = (Inl (RateLimitError ''Rate limit exceeded'' (JNum 30)), [hello_request \<lparr>accessToken = ''token''\<rparr>])"
  by code_simp

theorem C4_rate_limited_envelope_witness:
  \<open>\<exists>txt. call_tool \<lparr>tool_name = ''miro_create_sticky_note'',
                      tool_body = miro_create_sticky_note \<lparr>accessToken = ''token''\<rparr> (answers rate_limited_30),
                      tool_catch = formatError\<rparr> hello_note []
          = (\<lparr>content = [\<lparr>block_type = ''text'', block_text = Some txt\<rparr>], isError = Some True\<rparr>,
             [hello_request \<lparr>accessToken = ''token''\<rparr>])
        \<and> sublist ''(retryable)'' txt \<and> sublist ''"retryAfter": 30'' txt\<close>
  using C4_rate_limited_envelope
    [where t = "\<lparr>tool_name = ''miro_create_sticky_note'',
                  tool_body = miro_create_sticky_note \<lparr>accessToken = ''token''\<rparr> (answers rate_limited_30),
                  tool_catch = formatError\<rparr>"
       and this = "\<lparr>accessToken = ''token''\<rparr>" and remote = "answers rate_limited_30"
       and a = hello_note and log = "[]" and m = "''Rate limit exceeded''"
       and log' = "[hello_request \<lparr>accessToken = ''token''\<rparr>]"]
    create_sticky_note_member rate_limited_hello_note
  by simp

subsection \<open>C5: the envelope of every invocation\<close>

text \<open>
  Claim C5, as stated, fails at the connection test: the remote service answers 401, the
  request of the tool fails with the Authentication error, and the envelope returned has
  no error flag; it carries a result that says \<open>connected: false\<close>.
\<close>

theorem C5_test_connection_counterexample:
  \<open>invoke_tool (createStatelessServer \<lparr>accessToken = ''token''\<rparr> (answers unauthorized_401))
     ''miro_test_connection'' [] []
   = Some (\<lparr>content = [\<lparr>block_type = ''text'',
                          block_text = Some (join newline
                            [''{'', ''  "connected": false,'',
                             ''  "message": "Authentication failed. Check your Miro access token."'',
                             ''}''])\<rparr>],
             isError = None\<rparr>,
           [\<lparr>req_url = ''https://api.miro.com/v2/users/me'', req_method = ''GET'',
             req_headers = [(''Authorization'', ''Bearer token''),
                 (''Content-Type'', ''application/json'')],
             req_body = None\<rparr>])
   \<and> fst (request \<lparr>accessToken = ''token''\<rparr> (answers unauthorized_401) ''/users/me'' GET [])
     = Inl (AuthenticationError ''Authentication failed. Check your Miro access token.'')\<close>
  by code_simp

text \<open>
  Claim C5, amended. For every invocation of a registered tool the envelope has exactly
  one content block, of type text (in a failure envelope its text is a string);
  \<open>isError\<close> is present and true exactly when the handler's \<open>try\<close> block threw (the
  client method it awaits failed, or shaping the result faulted) and is absent otherwise.
  The \<open>try\<close> block of \<open>miro_test_connection\<close> never throws, since the client method
  reports a failed connection as a result, so that tool never sets the flag.
\<close>

theorem C5_envelope_shape:
  assumes "t \<in> set (createStatelessServer this remote)"
  shows "(\<exists>b. content (fst (call_tool t a log)) = [\<lparr>block_type = ''text'', block_text = b\<rparr>]
             \<and> (isl (fst (tool_body t a log)) \<longrightarrow> b \<noteq> None))
       \<and> isError (fst (call_tool t a log)) = (if isl (fst (tool_body t a log)) then Some True else None)
       \<and> (tool_name t = ''miro_test_connection'' \<longrightarrow> isError (fst (call_tool t a log)) = None)"
proof -
  obtain res log' where r: "tool_body t a log = (res, log')"
    by (cases "tool_body t a log")
  have c: "tool_catch t = formatError \<or> tool_catch t = miro_test_connection_catch"
    using server_shape [OF assms] by auto
  have s: "(\<exists>b. content (fst (call_tool t a log)) = [\<lparr>block_type = ''text'', block_text = b\<rparr>]
              \<and> (isl (fst (tool_body t a log)) \<longrightarrow> b \<noteq> None))
       \<and> isError (fst (call_tool t a log)) = (if isl (fst (tool_body t a log)) then Some True else None)"
  proof (cases res)
    case (Inl e)
    with r c show ?thesis
      by (auto simp add: call_tool_def formatError_def miro_test_connection_catch_def Let_def
          JSON_stringify2_def)
  next
    case (Inr v)
    have "text_only (tool_body t)"
      using server_shape [OF assms] by simp
    with r Inr obtain b where "v = text_response b"
      unfolding text_only_def by blast
    with r Inr show ?thesis
      by (simp add: call_tool_def text_response_def)
  qed
  have n: "isError (fst (call_tool t a log)) = None" if "tool_name t = ''miro_test_connection''"
    using s test_connection_by_name [OF assms that] miro_test_connection_returns [of this remote a log]
    by auto
  from s n show ?thesis by blast
qed

lemma offline_hello_note:
  "isl (fst (miro_create_sticky_note \<lparr>accessToken = ''token''\<rparr> offline hello_note []))"
  by code_simp

theorem C5_envelope_shape_witness:
  "(\<exists>s. content (fst (call_tool
            \<lparr>tool_name = ''miro_create_sticky_note'',
               tool_body = miro_create_sticky_note \<lparr>accessToken = ''token''\<rparr> offline,
               tool_catch = formatError\<rparr> hello_note []))
         = [\<lparr>block_type = ''text'', block_text = Some s\<rparr>])
   \<and> isError (fst (call_tool
            \<lparr>tool_name = ''miro_create_sticky_note'',
               tool_body = miro_create_sticky_note \<lparr>accessToken = ''token''\<rparr> offline,
               tool_catch = formatError\<rparr> hello_note []))
     = Some True"
  using C5_envelope_shape
    [where t = "\<lparr>tool_name = ''miro_create_sticky_note'',
                  tool_body = miro_create_sticky_note \<lparr>accessToken = ''token''\<rparr> offline,
                  tool_catch = formatError\<rparr>"
       and this = "\<lparr>accessToken = ''token''\<rparr>" and remote = offline and a = hello_note and log = "[]"]
    create_sticky_note_member offline_hello_note
  by auto

subsection \<open>C6: other failures and the empty success\<close>

text \<open>
  Claim C6, as stated, fails at \<open>testConnection\<close>: on an HTTP 500 with no JSON body the
  method does not fail, it returns a result that carries the message; and the default
  message reads \<open>Miro API error: 500\<close>.
\<close>

theorem C6_testConnection_counterexample:
  "invoke \<lparr>accessToken = ''token''\<rparr>
     (answers \<lparr>res_status = 500, res_headers = Map.empty, res_body = Not_json []\<rparr>)
     Call_testConnection []
   = (Inr (JObj [(''connected'', JBool False), (''message'', JStr ''Miro API error: 500'')]),
      [\<lparr>req_url = ''https://api.miro.com/v2/users/me'', req_method = ''GET'',
        req_headers = [(''Authorization'', ''Bearer token''),
            (''Content-Type'', ''application/json'')],
        req_body = None\<rparr>])"
  by code_simp

text \<open>
  Claim C6, amended. A response that is not 2xx and not 429, 401 or 403 makes every
  client method but \<open>testConnection\<close> fail with a Generic error that carries the HTTP
  status and the message in the spec's words (the \<open>message\<close> field of the JSON error body,
  else its \<open>error\<close> field, else \<open>Miro API error: \<close> followed by the status);
  \<open>testConnection\<close> returns a result with \<open>connected: false\<close> and that message. On an HTTP
  204 the request helper succeeds with no body, and so does every method that does not
  read the body (all but \<open>testConnection\<close> and \<open>getTagsFromItem\<close>).
\<close>

theorem C6_generic_failure_and_no_content:
  assumes "accessToken this \<noteq> []"
  shows "(\<not> response_ok response \<and> res_status response \<notin> {429, 401, 403} \<longrightarrow>
            fst (invoke this (answers response) c log) =
              (if c = Call_testConnection
               then Inr (JObj [(''connected'', JBool False),
                               (''message'', JStr (spec_generic_message (res_status response) (res_body response)))])
               else Inl (MiroApiError (spec_generic_message (res_status response) (res_body response))
                           (res_status response))))
       \<and> (res_status response = 204 \<longrightarrow>
            fst (request this (answers response) endpoint options log) = Inr JUndefined
            \<and> (c \<noteq> Call_testConnection \<and> (\<forall>b i. c \<noteq> Call_getTagsFromItem b i) \<longrightarrow>
                 fst (invoke this (answers response) c log) = Inr JUndefined))"
proof (intro conjI impI)
  assume h: "\<not> response_ok response \<and> res_status response \<notin> {429, 401, 403}"
  have g: "\<And>endpoint options log. request this (answers response) endpoint options log
          = (Inl (MiroApiError (spec_generic_message (res_status response) (res_body response))
                   (res_status response)), log @ [outgoing this endpoint options])"
    using assms h by (simp add: request_answers handle_response_generic)
  show "fst (invoke this (answers response) c log) =
              (if c = Call_testConnection
               then Inr (JObj [(''connected'', JBool False),
                               (''message'', JStr (spec_generic_message (res_status response) (res_body response)))])
               else Inl (MiroApiError (spec_generic_message (res_status response) (res_body response))
                           (res_status response)))"
    by (cases c) (simp_all add: client_defs testConnection_failure [OF g] await_def g)
next
  assume h: "res_status response = 204"
  show "fst (request this (answers response) endpoint options log) = Inr JUndefined"
    using assms h by (simp add: request_answers handle_response_204)
next
  assume h: "res_status response = 204"
    and n: "c \<noteq> Call_testConnection \<and> (\<forall>b i. c \<noteq> Call_getTagsFromItem b i)"
  have g: "\<And>endpoint options log. request this (answers response) endpoint options log
           = (Inr JUndefined, log @ [outgoing this endpoint options])"
    using assms h by (simp add: request_answers handle_response_204)
  show "fst (invoke this (answers response) c log) = Inr JUndefined"
    using n by (cases c) (simp_all add: client_defs await_def g ok_def)
qed

theorem C6_generic_failure_and_no_content_witness:
  "fst (invoke \<lparr>accessToken = ''token''\<rparr>
          (answers \<lparr>res_status = 404, res_headers = Map.empty,
                     res_body = Json_body (JObj [(''message'', JStr ''Board not found'')])\<rparr>)
          (Call_getBoard (JStr ''b1'')) [])
   = Inl (MiroApiError ''Board not found'' 404)
   \<and> fst (invoke \<lparr>accessToken = ''token''\<rparr>
            (answers \<lparr>res_status = 204, res_headers = Map.empty, res_body = Not_json []\<rparr>)
            (Call_deleteBoard (JStr ''b1'')) [])
     = Inr JUndefined"
  using C6_generic_failure_and_no_content
    [where this = "\<lparr>accessToken = ''token''\<rparr>"
       and response = "\<lparr>res_status = 404, res_headers = Map.empty,
                         res_body = Json_body (JObj [(''message'', JStr ''Board not found'')])\<rparr>"
       and c = "Call_getBoard (JStr ''b1'')" and log = "[]"]
    C6_generic_failure_and_no_content
    [where this = "\<lparr>accessToken = ''token''\<rparr>"
       and response = "\<lparr>res_status = 204, res_headers = Map.empty, res_body = Not_json []\<rparr>"
       and c = "Call_deleteBoard (JStr ''b1'')" and log = "[]"]
  by (simp add: response_ok_def spec_generic_message_def js_prop_def)

subsection \<open>C7: creating a sticky note, end to end\<close>







subsection \<open>C8 and C9: pages in markdown\<close>

text \<open>
  Claim C8. A paginated result whose \<open>data\<close> is empty is rendered in markdown, for every
  entity label, as the header lines followed by the line \<open>_No items found._\<close>; no table
  function is called, so the text does not end in a table that has only its two header
  lines.
\<close>

theorem C8_empty_page_no_items_marker:
  assumes "map_of kvs ''data'' = Some (JArr [])"
  shows "formatPaginatedAsMarkdown (JObj kvs) ety
           = Inr (join newline (page_header (JObj kvs) ety) @ newline @ ''_No items found._'')
       \<and> formatResponse (JObj kvs) (JStr ''markdown'') ety
           = Inr (text_response
                    (Some (join newline (page_header (JObj kvs) ety) @ newline
                        @ ''_No items found._'')))
       \<and> (\<forall>tbl \<in> {formatBoardsTable [], formatItemsTable [], formatMembersTable [], formatTagsTable []}.
             \<forall>h. tbl = Inr h \<longrightarrow>
               \<not> suffix h (join newline (page_header (JObj kvs) ety) @ newline
                   @ ''_No items found._''))"
proof -
  let ?text = "join newline (page_header (JObj kvs) ety) @ newline @ ''_No items found._''"
  have p: "formatPaginatedAsMarkdown (JObj kvs) ety = Inr ?text"
    using assms by (simp add: formatPaginatedAsMarkdown_def join_snoc page_header_nonempty js_prop_def)
  have r: "formatResponse (JObj kvs) (JStr ''markdown'') ety = Inr (text_response (Some ?text))"
    using object_is_paginated [OF assms] p by (simp add: formatResponse_def formatAsMarkdown_def)
  have t: "\<not> suffix h ?text" if "h \<noteq> []" "last h = CHR ''|''" for h
  proof
    assume "suffix h ?text"
    then obtain zs where "?text = zs @ h" by (auto simp add: suffix_def)
    then have "last ?text = last (zs @ h)" by simp
    with that show False by simp
  qed
  have b: "\<not> suffix (join newline [''| ID | Name | Description | View Link |'', ''|---|---|---|---|'']) ?text"
    by (rule t) (simp_all add: newline_def)
  have i: "\<not> suffix (join newline [''| ID | Type | Content/Title | Position |'', ''|---|---|---|---|'']) ?text"
    by (rule t) (simp_all add: newline_def)
  have m: "\<not> suffix (join newline [''| ID | Name | Email | Role |'', ''|---|---|---|---|'']) ?text"
    by (rule t) (simp_all add: newline_def)
  have g: "\<not> suffix (join newline [''| ID | Title | Color |'', ''|---|---|---|'']) ?text"
    by (rule t) (simp_all add: newline_def)
  have "\<forall>tbl \<in> {formatBoardsTable [], formatItemsTable [], formatMembersTable [], formatTagsTable []}.
             \<forall>h. tbl = Inr h \<longrightarrow> \<not> suffix h ?text"
    using b i m g
    by (simp add: formatBoardsTable_def formatItemsTable_def formatMembersTable_def formatTagsTable_def)
  with p r show ?thesis by simp
qed

lemma empty_page_example:
  "join newline (page_header (JObj [(''data'', JArr []), (''size'', JNum 0)]) ''boards'')
     @ newline @ ''_No items found._''
   = join newline [''## Boards'', [], ''**Showing:** 0'', [], ''_No items found._'']"
  by code_simp

theorem C8_empty_page_no_items_marker_witness:
  "formatResponse (JObj [(''data'', JArr []), (''size'', JNum 0)]) (JStr ''markdown'') ''boards''
   = Inr (text_response (Some (join newline
       [''## Boards'', [], ''**Showing:** 0'', [], ''_No items found._''])))"
  using C8_empty_page_no_items_marker
    [where kvs = "[(''data'', JArr []), (''size'', JNum 0)]" and ety = "''boards''"]
  by (simp only: empty_page_example) simp







subsection \<open>C10: the position of an update\<close>




lemma update_tools_registered:
  assumes "(tool, input, kind) \<in> set update_tools_with_position"
  shows "\<exists>t \<in> set (createStatelessServer this remote).
           tool_body t = tool this remote \<and> tool_catch t = formatError"
  using assms by (auto simp add: update_tools_with_position_def register_defs)




end
